theory Spec2Isabelle
  imports Main "HOL-Library.Word" "HOL-Library.Signed_Division" "HOL-Library.Monad_Syntax" "HOL-Library.Code_Target_Numeral"
begin

unbundle bit_operations_syntax

section \<open>Value references (tag layer used by rtl\_exec.c)\<close>

text \<open>
  A \<^verbatim>\<open>VALUE\<close> is a 64-bit word, a C \<^verbatim>\<open>long\<close> is a 64-bit word read through
  \<^term>\<open>sint\<close>.
\<close>

type_synonym VALUE = "64 word"
type_synonym long = "64 word"

text \<open>
  Modelled from the spec: the tag macros of the object-model contract
  (\<^verbatim>\<open>FIXNUM_P\<close>, \<^verbatim>\<open>FIX2LONG\<close>, \<^verbatim>\<open>LONG2FIX\<close>, \<^verbatim>\<open>RB_FIXABLE\<close>, \<^verbatim>\<open>LONG2NUM\<close>,
  \<^verbatim>\<open>RTEST\<close>, \<^verbatim>\<open>NIL_P\<close>, \<^verbatim>\<open>SPECIAL_CONST_P\<close>, the \<^verbatim>\<open>Q\<close> constants) live in
  ruby.h, which is not under src/.  They are written here for the 64-bit
  flonum layout, the one that the literals \<^verbatim>\<open>0x12\<close> and \<^verbatim>\<open>0x7210000002\<close> of
  rtl\_exec.c presuppose.
\<close>

definition Qfalse :: VALUE where "Qfalse = 0x00"
definition Qtrue :: VALUE where "Qtrue = 0x14"
definition Qnil :: VALUE where "Qnil = 0x08"
definition Qundef :: VALUE where "Qundef = 0x34"

definition RTEST :: "VALUE \<Rightarrow> bool" where
  "RTEST v = (v AND NOT Qnil \<noteq> 0)"

definition NIL_P :: "VALUE \<Rightarrow> bool" where
  "NIL_P v = (v = Qnil)"

definition FIXNUM_P :: "VALUE \<Rightarrow> bool" where
  "FIXNUM_P v = (v AND 1 \<noteq> 0)"

definition FIXNUM_2_P :: "VALUE \<Rightarrow> VALUE \<Rightarrow> bool" where
  "FIXNUM_2_P a b = ((a AND b) AND 1 \<noteq> 0)"

definition FLONUM_P :: "VALUE \<Rightarrow> bool" where
  "FLONUM_P v = (v AND 3 = 2)"

definition FLONUM_2_P :: "VALUE \<Rightarrow> VALUE \<Rightarrow> bool" where
  "FLONUM_2_P a b = (((a XOR 2) OR (b XOR 2)) AND 3 = 0)"

definition IMMEDIATE_P :: "VALUE \<Rightarrow> bool" where
  "IMMEDIATE_P v = (v AND 7 \<noteq> 0)"

definition SPECIAL_CONST_P :: "VALUE \<Rightarrow> bool" where
  "SPECIAL_CONST_P v = (IMMEDIATE_P v \<or> \<not> RTEST v)"

definition FIX2LONG :: "VALUE \<Rightarrow> long" where
  "FIX2LONG x = signed_drop_bit 1 x"


definition LONG2FIX :: "long \<Rightarrow> VALUE" where
  "LONG2FIX i = push_bit 1 i OR 1"

definition FIXNUM_MAX :: int where "FIXNUM_MAX = 2 ^ 62 - 1"
definition FIXNUM_MIN :: int where "FIXNUM_MIN = - (2 ^ 62)"

definition RB_FIXABLE :: "int \<Rightarrow> bool" where
  "RB_FIXABLE f = (f < FIXNUM_MAX + 1 \<and> f \<ge> FIXNUM_MIN)"

text \<open>
  \<^verbatim>\<open>rb_int2big\<close> allocates an arbitrary-precision integer object for a C
  \<^verbatim>\<open>long\<close>; the allocator is an external collaborator and is passed in.
\<close>

definition LONG2NUM :: "(long \<Rightarrow> VALUE) \<Rightarrow> long \<Rightarrow> VALUE" where
  "LONG2NUM rb_int2big v = (if RB_FIXABLE (sint v) then LONG2FIX v else rb_int2big v)"

text \<open>The mathematical integer a fixnum stands for.\<close>

definition fix_int :: "VALUE \<Rightarrow> int" where
  "fix_int v = sint (FIX2LONG v)"

section \<open>Fast paths of the arithmetic instructions\<close>

text \<open>
  \<^verbatim>\<open>arithmf(fix_num_plus)\<close>, the branch compiled when \<^verbatim>\<open>LONG_LONG_VALUE\<close> is
  not defined (a \<^verbatim>\<open>VALUE\<close> is an \<^verbatim>\<open>unsigned long\<close>).  \<^verbatim>\<open>val>>1\<close> is a logical
  shift of an unsigned word.
\<close>

definition msb :: VALUE where
  "msb = push_bit 63 1"

definition fix_num_plus :: "(long \<Rightarrow> VALUE) \<Rightarrow> VALUE \<Rightarrow> VALUE \<Rightarrow> VALUE" where
  "fix_num_plus rb_int2big op1 op2 =
     (let val = op1 - 1 + op2 in
      if (NOT (op1 XOR op2) AND (op1 XOR val)) AND msb \<noteq> 0
      then rb_int2big (drop_bit 1 val OR (op1 AND msb))
      else val)"

definition fix_num_minus :: "(long \<Rightarrow> VALUE) \<Rightarrow> VALUE \<Rightarrow> VALUE \<Rightarrow> VALUE" where
  "fix_num_minus rb_int2big op1 op2 =
     (let a = FIX2LONG op1; b = FIX2LONG op2; c = a - b
      in LONG2NUM rb_int2big c)"

text \<open>
  \<^verbatim>\<open>rb_fix_mul_fix\<close>, \<^verbatim>\<open>rb_fix_div_fix\<close> and \<^verbatim>\<open>rb_fix_mod_fix\<close> are helpers of
  internal.h (not under src/); the generic fast paths receive them as
  parameters.
\<close>

definition fix_num_mult :: "(VALUE \<Rightarrow> VALUE \<Rightarrow> VALUE) \<Rightarrow> VALUE \<Rightarrow> VALUE \<Rightarrow> VALUE" where
  "fix_num_mult rb_fix_mul_fix op1 op2 = rb_fix_mul_fix op1 op2"

definition fix_num_div :: "(VALUE \<Rightarrow> VALUE \<Rightarrow> VALUE) \<Rightarrow> VALUE \<Rightarrow> VALUE \<Rightarrow> VALUE" where
  "fix_num_div rb_fix_div_fix op1 op2 =
     (if FIX2LONG op2 = 0 then Qundef else rb_fix_div_fix op1 op2)"

definition fix_num_mod :: "(VALUE \<Rightarrow> VALUE \<Rightarrow> VALUE) \<Rightarrow> VALUE \<Rightarrow> VALUE \<Rightarrow> VALUE" where
  "fix_num_mod rb_fix_mod_fix op1 op2 =
     (if FIX2LONG op2 = 0 then Qundef else rb_fix_mod_fix op1 op2)"

subsection \<open>Speculative fast paths\<close>

definition spec_fix_num_plus :: "VALUE \<Rightarrow> VALUE \<Rightarrow> VALUE" where
  "spec_fix_num_plus op1 op2 =
     (let val = op1 - 1 + op2 in
      if (NOT (op1 XOR op2) AND (op1 XOR val)) AND msb \<noteq> 0 then Qundef else val)"

definition spec_fix_num_minus :: "VALUE \<Rightarrow> VALUE \<Rightarrow> VALUE" where
  "spec_fix_num_minus op1 op2 =
     (let a = FIX2LONG op1; b = FIX2LONG op2; c = a - b
      in if \<not> RB_FIXABLE (sint c) then Qundef else LONG2FIX c)"

text \<open>
  \<^verbatim>\<open>spec_fix_num_mult\<close>, the \<^verbatim>\<open>DLONG\<close> branch: the product is taken in a
  128-bit integer, where it cannot overflow, so it is the exact product.
\<close>

definition spec_fix_num_mult :: "VALUE \<Rightarrow> VALUE \<Rightarrow> VALUE" where
  "spec_fix_num_mult op1 op2 =
     (let l1 = FIX2LONG op1; l2 = FIX2LONG op2; v = sint l1 * sint l2
      in if RB_FIXABLE v then LONG2FIX (word_of_int v) else Qundef)"

text \<open>C division and remainder truncate towards zero: \<open>sdiv\<close> and \<open>smod\<close>.\<close>

definition spec_fix_num_div :: "(long \<Rightarrow> VALUE) \<Rightarrow> VALUE \<Rightarrow> VALUE \<Rightarrow> VALUE" where
  "spec_fix_num_div rb_int2big op1 op2 =
     (let l1 = sint (FIX2LONG op1); l2 = sint (FIX2LONG op2) in
      if l2 = 0 then Qundef
      else if l1 = FIXNUM_MIN \<and> l2 = - 1 then LONG2NUM rb_int2big (word_of_int (- FIXNUM_MIN))
      else let d = l1 sdiv l2; m = l1 smod l2;
               d' = (if (if l2 > 0 then m < 0 else m > 0) then d - 1 else d)
           in LONG2FIX (word_of_int d'))"

definition spec_fix_num_mod :: "VALUE \<Rightarrow> VALUE \<Rightarrow> VALUE" where
  "spec_fix_num_mod op1 op2 =
     (let l1 = sint (FIX2LONG op1); l2 = sint (FIX2LONG op2) in
      if l2 = 0 then Qundef
      else if l1 = FIXNUM_MIN \<and> l2 = - 1 then LONG2FIX 0
      else let m = l1 smod l2;
               m' = (if (if l2 > 0 then m < 0 else m > 0) then m + l2 else m)
           in LONG2FIX (word_of_int m'))"

subsection \<open>Comparison fast paths\<close>

definition fix_num_eq :: "VALUE \<Rightarrow> VALUE \<Rightarrow> bool" where
  "fix_num_eq a b = (sint a = sint b)"

definition fix_num_ne :: "VALUE \<Rightarrow> VALUE \<Rightarrow> bool" where
  "fix_num_ne a b = (sint a \<noteq> sint b)"

definition fix_num_lt :: "VALUE \<Rightarrow> VALUE \<Rightarrow> bool" where
  "fix_num_lt a b = (sint a < sint b)"

definition fix_num_gt :: "VALUE \<Rightarrow> VALUE \<Rightarrow> bool" where
  "fix_num_gt a b = (sint a > sint b)"

definition fix_num_le :: "VALUE \<Rightarrow> VALUE \<Rightarrow> bool" where
  "fix_num_le a b = (sint a \<le> sint b)"

definition fix_num_ge :: "VALUE \<Rightarrow> VALUE \<Rightarrow> bool" where
  "fix_num_ge a b = (sint a \<ge> sint b)"

section \<open>Frame, interpreter state and external collaborators (rtl\_exec.c)\<close>

text \<open>
  A \<^verbatim>\<open>VALUE *\<close> is the index of a cell; \<open>mem\<close> is the store of cells (VM
  stack and object memory).  \<open>cfp_pc_insn\<close> is the opcode stored at
  \<^verbatim>\<open>cfp->pc\<close>, the cell \<^verbatim>\<open>vm_change_insn\<close> overwrites.  \<open>cancel_p\<close> stands for
  \<^verbatim>\<open>cfp->ep[VM_ENV_DATA_INDEX_FLAGS] & VM_FRAME_FLAG_CANCEL\<close>.  \<open>check_ints\<close>
  counts the executions of \<^verbatim>\<open>RUBY_VM_CHECK_INTS\<close>.  \<open>world\<close> is everything an
  external collaborator owns (call-site caches, method tables, objects).
\<close>

type_synonym addr = int
type_synonym insn_id = string

datatype ruby_basic_operators =
  BOP_PLUS | BOP_MINUS | BOP_MULT | BOP_DIV | BOP_MOD
  | BOP_EQ | BOP_NEQ | BOP_LT | BOP_LE | BOP_GT | BOP_GE | BOP_AREF

datatype redefined_op_flag =
  INTEGER_REDEFINED_OP_FLAG | FLOAT_REDEFINED_OP_FLAG | STRING_REDEFINED_OP_FLAG
  | ARRAY_REDEFINED_OP_FLAG | HASH_REDEFINED_OP_FLAG

record 'w vm =
  mem :: "addr \<Rightarrow> VALUE"
  cfp_sp :: addr
  cfp_bp :: addr
  cfp_ep :: addr
  cfp_pc_insn :: insn_id
  temp_vars_num :: nat
  ruby_vm_redefined_flag :: "ruby_basic_operators \<Rightarrow> redefined_op_flag set"
  mjit_bop_redefined_p :: bool
  mjit_ep_neq_bp_p :: bool
  in_mjit_p :: bool
  cancel_p :: bool
  check_ints :: nat
  world :: 'w

text \<open>\<^verbatim>\<open>CALL_DATA\<close>: the call-site handle; only \<^verbatim>\<open>call_start\<close> is read here.\<close>

record call_data =
  call_start :: int
  call_site :: nat

text \<open>
  The external collaborators of the executor, passed in: the integer
  allocator and the fixnum helpers of internal.h, the floating-point fast
  paths (floating point is not modelled), the class of a heap object, the
  method search and the call through the call-site cache
  (\<^verbatim>\<open>(*(cc)->call)(ec, cfp, calling, ci, cc)\<close>), the accelerator, arrays and
  hashes.
\<close>

record 'w ext =
  rb_int2big :: "long \<Rightarrow> VALUE"
  rb_fix_mul_fix :: "VALUE \<Rightarrow> VALUE \<Rightarrow> VALUE"
  rb_fix_div_fix :: "VALUE \<Rightarrow> VALUE \<Rightarrow> VALUE"
  rb_fix_mod_fix :: "VALUE \<Rightarrow> VALUE \<Rightarrow> VALUE"
  float_num_arith :: "ruby_basic_operators \<Rightarrow> VALUE \<Rightarrow> VALUE \<Rightarrow> VALUE"
  float_num_cmp :: "ruby_basic_operators \<Rightarrow> VALUE \<Rightarrow> VALUE \<Rightarrow> bool"
  double_num_cmp :: "ruby_basic_operators \<Rightarrow> VALUE \<Rightarrow> VALUE \<Rightarrow> bool"
  RBASIC_CLASS :: "'w vm \<Rightarrow> VALUE \<Rightarrow> VALUE"
  rb_cFloat :: VALUE
  rb_cString :: VALUE
  rb_cArray :: VALUE
  rb_cHash :: VALUE
  rb_str_plus :: "VALUE \<Rightarrow> VALUE \<Rightarrow> VALUE"
  rb_ary_plus :: "VALUE \<Rightarrow> VALUE \<Rightarrow> VALUE"
  rb_str_equal :: "VALUE \<Rightarrow> VALUE \<Rightarrow> VALUE"
  vm_search_method :: "call_data \<Rightarrow> VALUE \<Rightarrow> 'w vm \<Rightarrow> 'w vm"
  check_cfunc_rb_obj_equal :: "call_data \<Rightarrow> 'w vm \<Rightarrow> bool"
  cc_call :: "call_data \<Rightarrow> VALUE \<Rightarrow> 'w vm \<Rightarrow> VALUE \<times> 'w vm"
  mjit_vm_exec :: "'w vm \<Rightarrow> VALUE \<times> 'w vm"
  mjit_change_iseq :: "'w vm \<Rightarrow> 'w vm"
  RARRAY_LEN :: "'w vm \<Rightarrow> VALUE \<Rightarrow> long"
  RARRAY_CONST_PTR :: "'w vm \<Rightarrow> VALUE \<Rightarrow> addr"

definition RTL_GET_BP :: "'w vm \<Rightarrow> addr" where
  "RTL_GET_BP cfp = (if mjit_ep_neq_bp_p cfp then cfp_bp cfp else cfp_ep cfp)"

definition get_temp_addr :: "'w vm \<Rightarrow> int \<Rightarrow> addr" where
  "get_temp_addr cfp ind = RTL_GET_BP cfp - ind"

definition set_default_sp_0 :: "'w vm \<Rightarrow> addr \<Rightarrow> nat \<Rightarrow> 'w vm" where
  "set_default_sp_0 cfp bp tvn = cfp\<lparr>cfp_sp := bp + 1 + int tvn\<rparr>"

definition set_default_sp :: "'w vm \<Rightarrow> addr \<Rightarrow> 'w vm" where
  "set_default_sp cfp bp = set_default_sp_0 cfp bp (temp_vars_num cfp)"


definition BASIC_OP_UNREDEFINED_P :: "'w vm \<Rightarrow> ruby_basic_operators \<Rightarrow> redefined_op_flag \<Rightarrow> bool" where
  "BASIC_OP_UNREDEFINED_P st bop klass = (klass \<notin> ruby_vm_redefined_flag st bop)"

definition vm_change_insn :: "'w vm \<Rightarrow> insn_id \<Rightarrow> 'w vm" where
  "vm_change_insn st insn_id = st\<lparr>cfp_pc_insn := insn_id\<rparr>"

definition RUBY_VM_CHECK_INTS :: "'w vm \<Rightarrow> 'w vm" where
  "RUBY_VM_CHECK_INTS st = st\<lparr>check_ints := Suc (check_ints st)\<rparr>"

definition store :: "'w vm \<Rightarrow> addr \<Rightarrow> VALUE \<Rightarrow> 'w vm" where
  "store st a v = st\<lparr>mem := (mem st)(a := v)\<rparr>"

subsection \<open>Calls\<close>

definition call_method :: "'w ext \<Rightarrow> call_data \<Rightarrow> VALUE \<Rightarrow> 'w vm \<Rightarrow> VALUE \<times> 'w vm" where
  "call_method ext cd recv cfp =
     (let (val, cfp1) = cc_call ext cd recv cfp in
      if val \<noteq> Qundef then (val, set_default_sp cfp1 (RTL_GET_BP cfp1))
      else if in_mjit_p cfp1 then
        (let (val2, cfp2) = mjit_vm_exec ext cfp1
         in (val2, set_default_sp cfp2 (RTL_GET_BP cfp2)))
      else (val, cfp1))"

definition call_simple_method :: "'w ext \<Rightarrow> call_data \<Rightarrow> addr \<Rightarrow> 'w vm \<Rightarrow> VALUE \<times> 'w vm" where
  "call_simple_method ext cd recv cfp =
     (let r = mem cfp recv; cfp1 = vm_search_method ext cd r cfp
      in call_method ext cd r cfp1)"

definition op2_call :: "'w ext \<Rightarrow> call_data \<Rightarrow> addr \<Rightarrow> VALUE \<Rightarrow> 'w vm \<Rightarrow> VALUE \<times> 'w vm" where
  "op2_call ext cd recv op2 cfp =
     (let sp = get_temp_addr cfp (call_start cd);
          cfp1 = store cfp sp (mem cfp recv);
          cfp2 = store cfp1 (sp + 1) op2;
          cfp3 = cfp2\<lparr>cfp_sp := sp + 2\<rparr>
      in call_simple_method ext cd sp cfp3)"

definition op_val_call_end :: "'w ext \<Rightarrow> addr \<Rightarrow> VALUE \<Rightarrow> 'w vm \<Rightarrow> int \<times> 'w vm" where
  "op_val_call_end ext res val cfp =
     (if val = Qundef then (1, cfp)
      else let cfp1 = store cfp res val in
        if \<not> in_mjit_p cfp1 then (0, cfp1)
        else if \<not> cancel_p cfp1 then (0, cfp1)
        else (1, mjit_change_iseq ext cfp1))"

subsection \<open>Generic arithmetic\<close>

definition do_arithm ::
  "'w ext \<Rightarrow> call_data \<Rightarrow> addr \<Rightarrow> addr \<Rightarrow> VALUE \<Rightarrow> ruby_basic_operators \<Rightarrow>
   (VALUE \<Rightarrow> VALUE \<Rightarrow> VALUE) \<Rightarrow> (VALUE \<Rightarrow> VALUE \<Rightarrow> VALUE) \<Rightarrow> (VALUE \<Rightarrow> VALUE \<Rightarrow> VALUE) \<Rightarrow>
   bool \<Rightarrow> bool \<Rightarrow> bool \<Rightarrow> insn_id \<Rightarrow> insn_id \<Rightarrow> 'w vm \<Rightarrow> int \<times> 'w vm" where
  "do_arithm ext cd res op1 op2 bop fix_num_op float_num_op double_num_op
             op2_fixnum_p op2_flonum_p change_p fix_insn_id flo_insn_id cfp =
     (let v1 = mem cfp op1;
          slow = (\<lambda>c. let (val, c1) = op2_call ext cd op1 op2 c in op_val_call_end ext res val c1)
      in
      if ((op2_fixnum_p \<and> FIXNUM_P v1)
          \<or> (\<not> op2_fixnum_p \<and> \<not> op2_flonum_p \<and> FIXNUM_2_P v1 op2))
         \<and> BASIC_OP_UNREDEFINED_P cfp bop INTEGER_REDEFINED_OP_FLAG
      then
        (let val = fix_num_op v1 op2 in
         if val \<noteq> Qundef \<or> (bop \<noteq> BOP_DIV \<and> bop \<noteq> BOP_MOD)
         then (let cfp1 = store cfp res val;
                   cfp2 = (if change_p then vm_change_insn cfp1 fix_insn_id else cfp1)
               in (0, cfp2))
         else slow cfp)
      else if ((op2_flonum_p \<and> FLONUM_P v1)
               \<or> (\<not> op2_fixnum_p \<and> \<not> op2_flonum_p \<and> FLONUM_2_P v1 op2))
              \<and> BASIC_OP_UNREDEFINED_P cfp bop FLOAT_REDEFINED_OP_FLAG
      then
        (let cfp1 = store cfp res (float_num_op v1 op2);
             cfp2 = (if change_p then vm_change_insn cfp1 flo_insn_id else cfp1)
         in (0, cfp2))
      else if \<not> op2_fixnum_p \<and> \<not> op2_flonum_p
              \<and> \<not> SPECIAL_CONST_P v1 \<and> \<not> SPECIAL_CONST_P op2
      then
        (if RBASIC_CLASS ext cfp v1 = rb_cFloat ext \<and> RBASIC_CLASS ext cfp op2 = rb_cFloat ext
            \<and> BASIC_OP_UNREDEFINED_P cfp bop FLOAT_REDEFINED_OP_FLAG
         then (0, store cfp res (double_num_op v1 op2))
         else if bop = BOP_PLUS \<and> RBASIC_CLASS ext cfp v1 = rb_cString ext
                 \<and> RBASIC_CLASS ext cfp op2 = rb_cString ext
                 \<and> BASIC_OP_UNREDEFINED_P cfp bop STRING_REDEFINED_OP_FLAG
         then (0, store cfp res (rb_str_plus ext v1 op2))
         else if bop = BOP_PLUS \<and> RBASIC_CLASS ext cfp v1 = rb_cArray ext
                 \<and> BASIC_OP_UNREDEFINED_P cfp bop ARRAY_REDEFINED_OP_FLAG
         then (0, store cfp res (rb_ary_plus ext v1 op2))
         else slow cfp)
      else slow cfp)"

definition arithm_op ::
  "'w ext \<Rightarrow> call_data \<Rightarrow> addr \<Rightarrow> addr \<Rightarrow> addr \<Rightarrow> ruby_basic_operators \<Rightarrow>
   (VALUE \<Rightarrow> VALUE \<Rightarrow> VALUE) \<Rightarrow> (VALUE \<Rightarrow> VALUE \<Rightarrow> VALUE) \<Rightarrow> (VALUE \<Rightarrow> VALUE \<Rightarrow> VALUE) \<Rightarrow>
   bool \<Rightarrow> insn_id \<Rightarrow> insn_id \<Rightarrow> 'w vm \<Rightarrow> int \<times> 'w vm" where
  "arithm_op ext cd res op1 op2 bop fix_num_op float_num_op double_num_op
             change_p fix_insn_id flo_insn_id cfp =
     do_arithm ext cd res op1 (mem cfp op2) bop fix_num_op float_num_op double_num_op
               False False change_p fix_insn_id flo_insn_id cfp"

definition arithm_imm_op ::
  "'w ext \<Rightarrow> call_data \<Rightarrow> addr \<Rightarrow> addr \<Rightarrow> VALUE \<Rightarrow> ruby_basic_operators \<Rightarrow>
   (VALUE \<Rightarrow> VALUE \<Rightarrow> VALUE) \<Rightarrow> (VALUE \<Rightarrow> VALUE \<Rightarrow> VALUE) \<Rightarrow> (VALUE \<Rightarrow> VALUE \<Rightarrow> VALUE) \<Rightarrow>
   bool \<Rightarrow> bool \<Rightarrow> bool \<Rightarrow> insn_id \<Rightarrow> insn_id \<Rightarrow> 'w vm \<Rightarrow> int \<times> 'w vm" where
  "arithm_imm_op ext cd res op1 imm bop fix_num_op float_num_op double_num_op
                 fixnum_p flonum_p change_p fix_insn_id flo_insn_id cfp =
     do_arithm ext cd res op1 imm bop fix_num_op float_num_op double_num_op
               fixnum_p flonum_p change_p fix_insn_id flo_insn_id cfp"

text \<open>
  The fast-path function table that the token pasting \<^verbatim>\<open>fix_num_ ## suff\<close>,
  \<^verbatim>\<open>float_num_ ## suff\<close>, \<^verbatim>\<open>double_num_ ## suff\<close> selects.  In the source
  \<^verbatim>\<open>double_num_mod\<close> calls \<^verbatim>\<open>float_num_mult\<close>, and the \<^verbatim>\<open>double_num_\<close>
  arithmetic functions call the \<^verbatim>\<open>float_num_\<close> ones.
\<close>

definition fix_num_arith :: "'w ext \<Rightarrow> ruby_basic_operators \<Rightarrow> VALUE \<Rightarrow> VALUE \<Rightarrow> VALUE" where
  "fix_num_arith ext bop =
     (case bop of
        BOP_PLUS \<Rightarrow> fix_num_plus (rb_int2big ext)
      | BOP_MINUS \<Rightarrow> fix_num_minus (rb_int2big ext)
      | BOP_MULT \<Rightarrow> fix_num_mult (rb_fix_mul_fix ext)
      | BOP_DIV \<Rightarrow> fix_num_div (rb_fix_div_fix ext)
      | _ \<Rightarrow> fix_num_mod (rb_fix_mod_fix ext))"

definition double_num_arith :: "'w ext \<Rightarrow> ruby_basic_operators \<Rightarrow> VALUE \<Rightarrow> VALUE \<Rightarrow> VALUE" where
  "double_num_arith ext bop =
     (if bop = BOP_MOD then float_num_arith ext BOP_MULT else float_num_arith ext bop)"

definition suff :: "ruby_basic_operators \<Rightarrow> string" where
  "suff bop =
     (case bop of
        BOP_PLUS \<Rightarrow> ''plus'' | BOP_MINUS \<Rightarrow> ''minus'' | BOP_MULT \<Rightarrow> ''mult''
      | BOP_DIV \<Rightarrow> ''div'' | BOP_MOD \<Rightarrow> ''mod''
      | BOP_EQ \<Rightarrow> ''eq'' | BOP_NEQ \<Rightarrow> ''ne'' | BOP_LT \<Rightarrow> ''lt'' | BOP_LE \<Rightarrow> ''le''
      | BOP_GT \<Rightarrow> ''gt'' | BOP_GE \<Rightarrow> ''ge'' | BOP_AREF \<Rightarrow> ''ind'')"

text \<open>
  The macros \<^verbatim>\<open>arithm_call\<close>, \<^verbatim>\<open>uarithm_call\<close>, \<^verbatim>\<open>arithm_fix_call\<close> and
  \<^verbatim>\<open>uarithm_fix_call\<close>: the instruction functions \<^verbatim>\<open>plus_f\<close>, \<^verbatim>\<open>uplus_f\<close>,
  \<^verbatim>\<open>plusi_f\<close>, \<^verbatim>\<open>uplusi_f\<close> and their siblings are these at \<^verbatim>\<open>BOP_PLUS\<close>,
  \<^verbatim>\<open>BOP_MINUS\<close>, \<^verbatim>\<open>BOP_MULT\<close>, \<^verbatim>\<open>BOP_DIV\<close>, \<^verbatim>\<open>BOP_MOD\<close>.
\<close>

definition arithm_call ::
  "'w ext \<Rightarrow> ruby_basic_operators \<Rightarrow> call_data \<Rightarrow> addr \<Rightarrow> addr \<Rightarrow> addr \<Rightarrow> 'w vm \<Rightarrow> int \<times> 'w vm" where
  "arithm_call ext bop cd res op1 op2 =
     arithm_op ext cd res op1 op2 bop (fix_num_arith ext bop) (float_num_arith ext bop)
       (double_num_arith ext bop) True (''i'' @ suff bop) (''f'' @ suff bop)"

definition uarithm_call ::
  "'w ext \<Rightarrow> ruby_basic_operators \<Rightarrow> call_data \<Rightarrow> addr \<Rightarrow> addr \<Rightarrow> addr \<Rightarrow> 'w vm \<Rightarrow> int \<times> 'w vm" where
  "uarithm_call ext bop cd res op1 op2 =
     arithm_op ext cd res op1 op2 bop (fix_num_arith ext bop) (float_num_arith ext bop)
       (double_num_arith ext bop) False [] []"

definition arithm_fix_call ::
  "'w ext \<Rightarrow> ruby_basic_operators \<Rightarrow> call_data \<Rightarrow> addr \<Rightarrow> addr \<Rightarrow> VALUE \<Rightarrow> 'w vm \<Rightarrow> int \<times> 'w vm" where
  "arithm_fix_call ext bop cd res op1 imm =
     arithm_imm_op ext cd res op1 imm bop (fix_num_arith ext bop) (float_num_arith ext bop)
       (double_num_arith ext bop) True False True (''i'' @ suff bop @ ''i'') []"

definition uarithm_fix_call ::
  "'w ext \<Rightarrow> ruby_basic_operators \<Rightarrow> call_data \<Rightarrow> addr \<Rightarrow> addr \<Rightarrow> VALUE \<Rightarrow> 'w vm \<Rightarrow> int \<times> 'w vm" where
  "uarithm_fix_call ext bop cd res op1 imm =
     arithm_imm_op ext cd res op1 imm bop (fix_num_arith ext bop) (float_num_arith ext bop)
       (double_num_arith ext bop) True False False [] []"

definition plus_f where "plus_f ext = arithm_call ext BOP_PLUS"
definition minus_f where "minus_f ext = arithm_call ext BOP_MINUS"
definition div_f where "div_f ext = arithm_call ext BOP_DIV"
definition mod_f where "mod_f ext = arithm_call ext BOP_MOD"
definition uplus_f where "uplus_f ext = uarithm_call ext BOP_PLUS"
definition uminus_f where "uminus_f ext = uarithm_call ext BOP_MINUS"
definition udiv_f where "udiv_f ext = uarithm_call ext BOP_DIV"
definition umod_f where "umod_f ext = uarithm_call ext BOP_MOD"
definition plusi_f where "plusi_f ext = arithm_fix_call ext BOP_PLUS"
definition minusi_f where "minusi_f ext = arithm_fix_call ext BOP_MINUS"
definition divi_f where "divi_f ext = arithm_fix_call ext BOP_DIV"
definition modi_f where "modi_f ext = arithm_fix_call ext BOP_MOD"
definition uplusi_f where "uplusi_f ext = uarithm_fix_call ext BOP_PLUS"
definition uminusi_f where "uminusi_f ext = uarithm_fix_call ext BOP_MINUS"
definition udivi_f where "udivi_f ext = uarithm_fix_call ext BOP_DIV"
definition umodi_f where "umodi_f ext = uarithm_fix_call ext BOP_MOD"

subsection \<open>Speculative arithmetic\<close>

text \<open>
  A speculative instruction function returns its C result, the opcode it
  stored through the out-parameter \<^verbatim>\<open>new_insn\<close> (\<open>None\<close>: nothing stored) and
  the state.
\<close>

definition do_spec_fix_arithm ::
  "addr \<Rightarrow> addr \<Rightarrow> VALUE \<Rightarrow> ruby_basic_operators \<Rightarrow> (VALUE \<Rightarrow> VALUE \<Rightarrow> VALUE) \<Rightarrow>
   bool \<Rightarrow> insn_id \<Rightarrow> 'w vm \<Rightarrow> bool \<times> insn_id option \<times> 'w vm" where
  "do_spec_fix_arithm res op1 op2 bop fix_num_op op2_fixnum_p uinsn cfp =
     (let v1 = mem cfp op1 in
      if (\<not> mjit_bop_redefined_p cfp \<or> BASIC_OP_UNREDEFINED_P cfp bop INTEGER_REDEFINED_OP_FLAG)
         \<and> ((op2_fixnum_p \<and> FIXNUM_P v1) \<or> (\<not> op2_fixnum_p \<and> FIXNUM_2_P v1 op2))
      then
        (let val = fix_num_op v1 op2 in
         if val \<noteq> Qundef then (False, None, store cfp res val)
         else (True, Some uinsn, cfp))
      else (True, Some uinsn, cfp))"

definition spec_fix_arithm_op ::
  "addr \<Rightarrow> addr \<Rightarrow> addr \<Rightarrow> ruby_basic_operators \<Rightarrow> (VALUE \<Rightarrow> VALUE \<Rightarrow> VALUE) \<Rightarrow>
   insn_id \<Rightarrow> 'w vm \<Rightarrow> bool \<times> insn_id option \<times> 'w vm" where
  "spec_fix_arithm_op res op1 op2 bop fix_num_op uinsn cfp =
     do_spec_fix_arithm res op1 (mem cfp op2) bop fix_num_op False uinsn cfp"

definition spec_fix_arithm_imm_op ::
  "addr \<Rightarrow> addr \<Rightarrow> VALUE \<Rightarrow> ruby_basic_operators \<Rightarrow> (VALUE \<Rightarrow> VALUE \<Rightarrow> VALUE) \<Rightarrow>
   insn_id \<Rightarrow> 'w vm \<Rightarrow> bool \<times> insn_id option \<times> 'w vm" where
  "spec_fix_arithm_imm_op res op1 imm bop fix_num_op uinsn cfp =
     do_spec_fix_arithm res op1 imm bop fix_num_op True uinsn cfp"

definition spec_fix_num_arith :: "'w ext \<Rightarrow> ruby_basic_operators \<Rightarrow> VALUE \<Rightarrow> VALUE \<Rightarrow> VALUE" where
  "spec_fix_num_arith ext bop =
     (case bop of
        BOP_PLUS \<Rightarrow> spec_fix_num_plus
      | BOP_MINUS \<Rightarrow> spec_fix_num_minus
      | BOP_MULT \<Rightarrow> spec_fix_num_mult
      | BOP_DIV \<Rightarrow> spec_fix_num_div (rb_int2big ext)
      | _ \<Rightarrow> spec_fix_num_mod)"

definition spec_fix_arithm_call ::
  "'w ext \<Rightarrow> ruby_basic_operators \<Rightarrow> addr \<Rightarrow> addr \<Rightarrow> addr \<Rightarrow> 'w vm \<Rightarrow> bool \<times> insn_id option \<times> 'w vm" where
  "spec_fix_arithm_call ext bop res op1 op2 =
     spec_fix_arithm_op res op1 op2 bop (spec_fix_num_arith ext bop) (''u'' @ suff bop)"

definition spec_fix_arithm_imm_call ::
  "'w ext \<Rightarrow> ruby_basic_operators \<Rightarrow> addr \<Rightarrow> addr \<Rightarrow> VALUE \<Rightarrow> 'w vm \<Rightarrow> bool \<times> insn_id option \<times> 'w vm" where
  "spec_fix_arithm_imm_call ext bop res op1 imm =
     spec_fix_arithm_imm_op res op1 imm bop (spec_fix_num_arith ext bop) (''u'' @ suff bop @ ''i'')"

definition iplus_f where "iplus_f ext = spec_fix_arithm_call ext BOP_PLUS"
definition iminus_f where "iminus_f ext = spec_fix_arithm_call ext BOP_MINUS"
definition imult_f where "imult_f ext = spec_fix_arithm_call ext BOP_MULT"
definition idiv_f where "idiv_f ext = spec_fix_arithm_call ext BOP_DIV"
definition imod_f where "imod_f ext = spec_fix_arithm_call ext BOP_MOD"
definition iminusi_f where "iminusi_f ext = spec_fix_arithm_imm_call ext BOP_MINUS"
definition imulti_f where "imulti_f ext = spec_fix_arithm_imm_call ext BOP_MULT"
definition idivi_f where "idivi_f ext = spec_fix_arithm_imm_call ext BOP_DIV"
definition imodi_f where "imodi_f ext = spec_fix_arithm_imm_call ext BOP_MOD"

subsection \<open>Generic comparison\<close>

definition bool_val :: "bool \<Rightarrow> VALUE" where
  "bool_val cmp = (if cmp then Qtrue else Qfalse)"

definition common_cmp ::
  "'w ext \<Rightarrow> call_data \<Rightarrow> addr \<Rightarrow> VALUE \<Rightarrow> ruby_basic_operators \<Rightarrow>
   (VALUE \<Rightarrow> VALUE \<Rightarrow> bool) \<Rightarrow> (VALUE \<Rightarrow> VALUE \<Rightarrow> bool) \<Rightarrow> (VALUE \<Rightarrow> VALUE \<Rightarrow> bool) \<Rightarrow>
   bool \<Rightarrow> bool \<Rightarrow> bool \<Rightarrow> insn_id \<Rightarrow> insn_id \<Rightarrow> 'w vm \<Rightarrow> VALUE \<times> 'w vm" where
  "common_cmp ext cd op1 op2 bop fix_num_cmp float_num_cmp' double_num_cmp'
              op2_fixnum_p op2_flonum_p change_p fix_insn_id flo_insn_id cfp =
     (let v1 = mem cfp op1 in
      if ((op2_fixnum_p \<and> FIXNUM_P v1)
          \<or> (\<not> op2_fixnum_p \<and> \<not> op2_flonum_p \<and> FIXNUM_2_P v1 op2))
         \<and> BASIC_OP_UNREDEFINED_P cfp bop INTEGER_REDEFINED_OP_FLAG
      then
        (let cfp1 = (if change_p then vm_change_insn cfp fix_insn_id else cfp)
         in (bool_val (fix_num_cmp v1 op2), cfp1))
      else if ((op2_flonum_p \<and> FLONUM_P v1)
               \<or> (\<not> op2_fixnum_p \<and> \<not> op2_flonum_p \<and> FLONUM_2_P v1 op2))
              \<and> BASIC_OP_UNREDEFINED_P cfp bop FLOAT_REDEFINED_OP_FLAG
      then
        (let cfp1 = (if change_p then vm_change_insn cfp flo_insn_id else cfp)
         in (bool_val (float_num_cmp' v1 op2), cfp1))
      else if \<not> op2_fixnum_p \<and> \<not> op2_flonum_p
              \<and> \<not> SPECIAL_CONST_P v1 \<and> \<not> SPECIAL_CONST_P op2
      then
        (if RBASIC_CLASS ext cfp v1 = rb_cFloat ext \<and> RBASIC_CLASS ext cfp op2 = rb_cFloat ext
            \<and> BASIC_OP_UNREDEFINED_P cfp bop FLOAT_REDEFINED_OP_FLAG
         then (bool_val (double_num_cmp' v1 op2), cfp)
         else if bop = BOP_EQ \<and> RBASIC_CLASS ext cfp v1 = rb_cString ext
                 \<and> RBASIC_CLASS ext cfp op2 = rb_cString ext
                 \<and> BASIC_OP_UNREDEFINED_P cfp bop STRING_REDEFINED_OP_FLAG
         then (rb_str_equal ext v1 op2, cfp)
         else op2_call ext cd op1 op2 cfp)
      else if bop = BOP_EQ
      then
        (let cfp1 = vm_search_method ext cd v1 cfp in
         if check_cfunc_rb_obj_equal ext cd cfp1 then (bool_val (v1 = op2), cfp1)
         else op2_call ext cd op1 op2 cfp1)
      else op2_call ext cd op1 op2 cfp)"

definition do_cmp ::
  "'w ext \<Rightarrow> call_data \<Rightarrow> addr \<Rightarrow> addr \<Rightarrow> VALUE \<Rightarrow> ruby_basic_operators \<Rightarrow>
   (VALUE \<Rightarrow> VALUE \<Rightarrow> bool) \<Rightarrow> (VALUE \<Rightarrow> VALUE \<Rightarrow> bool) \<Rightarrow> (VALUE \<Rightarrow> VALUE \<Rightarrow> bool) \<Rightarrow>
   bool \<Rightarrow> bool \<Rightarrow> bool \<Rightarrow> insn_id \<Rightarrow> insn_id \<Rightarrow> 'w vm \<Rightarrow> int \<times> 'w vm" where
  "do_cmp ext cd res op1 op2 bop fix_num_cmp float_num_cmp' double_num_cmp'
          op2_fixnum_p op2_flonum_p change_p fix_insn_id flo_insn_id cfp =
     (let (val, cfp1) = common_cmp ext cd op1 op2 bop fix_num_cmp float_num_cmp' double_num_cmp'
                          op2_fixnum_p op2_flonum_p change_p fix_insn_id flo_insn_id cfp
      in op_val_call_end ext res val cfp1)"

definition fix_num_cmp_of :: "ruby_basic_operators \<Rightarrow> VALUE \<Rightarrow> VALUE \<Rightarrow> bool" where
  "fix_num_cmp_of bop =
     (case bop of
        BOP_EQ \<Rightarrow> fix_num_eq | BOP_NEQ \<Rightarrow> fix_num_ne | BOP_LT \<Rightarrow> fix_num_lt
      | BOP_GT \<Rightarrow> fix_num_gt | BOP_LE \<Rightarrow> fix_num_le | _ \<Rightarrow> fix_num_ge)"

text \<open>
  The macros \<^verbatim>\<open>cmp_call\<close>, \<^verbatim>\<open>ucmp_call\<close>, \<^verbatim>\<open>cmp_fix_call\<close>, \<^verbatim>\<open>ucmp_fix_call\<close>
  (through \<^verbatim>\<open>cmp_op\<close> and \<^verbatim>\<open>cmp_imm_op\<close>): \<^verbatim>\<open>eq_f\<close>, \<^verbatim>\<open>ueq_f\<close>, \<^verbatim>\<open>eqi_f\<close>,
  \<^verbatim>\<open>ueqi_f\<close> and their siblings are these at the six comparison operators.
\<close>

definition cmp_call ::
  "'w ext \<Rightarrow> ruby_basic_operators \<Rightarrow> call_data \<Rightarrow> addr \<Rightarrow> addr \<Rightarrow> addr \<Rightarrow> 'w vm \<Rightarrow> int \<times> 'w vm" where
  "cmp_call ext bop cd res op1 op2 cfp =
     do_cmp ext cd res op1 (mem cfp op2) bop (fix_num_cmp_of bop) (float_num_cmp ext bop)
       (double_num_cmp ext bop) False False True (''i'' @ suff bop) (''f'' @ suff bop) cfp"

definition ucmp_call ::
  "'w ext \<Rightarrow> ruby_basic_operators \<Rightarrow> call_data \<Rightarrow> addr \<Rightarrow> addr \<Rightarrow> addr \<Rightarrow> 'w vm \<Rightarrow> int \<times> 'w vm" where
  "ucmp_call ext bop cd res op1 op2 cfp =
     do_cmp ext cd res op1 (mem cfp op2) bop (fix_num_cmp_of bop) (float_num_cmp ext bop)
       (double_num_cmp ext bop) False False False [] [] cfp"

definition cmp_fix_call ::
  "'w ext \<Rightarrow> ruby_basic_operators \<Rightarrow> call_data \<Rightarrow> addr \<Rightarrow> addr \<Rightarrow> VALUE \<Rightarrow> 'w vm \<Rightarrow> int \<times> 'w vm" where
  "cmp_fix_call ext bop cd res op1 imm cfp =
     do_cmp ext cd res op1 imm bop (fix_num_cmp_of bop) (float_num_cmp ext bop)
       (double_num_cmp ext bop) True False True (''i'' @ suff bop @ ''i'') [] cfp"

definition ucmp_fix_call ::
  "'w ext \<Rightarrow> ruby_basic_operators \<Rightarrow> call_data \<Rightarrow> addr \<Rightarrow> addr \<Rightarrow> VALUE \<Rightarrow> 'w vm \<Rightarrow> int \<times> 'w vm" where
  "ucmp_fix_call ext bop cd res op1 imm cfp =
     do_cmp ext cd res op1 imm bop (fix_num_cmp_of bop) (float_num_cmp ext bop)
       (double_num_cmp ext bop) True False False [] [] cfp"

subsection \<open>Speculative comparison, and comparison with branch\<close>

definition common_spec_fix_cmp ::
  "'w vm \<Rightarrow> VALUE \<Rightarrow> VALUE \<Rightarrow> ruby_basic_operators \<Rightarrow> (VALUE \<Rightarrow> VALUE \<Rightarrow> bool) \<Rightarrow> bool \<Rightarrow> VALUE" where
  "common_spec_fix_cmp cfp op1 op2 bop fix_num_cmp op2_fixnum_p =
     (if (\<not> mjit_bop_redefined_p cfp \<or> BASIC_OP_UNREDEFINED_P cfp bop INTEGER_REDEFINED_OP_FLAG)
         \<and> ((op2_fixnum_p \<and> FIXNUM_P op1) \<or> (\<not> op2_fixnum_p \<and> FIXNUM_2_P op1 op2))
      then bool_val (fix_num_cmp op1 op2)
      else Qundef)"

definition do_spec_fix_cmp ::
  "addr \<Rightarrow> addr \<Rightarrow> VALUE \<Rightarrow> ruby_basic_operators \<Rightarrow> (VALUE \<Rightarrow> VALUE \<Rightarrow> bool) \<Rightarrow>
   bool \<Rightarrow> insn_id \<Rightarrow> 'w vm \<Rightarrow> bool \<times> insn_id option \<times> 'w vm" where
  "do_spec_fix_cmp res op1 op2 bop fix_num_cmp op2_fixnum_p uinsn cfp =
     (let val = common_spec_fix_cmp cfp (mem cfp op1) op2 bop fix_num_cmp op2_fixnum_p in
      if val = Qundef then (True, Some uinsn, cfp)
      else (False, None, store cfp res val))"

definition spec_fix_cmp_call ::
  "ruby_basic_operators \<Rightarrow> addr \<Rightarrow> addr \<Rightarrow> addr \<Rightarrow> 'w vm \<Rightarrow> bool \<times> insn_id option \<times> 'w vm" where
  "spec_fix_cmp_call bop res op1 op2 cfp =
     do_spec_fix_cmp res op1 (mem cfp op2) bop (fix_num_cmp_of bop) False (''u'' @ suff bop) cfp"

definition spec_fix_cmp_imm_call ::
  "ruby_basic_operators \<Rightarrow> addr \<Rightarrow> addr \<Rightarrow> VALUE \<Rightarrow> 'w vm \<Rightarrow> bool \<times> insn_id option \<times> 'w vm" where
  "spec_fix_cmp_imm_call bop res op1 imm cfp =
     do_spec_fix_cmp res op1 imm bop (fix_num_cmp_of bop) True (''u'' @ suff bop @ ''i'') cfp"

text \<open>
  The speculative compare-and-branch functions return the jump flag, the
  value stored through the out-parameter \<^verbatim>\<open>val\<close>, the opcode stored through
  \<^verbatim>\<open>new_insn\<close>, and the state.
\<close>

definition spec_bcmp_finish ::
  "addr \<Rightarrow> VALUE \<Rightarrow> bool \<Rightarrow> insn_id \<Rightarrow> 'w vm \<Rightarrow> bool \<times> insn_id option \<times> 'w vm" where
  "spec_bcmp_finish res v true_p uinsn cfp =
     (if v \<noteq> Qundef
      then ((if true_p then RTEST v else \<not> RTEST v), None, store cfp res v)
      else (False, Some uinsn, cfp))"

definition do_spec_fix_bcmp ::
  "addr \<Rightarrow> addr \<Rightarrow> VALUE \<Rightarrow> bool \<Rightarrow> ruby_basic_operators \<Rightarrow> (VALUE \<Rightarrow> VALUE \<Rightarrow> bool) \<Rightarrow>
   bool \<Rightarrow> insn_id \<Rightarrow> 'w vm \<Rightarrow> bool \<times> VALUE \<times> insn_id option \<times> 'w vm" where
  "do_spec_fix_bcmp res op1 op2 true_p bop fix_num_cmp op2_fixnum_p uinsn cfp =
     (let v = common_spec_fix_cmp cfp (mem cfp op1) op2 bop fix_num_cmp op2_fixnum_p;
          (jump, new_insn, cfp1) = spec_bcmp_finish res v true_p uinsn cfp
      in (jump, v, new_insn, cfp1))"

definition spec_fix_bcmp_call ::
  "ruby_basic_operators \<Rightarrow> bool \<Rightarrow> addr \<Rightarrow> addr \<Rightarrow> addr \<Rightarrow> 'w vm \<Rightarrow>
   bool \<times> VALUE \<times> insn_id option \<times> 'w vm" where
  "spec_fix_bcmp_call bop true_p res op1 op2 cfp =
     do_spec_fix_bcmp res op1 (mem cfp op2) true_p bop (fix_num_cmp_of bop) False
       ((if true_p then ''ubt'' else ''ubf'') @ suff bop) cfp"

definition ibfeq_f where "ibfeq_f = spec_fix_bcmp_call BOP_EQ False"

subsection \<open>Speculative indexing\<close>



subsection \<open>Conditional branches\<close>

definition bf_f :: "addr \<Rightarrow> 'w vm \<Rightarrow> bool \<times> 'w vm" where
  "bf_f op cfp =
     (let val = mem cfp op in
      if \<not> RTEST val then (True, RUBY_VM_CHECK_INTS cfp) else (False, cfp))"

definition bt_f :: "addr \<Rightarrow> 'w vm \<Rightarrow> bool \<times> 'w vm" where
  "bt_f op cfp =
     (let val = mem cfp op in
      if RTEST val then (True, RUBY_VM_CHECK_INTS cfp) else (False, cfp))"

definition bnil_f :: "addr \<Rightarrow> 'w vm \<Rightarrow> bool \<times> 'w vm" where
  "bnil_f op cfp =
     (let val = mem cfp op in
      if NIL_P val then (True, RUBY_VM_CHECK_INTS cfp) else (False, cfp))"

subsection \<open>Return\<close>



subsection \<open>Instructions that call external slow-path operations\<close>

text \<open>
  The external operations behind string resurrection, constant, global and
  instance variable access, \<^verbatim>\<open>defined?\<close> and array expansion.  Those that may
  run other code receive the frame and return the state they leave.
  \<^verbatim>\<open>vm_env_write\<close> stores into an environment and informs the garbage
  collector: it acts on the store and on the collaborators' data.
  \<^verbatim>\<open>vm_getinstancevariable\<close> reads \<^verbatim>\<open>self\<close> from the frame it is given.
\<close>

record 'w slow =
  rb_str_resurrect :: "VALUE \<Rightarrow> 'w vm \<Rightarrow> VALUE \<times> 'w vm"
  vm_env_write :: "addr \<Rightarrow> int \<Rightarrow> VALUE \<Rightarrow> (addr \<Rightarrow> VALUE) \<times> 'w \<Rightarrow> (addr \<Rightarrow> VALUE) \<times> 'w"
  vm_get_ev_const :: "VALUE \<Rightarrow> nat \<Rightarrow> 'w vm \<Rightarrow> VALUE \<times> 'w vm"
  GET_GLOBAL :: "VALUE \<Rightarrow> 'w vm \<Rightarrow> VALUE \<times> 'w vm"
  vm_getinstancevariable :: "nat \<Rightarrow> nat \<Rightarrow> 'w vm \<Rightarrow> VALUE \<times> 'w vm"
  vm_defined :: "nat \<Rightarrow> VALUE \<Rightarrow> VALUE \<Rightarrow> VALUE \<Rightarrow> 'w vm \<Rightarrow> VALUE \<times> 'w vm"
  vm_expandarray :: "addr \<Rightarrow> VALUE \<Rightarrow> nat \<Rightarrow> int \<Rightarrow> 'w vm \<Rightarrow> 'w vm"










subsection \<open>Flonum fast paths\<close>

text \<open>
  A C \<^verbatim>\<open>double\<close> is its 64-bit pattern, which is what the union in
  \<^verbatim>\<open>spec_dbl2num\<close> reads.  Floating-point arithmetic and comparison (the C
  operators and \<^verbatim>\<open>ruby_float_mod\<close>) and the conversions \<^verbatim>\<open>RFLOAT_VALUE\<close> and
  \<^verbatim>\<open>DBL2NUM\<close> of ruby.h are not modelled; they are passed in.
\<close>

type_synonym double = "64 word"

record fp =
  dbl_arith :: "ruby_basic_operators \<Rightarrow> double \<Rightarrow> double \<Rightarrow> double"
  dbl_cmp :: "ruby_basic_operators \<Rightarrow> double \<Rightarrow> double \<Rightarrow> bool"
  RFLOAT_VALUE :: "VALUE \<Rightarrow> double"
  DBL2NUM :: "double \<Rightarrow> VALUE"

text \<open>
  \<^verbatim>\<open>float_num_plus\<close>, ..., \<^verbatim>\<open>float_num_mod\<close> and \<^verbatim>\<open>float_num_eq\<close>, ...,
  \<^verbatim>\<open>float_num_ge\<close>; the comparisons \<^verbatim>\<open>eq\<close> and \<^verbatim>\<open>ne\<close> are the \<^verbatim>\<open>NEW_FLONUM\<close>
  ones, on the bits of the two values.
\<close>

definition float_num_arith_of :: "fp \<Rightarrow> ruby_basic_operators \<Rightarrow> VALUE \<Rightarrow> VALUE \<Rightarrow> VALUE" where
  "float_num_arith_of fp bop op1 op2 =
     DBL2NUM fp (dbl_arith fp bop (RFLOAT_VALUE fp op1) (RFLOAT_VALUE fp op2))"

definition float_num_cmp_of :: "fp \<Rightarrow> ruby_basic_operators \<Rightarrow> VALUE \<Rightarrow> VALUE \<Rightarrow> bool" where
  "float_num_cmp_of fp bop a b =
     (case bop of
        BOP_EQ \<Rightarrow> a = b \<or> a OR b = 0x12
      | BOP_NEQ \<Rightarrow> a \<noteq> b \<and> a OR b \<noteq> 0x12
      | _ \<Rightarrow> dbl_cmp fp bop (RFLOAT_VALUE fp a) (RFLOAT_VALUE fp b))"

text \<open>
  \<^verbatim>\<open>spec_dbl2num\<close>, the \<^verbatim>\<open>USE_FLONUM && NEW_FLONUM\<close> branch.  Its out-parameter
  \<^verbatim>\<open>res\<close> receives the double when it is not \<^verbatim>\<open>NULL\<close>; the callers below return
  what was stored through it.
\<close>

definition spec_dbl2num :: "double \<Rightarrow> VALUE" where
  "spec_dbl2num d =
     (let v = word_rotl 5 d;
          sh = 4 * unat (v AND 0xf);
          m = drop_bit sh (0x7210000002 :: VALUE) AND 0xf
      in if m \<noteq> 0 then v XOR m else Qundef)"

text \<open>\<^verbatim>\<open>spec_flo_num_plus\<close>, ..., \<^verbatim>\<open>spec_flo_num_mod\<close>: the value and the double.\<close>

definition spec_flo_num_arith ::
  "fp \<Rightarrow> ruby_basic_operators \<Rightarrow> double \<Rightarrow> double \<Rightarrow> VALUE \<times> double" where
  "spec_flo_num_arith fp bop op1 op2 =
     (let d = dbl_arith fp bop op1 op2 in (spec_dbl2num d, d))"

text \<open>
  The speculative flonum instruction functions take the doubles \<^verbatim>\<open>d1\<close>, \<^verbatim>\<open>d2\<close> of
  operands known to be floating-point values (\<open>None\<close>: a \<^verbatim>\<open>NULL\<close> pointer) and
  return, after the C result and the opcode stored through \<^verbatim>\<open>new_insn\<close>, what
  they stored through \<^verbatim>\<open>rd\<close> (\<open>rd_p\<close>: the pointer is not \<^verbatim>\<open>NULL\<close>).
\<close>

definition do_spec_flo_arithm ::
  "fp \<Rightarrow> addr \<Rightarrow> addr \<Rightarrow> VALUE \<Rightarrow> ruby_basic_operators \<Rightarrow> (double \<Rightarrow> double \<Rightarrow> VALUE \<times> double) \<Rightarrow>
   bool \<Rightarrow> insn_id \<Rightarrow> bool \<Rightarrow> double option \<Rightarrow> double option \<Rightarrow> 'w vm \<Rightarrow>
   bool \<times> insn_id option \<times> double option \<times> 'w vm" where
  "do_spec_flo_arithm fp res op1 op2 bop float_num_op op2_flonum_p uinsn rd_p d1 d2 cfp =
     (let v1 = mem cfp op1 in
      if (\<not> mjit_bop_redefined_p cfp \<or> BASIC_OP_UNREDEFINED_P cfp bop FLOAT_REDEFINED_OP_FLAG)
         \<and> ((op2_flonum_p \<and> (d1 \<noteq> None \<or> FLONUM_P v1))
             \<or> (\<not> op2_flonum_p \<and> ((d1 \<noteq> None \<and> d2 \<noteq> None) \<or> FLONUM_2_P v1 op2)))
      then
        (let flo1 = (case d1 of Some d \<Rightarrow> d | None \<Rightarrow> RFLOAT_VALUE fp v1);
             flo2 = (case d2 of Some d \<Rightarrow> d | None \<Rightarrow> RFLOAT_VALUE fp op2);
             (val, d) = float_num_op flo1 flo2;
             rd = (if rd_p then Some d else None)
         in if val \<noteq> Qundef then (False, None, rd, store cfp res val)
            else (True, Some uinsn, rd, cfp))
      else (True, Some uinsn, None, cfp))"

definition spec_flo_arithm_op ::
  "fp \<Rightarrow> addr \<Rightarrow> addr \<Rightarrow> addr \<Rightarrow> ruby_basic_operators \<Rightarrow> (double \<Rightarrow> double \<Rightarrow> VALUE \<times> double) \<Rightarrow>
   insn_id \<Rightarrow> bool \<Rightarrow> double option \<Rightarrow> double option \<Rightarrow> 'w vm \<Rightarrow>
   bool \<times> insn_id option \<times> double option \<times> 'w vm" where
  "spec_flo_arithm_op fp res op1 op2 bop flo_num_op uinsn rd_p d1 d2 cfp =
     do_spec_flo_arithm fp res op1 (mem cfp op2) bop flo_num_op False uinsn rd_p d1 d2 cfp"

definition spec_flo_arithm_imm_op ::
  "fp \<Rightarrow> addr \<Rightarrow> addr \<Rightarrow> VALUE \<Rightarrow> ruby_basic_operators \<Rightarrow> (double \<Rightarrow> double \<Rightarrow> VALUE \<times> double) \<Rightarrow>
   insn_id \<Rightarrow> bool \<Rightarrow> double option \<Rightarrow> 'w vm \<Rightarrow>
   bool \<times> insn_id option \<times> double option \<times> 'w vm" where
  "spec_flo_arithm_imm_op fp res op1 imm bop flo_num_op uinsn rd_p d1 cfp =
     do_spec_flo_arithm fp res op1 imm bop flo_num_op True uinsn rd_p d1 None cfp"

text \<open>
  The macros \<^verbatim>\<open>spec_flo_arithm_call\<close> and \<^verbatim>\<open>spec_flo_arithm_imm_call\<close>:
  \<^verbatim>\<open>fplus_f\<close>, \<^verbatim>\<open>fplusf_f\<close> and their siblings.
\<close>

definition spec_flo_arithm_call ::
  "fp \<Rightarrow> ruby_basic_operators \<Rightarrow> addr \<Rightarrow> addr \<Rightarrow> addr \<Rightarrow> bool \<Rightarrow> double option \<Rightarrow> double option \<Rightarrow>
   'w vm \<Rightarrow> bool \<times> insn_id option \<times> double option \<times> 'w vm" where
  "spec_flo_arithm_call fp bop res op1 op2 =
     spec_flo_arithm_op fp res op1 op2 bop (spec_flo_num_arith fp bop) (''u'' @ suff bop)"

definition spec_flo_arithm_imm_call ::
  "fp \<Rightarrow> ruby_basic_operators \<Rightarrow> addr \<Rightarrow> addr \<Rightarrow> VALUE \<Rightarrow> bool \<Rightarrow> double option \<Rightarrow>
   'w vm \<Rightarrow> bool \<times> insn_id option \<times> double option \<times> 'w vm" where
  "spec_flo_arithm_imm_call fp bop res op1 imm =
     spec_flo_arithm_imm_op fp res op1 imm bop (spec_flo_num_arith fp bop)
       (''u'' @ suff bop @ ''f'')"

text \<open>
  Speculative flonum comparison; \<^verbatim>\<open>spec_float_num_eq\<close>, ...,
  \<^verbatim>\<open>spec_float_num_ge\<close> are the C comparisons of doubles.
\<close>

definition common_spec_flo_cmp ::
  "fp \<Rightarrow> 'w vm \<Rightarrow> VALUE \<Rightarrow> VALUE \<Rightarrow> ruby_basic_operators \<Rightarrow> (double \<Rightarrow> double \<Rightarrow> bool) \<Rightarrow> bool \<Rightarrow>
   double option \<Rightarrow> double option \<Rightarrow> VALUE" where
  "common_spec_flo_cmp fp cfp op1 op2 bop float_num_cmp' op2_flonum_p d1 d2 =
     (if (\<not> mjit_bop_redefined_p cfp \<or> BASIC_OP_UNREDEFINED_P cfp bop FLOAT_REDEFINED_OP_FLAG)
         \<and> ((op2_flonum_p \<and> (d1 \<noteq> None \<or> FLONUM_P op1))
             \<or> (\<not> op2_flonum_p \<and> ((d1 \<noteq> None \<and> d2 \<noteq> None) \<or> FLONUM_2_P op1 op2)))
      then
        (let flo1 = (case d1 of Some d \<Rightarrow> d | None \<Rightarrow> RFLOAT_VALUE fp op1);
             flo2 = (case d2 of Some d \<Rightarrow> d | None \<Rightarrow> RFLOAT_VALUE fp op2)
         in bool_val (float_num_cmp' flo1 flo2))
      else Qundef)"

definition do_spec_flo_cmp ::
  "fp \<Rightarrow> addr \<Rightarrow> addr \<Rightarrow> VALUE \<Rightarrow> ruby_basic_operators \<Rightarrow> (double \<Rightarrow> double \<Rightarrow> bool) \<Rightarrow>
   bool \<Rightarrow> insn_id \<Rightarrow> double option \<Rightarrow> double option \<Rightarrow> 'w vm \<Rightarrow>
   bool \<times> insn_id option \<times> 'w vm" where
  "do_spec_flo_cmp fp res op1 op2 bop float_num_cmp' op2_flonum_p uinsn d1 d2 cfp =
     (let val = common_spec_flo_cmp fp cfp (mem cfp op1) op2 bop float_num_cmp' op2_flonum_p d1 d2
      in if val = Qundef then (True, Some uinsn, cfp)
         else (False, None, store cfp res val))"

definition spec_flo_cmp_call ::
  "fp \<Rightarrow> ruby_basic_operators \<Rightarrow> addr \<Rightarrow> addr \<Rightarrow> addr \<Rightarrow> double option \<Rightarrow> double option \<Rightarrow>
   'w vm \<Rightarrow> bool \<times> insn_id option \<times> 'w vm" where
  "spec_flo_cmp_call fp bop res op1 op2 d1 d2 cfp =
     do_spec_flo_cmp fp res op1 (mem cfp op2) bop (dbl_cmp fp bop) False (''u'' @ suff bop)
       d1 d2 cfp"

definition spec_flo_cmp_imm_call ::
  "fp \<Rightarrow> ruby_basic_operators \<Rightarrow> addr \<Rightarrow> addr \<Rightarrow> VALUE \<Rightarrow> double option \<Rightarrow>
   'w vm \<Rightarrow> bool \<times> insn_id option \<times> 'w vm" where
  "spec_flo_cmp_imm_call fp bop res op1 imm d cfp =
     do_spec_flo_cmp fp res op1 imm bop (dbl_cmp fp bop) True (''u'' @ suff bop @ ''f'')
       d None cfp"

text \<open>
  The generic instructions with a flonum immediate: the macros
  \<^verbatim>\<open>arithm_flo_call\<close>, \<^verbatim>\<open>uarithm_flo_call\<close>, \<^verbatim>\<open>cmp_flo_call\<close>, \<^verbatim>\<open>ucmp_flo_call\<close>.
\<close>

definition arithm_flo_call ::
  "'w ext \<Rightarrow> ruby_basic_operators \<Rightarrow> call_data \<Rightarrow> addr \<Rightarrow> addr \<Rightarrow> VALUE \<Rightarrow> 'w vm \<Rightarrow> int \<times> 'w vm" where
  "arithm_flo_call ext bop cd res op1 imm =
     arithm_imm_op ext cd res op1 imm bop (fix_num_arith ext bop) (float_num_arith ext bop)
       (double_num_arith ext bop) False True True [] (''f'' @ suff bop @ ''f'')"

definition uarithm_flo_call ::
  "'w ext \<Rightarrow> ruby_basic_operators \<Rightarrow> call_data \<Rightarrow> addr \<Rightarrow> addr \<Rightarrow> VALUE \<Rightarrow> 'w vm \<Rightarrow> int \<times> 'w vm" where
  "uarithm_flo_call ext bop cd res op1 imm =
     arithm_imm_op ext cd res op1 imm bop (fix_num_arith ext bop) (float_num_arith ext bop)
       (double_num_arith ext bop) False True False [] []"

definition cmp_flo_call ::
  "'w ext \<Rightarrow> ruby_basic_operators \<Rightarrow> call_data \<Rightarrow> addr \<Rightarrow> addr \<Rightarrow> VALUE \<Rightarrow> 'w vm \<Rightarrow> int \<times> 'w vm" where
  "cmp_flo_call ext bop cd res op1 imm cfp =
     do_cmp ext cd res op1 imm bop (fix_num_cmp_of bop) (float_num_cmp ext bop)
       (double_num_cmp ext bop) False True True [] (''f'' @ suff bop @ ''f'') cfp"

definition ucmp_flo_call ::
  "'w ext \<Rightarrow> ruby_basic_operators \<Rightarrow> call_data \<Rightarrow> addr \<Rightarrow> addr \<Rightarrow> VALUE \<Rightarrow> 'w vm \<Rightarrow> int \<times> 'w vm" where
  "ucmp_flo_call ext bop cd res op1 imm cfp =
     do_cmp ext cd res op1 imm bop (fix_num_cmp_of bop) (float_num_cmp ext bop)
       (double_num_cmp ext bop) False True False [] [] cfp"


section \<open>The abstract stack analyzer (rtl\_gen.c)\<close>

subsection \<open>Input: stack bytecode, catch table, events\<close>

text \<open>
  The stack instruction stream \<^verbatim>\<open>iseq_encoded\<close> is a list of cells indexed by
  position.  The cell at the position of an instruction holds the instruction
  with its operands (\<^verbatim>\<open>code[pos + 1]\<close>, \<^verbatim>\<open>code[pos + 2]\<close>); the following
  \<^verbatim>\<open>insn_len - 1\<close> cells, which hold the operands in the C array, are
  \<open>OPERAND\<close> cells.  The constructors are the instructions that
  \<^verbatim>\<open>update_stack_by_insn\<close> names, written as there with \<^verbatim>\<open>BIN\<close>; \<open>NO_RESULT\<close> stands for the other
  instructions of its first group (\<^verbatim>\<open>setspecial\<close>, \<^verbatim>\<open>setinstancevariable\<close>,
  \<^verbatim>\<open>setclassvariable\<close>, \<^verbatim>\<open>setconstant\<close>, \<^verbatim>\<open>setglobal\<close>, \<^verbatim>\<open>setblockparam\<close>,
  \<^verbatim>\<open>opt_call_c_function\<close>, \<^verbatim>\<open>tracecoverage\<close>) and \<open>OTHER\<close> for every
  instruction of the \<^verbatim>\<open>default\<close> group; both carry their number of operands
  and their stack increase.
\<close>

datatype insn =
    BIN_putself | BIN_putnil | BIN_putobject int | BIN_putobject_INT2FIX_0 | BIN_putobject_INT2FIX_1
  | BIN_getlocal int nat | BIN_getlocal_WC_0 int | BIN_getlocal_WC_1 int
  | BIN_setlocal int nat | BIN_setlocal_WC_0 int | BIN_setlocal_WC_1 int
  | BIN_setn nat | BIN_topn nat | BIN_dup | BIN_dupn nat | BIN_swap | BIN_reverse nat | BIN_expandarray nat nat
  | BIN_branchif int | BIN_branchunless int | BIN_branchnil int | BIN_getinlinecache int | BIN_jump int
  | BIN_opt_case_dispatch "int list" int
  | BIN_leave | BIN_pop | BIN_nop | BIN_adjuststack nat
  | NO_RESULT nat int
  | OTHER nat int
  | OPERAND

text \<open>
  Modelled from the spec: the per-instruction length and stack-effect metadata
  (\<^verbatim>\<open>insn_len\<close> and \<^verbatim>\<open>insn_stack_increase\<close> of insns\_info.inc, not under src/),
  which the spec lists as part of the input (``per-position stack-effect
  metadata'').  The values are those of the stack instruction set.
\<close>

fun insn_len :: "insn \<Rightarrow> nat" where
  "insn_len (BIN_putobject v) = 2"
| "insn_len (BIN_getlocal idx level) = 3"
| "insn_len (BIN_getlocal_WC_0 idx) = 2"
| "insn_len (BIN_getlocal_WC_1 idx) = 2"
| "insn_len (BIN_setlocal idx level) = 3"
| "insn_len (BIN_setlocal_WC_0 idx) = 2"
| "insn_len (BIN_setlocal_WC_1 idx) = 2"
| "insn_len (BIN_setn n) = 2"
| "insn_len (BIN_topn n) = 2"
| "insn_len (BIN_dupn n) = 2"
| "insn_len (BIN_reverse n) = 2"
| "insn_len (BIN_expandarray num flag) = 3"
| "insn_len (BIN_branchif off) = 2"
| "insn_len (BIN_branchunless off) = 2"
| "insn_len (BIN_branchnil off) = 2"
| "insn_len (BIN_getinlinecache off) = 3"
| "insn_len (BIN_jump off) = 2"
| "insn_len (BIN_opt_case_dispatch hash else_off) = 3"
| "insn_len (BIN_adjuststack n) = 2"
| "insn_len (NO_RESULT nops inc) = Suc nops"
| "insn_len (OTHER nops inc) = Suc nops"
| "insn_len _ = 1"

fun sp_inc :: "insn \<Rightarrow> int" where
  "sp_inc BIN_putself = 1"
| "sp_inc BIN_putnil = 1"
| "sp_inc (BIN_putobject v) = 1"
| "sp_inc BIN_putobject_INT2FIX_0 = 1"
| "sp_inc BIN_putobject_INT2FIX_1 = 1"
| "sp_inc (BIN_getlocal idx level) = 1"
| "sp_inc (BIN_getlocal_WC_0 idx) = 1"
| "sp_inc (BIN_getlocal_WC_1 idx) = 1"
| "sp_inc (BIN_setlocal idx level) = - 1"
| "sp_inc (BIN_setlocal_WC_0 idx) = - 1"
| "sp_inc (BIN_setlocal_WC_1 idx) = - 1"
| "sp_inc (BIN_setn n) = 0"
| "sp_inc (BIN_topn n) = 1"
| "sp_inc BIN_dup = 1"
| "sp_inc (BIN_dupn n) = int n"
| "sp_inc BIN_swap = 0"
| "sp_inc (BIN_reverse n) = 0"
| "sp_inc (BIN_expandarray num flag) = int num - 1 + (if odd flag then 1 else 0)"
| "sp_inc (BIN_branchif off) = - 1"
| "sp_inc (BIN_branchunless off) = - 1"
| "sp_inc (BIN_branchnil off) = - 1"
| "sp_inc (BIN_getinlinecache off) = 1"
| "sp_inc (BIN_jump off) = 0"
| "sp_inc (BIN_opt_case_dispatch hash else_off) = - 1"
| "sp_inc BIN_leave = 0"
| "sp_inc BIN_pop = - 1"
| "sp_inc BIN_nop = 0"
| "sp_inc (BIN_adjuststack n) = - int n"
| "sp_inc (NO_RESULT nops inc) = inc"
| "sp_inc (OTHER nops inc) = inc"
| "sp_inc OPERAND = 0"

text \<open>
  \<^verbatim>\<open>insn_stack_increase(depth, insn, TRUE, operands)\<close> on a \<^verbatim>\<open>size_t\<close> depth; a
  result below zero is no depth at all.
\<close>

definition insn_stack_increase :: "nat \<Rightarrow> insn \<Rightarrow> nat option" where
  "insn_stack_increase depth i =
     (if int depth + sp_inc i < 0 then None else Some (nat (int depth + sp_inc i)))"

datatype catch_type =
  CATCH_TYPE_RESCUE | CATCH_TYPE_ENSURE | CATCH_TYPE_RETRY
  | CATCH_TYPE_BREAK | CATCH_TYPE_REDO | CATCH_TYPE_NEXT

record iseq_catch_table_entry =
  ct_type :: catch_type
  ct_start :: nat
  ct_end :: nat
  ct_cont :: nat
  ct_sp :: nat

text \<open>
  \<open>event_line\<close> gives, for a position with an attached event
  (\<^verbatim>\<open>insn_info_entry_ind[pos] >= 0\<close>), the line number of its info entry.
\<close>

record iseq =
  iseq_encoded :: "insn list"
  iseq_size :: nat
  local_table_size :: nat
  catch_table :: "iseq_catch_table_entry list option"
  event_line :: "nat \<Rightarrow> int option"

subsection \<open>Emulated stack slots and the generator state\<close>

text \<open>The enumerator \<^verbatim>\<open>STR\<close> is written \<open>STR'\<close>: \<open>STR\<close> is reserved by HOL's string literals.\<close>

datatype slot_type = ANY | SELF | VAL | STR' | LOC | TEMP

text \<open>
  The members of the union \<^verbatim>\<open>u\<close> (\<^verbatim>\<open>val\<close>, \<^verbatim>\<open>str\<close>, \<^verbatim>\<open>loc\<close>, \<^verbatim>\<open>temp\<close>) share
  their storage: one field.  Where the C code leaves a member or
  \<^verbatim>\<open>source_insn_pos\<close> uninitialised (the union of a \<^verbatim>\<open>SELF\<close> slot, the producer
  of the \<^verbatim>\<open>TEMP\<close> slots that \<^verbatim>\<open>reverse\<close> makes), the model writes 0; those
  fields are never read.
\<close>

record stack_slot =
  mode :: slot_type
  source_insn_pos :: nat
  u :: int

text \<open>
  The generated sequence \<^verbatim>\<open>iseq_rtl\<close> is an array of \<^verbatim>\<open>VALUE\<close> cells: the code of a
  register instruction, then its operands.  The codes are those the modelled
  functions emit.
\<close>

datatype rtl_insn =
  RTL_nop | RTL_var2var | RTL_temp2temp | RTL_loc2loc | RTL_loc2temp | RTL_temp2loc
  | RTL_val2loc | RTL_val2temp | RTL_self2var | RTL_iseq2var | RTL_str2var
  | RTL_var_swap | RTL_temp_reverse

datatype rtl_cell = INSN rtl_insn | OPND int

text \<open>Label types.\<close>

definition NO_LABEL :: nat where "NO_LABEL = 0"
definition CONT_LABEL :: nat where "CONT_LABEL = 1"
definition BRANCH_LABEL :: nat where "BRANCH_LABEL = 2"

definition VM_ENV_DATA_SIZE :: nat where "VM_ENV_DATA_SIZE = 3"

record gen =
  stack :: "stack_slot list"
  max_stack_depth :: nat
  loc_stack_count :: "nat list"
  label_pos_stack :: "nat list"
  pos_stack_free :: "nat list"
  pos_label_type :: "nat list"
  label_processed_p :: "bool list"
  catch_bound_pos_p :: "bool list"
  use_only_temp_result_p :: "bool list"
  label_start_stack_slot :: "nat list"
  saved_stack_slots :: "stack_slot list"
  stack_on_label_change_p :: bool
  iseq_rtl :: "rtl_cell list"
  curr_catch_rtl_pos :: nat
  curr_source_insn_pos :: nat

text \<open>
  A read or a write of a variable-length array outside its elements, and a
  failed \<^verbatim>\<open>assert\<close>, end the run: the result is \<open>None\<close>.
\<close>

definition VARR_GET :: "'a list \<Rightarrow> nat \<Rightarrow> 'a option" where
  "VARR_GET xs i = (if i < length xs then Some (xs ! i) else None)"

definition VARR_SET :: "'a list \<Rightarrow> nat \<Rightarrow> 'a \<Rightarrow> 'a list option" where
  "VARR_SET xs i v = (if i < length xs then Some (xs[i := v]) else None)"

definition assert :: "bool \<Rightarrow> unit option" where
  "assert b = (if b then Some () else None)"

definition loc_index :: "stack_slot \<Rightarrow> nat option" where
  "loc_index slot = (if u slot < 0 then None else Some (nat (u slot)))"

definition prepare_stack_slot_rewrite :: "stack_slot \<Rightarrow> gen \<Rightarrow> gen option" where
  "prepare_stack_slot_rewrite slot g =
     (if mode slot = LOC then
        do { i \<leftarrow> loc_index slot;
             c \<leftarrow> VARR_GET (loc_stack_count g) i;
             _ \<leftarrow> assert (c > 0);
             Some (g\<lparr>loc_stack_count := (loc_stack_count g)[i := c - 1]\<rparr>) }
      else Some g)"

definition prepare_stack_slot_assign :: "stack_slot \<Rightarrow> gen \<Rightarrow> gen option" where
  "prepare_stack_slot_assign slot g =
     (if mode slot \<noteq> LOC then Some g
      else do { i \<leftarrow> loc_index slot;
                c \<leftarrow> VARR_GET (loc_stack_count g) i;
                Some (g\<lparr>loc_stack_count := (loc_stack_count g)[i := Suc c]\<rparr>) })"

definition pop_stack_slot :: "gen \<Rightarrow> (stack_slot \<times> gen) option" where
  "pop_stack_slot g =
     (if stack g = [] then None
      else let slot = last (stack g); g1 = g\<lparr>stack := butlast (stack g)\<rparr> in
        if mode slot = LOC then
          do { i \<leftarrow> loc_index slot;
               c \<leftarrow> VARR_GET (loc_stack_count g1) i;
               _ \<leftarrow> assert (c > 0);
               Some (slot, g1\<lparr>loc_stack_count := (loc_stack_count g1)[i := c - 1]\<rparr>) }
        else Some (slot, g1))"

definition push_stack_slot :: "stack_slot \<Rightarrow> gen \<Rightarrow> gen option" where
  "push_stack_slot slot g =
     (let len = length (stack g) + 1 in
      do { _ \<leftarrow> assert (mode slot \<noteq> TEMP \<or> u slot = - int len);
           g1 \<leftarrow> (if mode slot = LOC then prepare_stack_slot_assign slot g else Some g);
           let g2 = g1\<lparr>stack := stack g1 @ [slot]\<rparr>;
           Some (if max_stack_depth g2 < len then g2\<lparr>max_stack_depth := len\<rparr> else g2) })"

text \<open>
  \<^verbatim>\<open>trunc_stack\<close>: \<^verbatim>\<open>while (VARR_LENGTH(stack) > depth) pop_stack_slot()\<close>, that
  is \<open>length (stack g) - depth\<close> pops.
\<close>

primrec pop_n :: "nat \<Rightarrow> gen \<Rightarrow> gen option" where
  "pop_n 0 g = Some g"
| "pop_n (Suc n) g = do { (slot, g1) \<leftarrow> pop_stack_slot g; pop_n n g1 }"

definition trunc_stack :: "nat \<Rightarrow> gen \<Rightarrow> gen option" where
  "trunc_stack depth g = pop_n (length (stack g) - depth) g"

definition change_stack_slot :: "nat \<Rightarrow> stack_slot \<Rightarrow> gen \<Rightarrow> gen option" where
  "change_stack_slot n slot g =
     do { _ \<leftarrow> assert (n < length (stack g));
          g1 \<leftarrow> prepare_stack_slot_rewrite (stack g ! n) g;
          g2 \<leftarrow> prepare_stack_slot_assign slot g1;
          Some (g2\<lparr>stack := (stack g2)[n := slot]\<rparr>) }"

text \<open>A \<^verbatim>\<open>for\<close> loop over the given indexes, threading the state.\<close>

fun for_each :: "('i \<Rightarrow> 's \<Rightarrow> 's option) \<Rightarrow> 'i list \<Rightarrow> 's \<Rightarrow> 's option" where
  "for_each body [] s = Some s"
| "for_each body (i # is) s = do { s1 \<leftarrow> body i s; for_each body is s1 }"

definition make_temp :: "nat \<Rightarrow> int \<Rightarrow> gen \<Rightarrow> gen option" where
  "make_temp i res g =
     (let slot = stack g ! i in
      do { _ \<leftarrow> assert (mode slot = LOC \<and> res < 0);
           g1 \<leftarrow> prepare_stack_slot_rewrite slot g;
           Some (g1\<lparr>stack := (stack g1)[i := slot\<lparr>mode := TEMP, u := res\<rparr>]\<rparr>) })"

text \<open>
  \<^verbatim>\<open>prepare_local_assign(res, action)\<close>; the loop visits the slots
  \<open>0 .. len - 1\<close> in order, and \<open>action\<close> receives the index of the slot in the
  stack where the C function receives its address.
\<close>

definition prepare_local_assign ::
  "int \<Rightarrow> (nat \<Rightarrow> int \<Rightarrow> gen \<Rightarrow> gen option) \<Rightarrow> gen \<Rightarrow> gen option" where
  "prepare_local_assign res action g =
     do { _ \<leftarrow> assert (res > 0);
          c \<leftarrow> VARR_GET (loc_stack_count g) (nat res);
          if c = 0 then Some g
          else do { g1 \<leftarrow> for_each (\<lambda>i g'. if mode (stack g' ! i) = LOC
                                            then action i (- int i - 1) g' else Some g')
                            [0..<length (stack g)] g;
                    c1 \<leftarrow> VARR_GET (loc_stack_count g1) (nat res);
                    _ \<leftarrow> assert (c1 = 0);
                    Some g1 } }"

definition push_val :: "slot_type \<Rightarrow> int \<Rightarrow> nat \<Rightarrow> gen \<Rightarrow> gen option" where
  "push_val m val src g =
     push_stack_slot
       \<lparr>mode = m, source_insn_pos = src,
        u = (if m = VAL \<or> m = STR' \<or> m = LOC then val
             else if m = TEMP then - int (length (stack g)) - 1
             else 0)\<rparr> g"

definition stack_slot_eq :: "stack_slot \<Rightarrow> stack_slot \<Rightarrow> bool option" where
  "stack_slot_eq s1 s2 =
     (if mode s1 \<noteq> mode s2 then Some False
      else if mode s1 = VAL \<or> mode s1 = STR' \<or> mode s1 = LOC then Some (u s1 = u s2)
      else if mode s1 = TEMP then do { _ \<leftarrow> assert (u s1 = u s2); Some True }
      else Some True)"

definition save_stack_slots :: "nat \<Rightarrow> gen \<Rightarrow> (nat \<times> gen) option" where
  "save_stack_slots depth g =
     do { _ \<leftarrow> assert (length (stack g) = depth);
          Some (length (saved_stack_slots g),
                g\<lparr>saved_stack_slots := saved_stack_slots g @ stack g\<rparr>) }"

fun push_slots :: "stack_slot list \<Rightarrow> gen \<Rightarrow> gen option" where
  "push_slots [] g = Some g"
| "push_slots (s # ss) g = do { g1 \<leftarrow> push_stack_slot s g; push_slots ss g1 }"

definition restore_stack_slots :: "nat \<Rightarrow> nat \<Rightarrow> gen \<Rightarrow> gen option" where
  "restore_stack_slots start depth g =
     do { g1 \<leftarrow> trunc_stack 0 g;
          _ \<leftarrow> assert (start + depth \<le> length (saved_stack_slots g1));
          push_slots (take depth (drop start (saved_stack_slots g1))) g1 }"

subsection \<open>Merging the current stack into the slots saved at a label\<close>

text \<open>
  One iteration of the loop of \<^verbatim>\<open>update_saved_stack_slots\<close>, on slot \<open>i\<close>; the
  state of the loop is \<^verbatim>\<open>changed_p\<close> and the generator state.
\<close>

definition update_saved_slot :: "nat \<Rightarrow> nat \<Rightarrow> bool \<times> gen \<Rightarrow> (bool \<times> gen) option" where
  "update_saved_slot start i cg =
     (case cg of (changed_p, g) \<Rightarrow>
      do { st \<leftarrow> VARR_GET (stack g) i;
           if mode st = ANY then Some (changed_p, g)
           else do {
             sv \<leftarrow> VARR_GET (saved_stack_slots g) (start + i);
             if mode sv = ANY
             then Some (True, g\<lparr>saved_stack_slots := (saved_stack_slots g)[start + i := st]\<rparr>)
             else do {
               eq \<leftarrow> stack_slot_eq sv st;
               if eq then Some (changed_p, g)
               else do {
                 (c1, g1) \<leftarrow>
                   (if mode sv \<noteq> TEMP then
                      do { m \<leftarrow> VARR_SET (use_only_temp_result_p g) (source_insn_pos sv) True;
                           Some (True, g\<lparr>use_only_temp_result_p := m\<rparr>) }
                    else if mode st \<noteq> TEMP then
                      do { m \<leftarrow> VARR_SET (use_only_temp_result_p g) (source_insn_pos st) True;
                           Some (True, g\<lparr>use_only_temp_result_p := m\<rparr>) }
                    else Some (changed_p, g));
                 let sv1 = sv\<lparr>mode := TEMP, u := - int i - 1\<rparr>;
                 g3 \<leftarrow> change_stack_slot i sv1
                        (g1\<lparr>saved_stack_slots := (saved_stack_slots g1)[start + i := sv1]\<rparr>);
                 Some (c1, g3) } } } })"

definition update_saved_stack_slots :: "nat \<Rightarrow> gen \<Rightarrow> (bool \<times> gen) option" where
  "update_saved_stack_slots start_stack_slot_index g =
     for_each (update_saved_slot start_stack_slot_index) [0..<length (stack g)] (False, g)"

text \<open>
  The insertion loop of \<^verbatim>\<open>process_label\<close>, which keeps the label stack ordered
  with the smallest position on top (at the end): the new label goes after the
  last element that is not smaller.
\<close>

fun insert_rev :: "nat \<Rightarrow> nat list \<Rightarrow> nat list" where
  "insert_rev label [] = [label]"
| "insert_rev label (x # xs) = (if x \<ge> label then label # x # xs else x # insert_rev label xs)"

definition insert_label :: "nat \<Rightarrow> nat list \<Rightarrow> nat list" where
  "insert_label label xs = rev (insert_rev label (rev xs))"

definition process_label :: "nat \<Rightarrow> nat \<Rightarrow> nat \<Rightarrow> gen \<Rightarrow> gen option" where
  "process_label type label depth g =
     do { prev_type \<leftarrow> VARR_GET (pos_label_type g) label;
          _ \<leftarrow> assert (type \<noteq> NO_LABEL);
          let g1 = (if prev_type < type
                    then g\<lparr>pos_label_type := (pos_label_type g)[label := type]\<rparr> else g);
          g2 \<leftarrow>
            (if prev_type = NO_LABEL then
               do { f \<leftarrow> VARR_SET (pos_stack_free g1) label (depth + 1);
                    (start, g') \<leftarrow> save_stack_slots depth (g1\<lparr>pos_stack_free := f\<rparr>);
                    l \<leftarrow> VARR_SET (label_start_stack_slot g') label start;
                    Some (g'\<lparr>label_start_stack_slot := l, stack_on_label_change_p := True\<rparr>) }
             else
               do { f \<leftarrow> VARR_GET (pos_stack_free g1) label;
                    _ \<leftarrow> assert (f = depth + 1);
                    start \<leftarrow> VARR_GET (label_start_stack_slot g1) label;
                    (c, g') \<leftarrow> update_saved_stack_slots start g1;
                    Some (if c then g'\<lparr>stack_on_label_change_p := True\<rparr> else g') });
          p \<leftarrow> VARR_GET (label_processed_p g2) label;
          Some (if \<not> p
                then g2\<lparr>label_pos_stack := insert_label label (label_pos_stack g2),
                        label_processed_p := (label_processed_p g2)[label := True]\<rparr>
                else g2) }"

text \<open>
  \<^verbatim>\<open>setup_labels_from_catch_table\<close>.  The fields \<^verbatim>\<open>sp\<close>, \<^verbatim>\<open>start\<close>, \<^verbatim>\<open>end\<close> and
  \<^verbatim>\<open>cont\<close> of an entry are \<^verbatim>\<open>unsigned int\<close>; \<^verbatim>\<open>(int) depth < 0\<close> holds from
  \<open>2 ^ 31\<close> on.
\<close>

definition catch_entry :: "iseq \<Rightarrow> iseq_catch_table_entry \<Rightarrow> gen \<Rightarrow> gen option" where
  "catch_entry is e g =
     (if 2 ^ 31 \<le> ct_sp e \<or> ct_start e \<ge> iseq_size is \<or> ct_end e \<ge> iseq_size is
         \<or> ct_cont e \<ge> iseq_size is
      then Some g
      else
        do { b1 \<leftarrow> VARR_SET (catch_bound_pos_p g) (ct_start e) True;
             b2 \<leftarrow> VARR_SET b1 (ct_end e) True;
             let depth = (if ct_type e = CATCH_TYPE_RESCUE \<or> ct_type e = CATCH_TYPE_NEXT
                             \<or> ct_type e = CATCH_TYPE_BREAK
                          then ct_sp e + 1 else ct_sp e);
             g1 \<leftarrow> for_each (\<lambda>j. push_val TEMP 0 0) [0..<depth] (g\<lparr>catch_bound_pos_p := b2\<rparr>);
             g2 \<leftarrow> process_label CONT_LABEL (ct_cont e) depth g1;
             trunc_stack 0 g2 })"

definition setup_labels_from_catch_table :: "iseq \<Rightarrow> gen \<Rightarrow> gen option" where
  "setup_labels_from_catch_table is g =
     (let g1 = g\<lparr>catch_bound_pos_p := replicate (iseq_size is) False\<rparr> in
      case catch_table is of
        None \<Rightarrow> Some g1
      | Some entries \<Rightarrow> for_each (catch_entry is) entries g1)"

subsection \<open>The effect of one stack instruction\<close>

text \<open>
  An event is represented by the line number of its info entry; the analyzer
  reads nothing else of it.
\<close>

definition combined_event_p :: "int option \<Rightarrow> int option \<Rightarrow> bool" where
  "combined_event_p event1 event2 =
     (case event1 of None \<Rightarrow> True
      | Some l1 \<Rightarrow> (case event2 of None \<Rightarrow> True | Some l2 \<Rightarrow> l1 = l2))"

definition pos_event :: "iseq \<Rightarrow> nat \<Rightarrow> int option" where
  "pos_event is pos = (if pos \<ge> iseq_size is then None else event_line is pos)"

text \<open>The first group of the first \<^verbatim>\<open>switch\<close> of \<^verbatim>\<open>update_stack_by_insn\<close>.\<close>

fun no_result_insn :: "insn \<Rightarrow> bool" where
  "no_result_insn (BIN_setlocal idx level) = True"
| "no_result_insn (BIN_setlocal_WC_0 idx) = True"
| "no_result_insn (BIN_setlocal_WC_1 idx) = True"
| "no_result_insn (NO_RESULT nops inc) = True"
| "no_result_insn BIN_nop = True"
| "no_result_insn BIN_pop = True"
| "no_result_insn (BIN_branchif off) = True"
| "no_result_insn (BIN_branchunless off) = True"
| "no_result_insn (BIN_branchnil off) = True"
| "no_result_insn (BIN_opt_case_dispatch hash else_off) = True"
| "no_result_insn (BIN_jump off) = True"
| "no_result_insn (BIN_setn n) = True"
| "no_result_insn BIN_swap = True"
| "no_result_insn (BIN_reverse n) = True"
| "no_result_insn (BIN_adjuststack n) = True"
| "no_result_insn _ = False"

fun dupn_or_expandarray :: "insn \<Rightarrow> bool" where
  "dupn_or_expandarray (BIN_dupn n) = True"
| "dupn_or_expandarray (BIN_expandarray num flag) = True"
| "dupn_or_expandarray _ = False"

definition label_of :: "int \<Rightarrow> nat \<Rightarrow> nat option" where
  "label_of off next_pos = (if off + int next_pos < 0 then None else Some (nat (off + int next_pos)))"

definition branch_label :: "int \<Rightarrow> nat \<Rightarrow> nat \<Rightarrow> gen \<Rightarrow> gen option" where
  "branch_label off next_pos depth g =
     do { label \<leftarrow> label_of off next_pos; process_label BRANCH_LABEL label depth g }"

definition push_copy :: "stack_slot \<Rightarrow> bool \<Rightarrow> nat \<Rightarrow> gen \<Rightarrow> gen option" where
  "push_copy slot temp_only_p pos g =
     (if mode slot = TEMP \<or> temp_only_p then push_val TEMP 0 pos g else push_stack_slot slot g)"

text \<open>
  The second \<^verbatim>\<open>switch\<close> of \<^verbatim>\<open>update_stack_by_insn\<close>; \<open>depth\<close> is the depth after
  the instruction.
\<close>

fun insn_effect :: "insn \<Rightarrow> nat \<Rightarrow> nat \<Rightarrow> bool \<Rightarrow> bool \<Rightarrow> gen \<Rightarrow> gen option" where
  "insn_effect (BIN_branchif off) pos depth result_p temp_only_p g =
     do { g1 \<leftarrow> (if result_p then push_val TEMP 0 pos g else Some g);
          branch_label off (pos + 2) depth g1 }"
| "insn_effect (BIN_branchunless off) pos depth result_p temp_only_p g =
     do { g1 \<leftarrow> (if result_p then push_val TEMP 0 pos g else Some g);
          branch_label off (pos + 2) depth g1 }"
| "insn_effect (BIN_branchnil off) pos depth result_p temp_only_p g =
     do { g1 \<leftarrow> (if result_p then push_val TEMP 0 pos g else Some g);
          branch_label off (pos + 2) depth g1 }"
| "insn_effect (BIN_getinlinecache off) pos depth result_p temp_only_p g =
     do { g1 \<leftarrow> (if result_p then push_val TEMP 0 pos g else Some g);
          branch_label off (pos + 3) depth g1 }"
| "insn_effect (BIN_jump off) pos depth result_p temp_only_p g =
     do { g1 \<leftarrow> (if result_p then push_val TEMP 0 pos g else Some g);
          branch_label off (pos + 2) depth g1 }"
| "insn_effect (BIN_opt_case_dispatch hash else_off) pos depth result_p temp_only_p g =
     do { g1 \<leftarrow> for_each (\<lambda>off. branch_label off (pos + 3) depth) hash g;
          branch_label else_off (pos + 3) depth g1 }"
| "insn_effect BIN_putself pos depth result_p temp_only_p g =
     (if temp_only_p then push_val TEMP 0 pos g else push_val SELF (uint Qnil) pos g)"
| "insn_effect BIN_putnil pos depth result_p temp_only_p g =
     (if temp_only_p then push_val TEMP 0 pos g else push_val VAL (uint Qnil) pos g)"
| "insn_effect (BIN_putobject v) pos depth result_p temp_only_p g =
     (if temp_only_p then push_val TEMP 0 pos g else push_val VAL v pos g)"
| "insn_effect BIN_putobject_INT2FIX_0 pos depth result_p temp_only_p g =
     (if temp_only_p then push_val TEMP 0 pos g else push_val VAL (uint (LONG2FIX 0)) pos g)"
| "insn_effect BIN_putobject_INT2FIX_1 pos depth result_p temp_only_p g =
     (if temp_only_p then push_val TEMP 0 pos g else push_val VAL (uint (LONG2FIX 1)) pos g)"
| "insn_effect (BIN_getlocal idx level) pos depth result_p temp_only_p g =
     (if level \<noteq> 0 \<or> temp_only_p then push_val TEMP 0 pos g else push_val LOC idx pos g)"
| "insn_effect (BIN_getlocal_WC_0 idx) pos depth result_p temp_only_p g =
     (if temp_only_p then push_val TEMP 0 pos g else push_val LOC idx pos g)"
| "insn_effect (BIN_getlocal_WC_1 idx) pos depth result_p temp_only_p g =
     push_val TEMP 0 pos g"
| "insn_effect (BIN_setlocal idx level) pos depth result_p temp_only_p g =
     do { _ \<leftarrow> assert (\<not> result_p);
          if level \<noteq> 0 then Some g else prepare_local_assign idx make_temp g }"
| "insn_effect (BIN_setlocal_WC_0 idx) pos depth result_p temp_only_p g =
     prepare_local_assign idx make_temp g"
| "insn_effect (BIN_setn n) pos depth result_p temp_only_p g =
     (let len = length (stack g) in
      do { _ \<leftarrow> assert (len > n);
           let slot = last (stack g);
           let slot1 = (if mode slot = TEMP then slot\<lparr>u := int n - int len\<rparr> else slot);
           change_stack_slot (len - n - 1) slot1 g })"
| "insn_effect (BIN_topn n) pos depth result_p temp_only_p g =
     (let len = length (stack g) in
      do { _ \<leftarrow> assert (len > n);
           push_copy (stack g ! (len - n - 1)) temp_only_p pos g })"
| "insn_effect BIN_dup pos depth result_p temp_only_p g =
     do { _ \<leftarrow> assert (stack g \<noteq> []);
          push_copy (last (stack g)) temp_only_p pos g }"
| "insn_effect (BIN_dupn n) pos depth result_p temp_only_p g =
     (let len = length (stack g) in
      do { _ \<leftarrow> assert (len \<ge> n);
           for_each (\<lambda>i g1. push_copy (stack g1 ! (len - n + i)) temp_only_p pos g1) [0..<n] g })"
| "insn_effect BIN_swap pos depth result_p temp_only_p g =
     (let op = length (stack g) in
      do { slot2 \<leftarrow> (if op < 2 then None else Some (stack g ! (op - 2)));
           let slot = stack g ! (op - 1);
           let slot' = (if mode slot = TEMP then slot\<lparr>u := - int op + 1\<rparr> else slot);
           let slot2' = (if mode slot2 = TEMP then slot2\<lparr>u := - int op\<rparr> else slot2);
           g1 \<leftarrow> change_stack_slot (op - 1) slot2' g;
           change_stack_slot (op - 2) slot' g1 })"
| "insn_effect (BIN_reverse n) pos depth result_p temp_only_p g =
     (let len = length (stack g) in
      for_each (\<lambda>i g1. do { _ \<leftarrow> assert (i < len);
                            change_stack_slot (len - i - 1)
                              \<lparr>mode = TEMP, source_insn_pos = 0, u = int i - int len\<rparr> g1 })
        [0..<n] g)"
| "insn_effect (BIN_expandarray num flag) pos depth result_p temp_only_p g =
     (let cnt = num + (if odd flag then 1 else 0); len = length (stack g) in
      do { _ \<leftarrow> assert (len > 0);
           g1 \<leftarrow> trunc_stack (len - 1) g;
           for_each (\<lambda>i. push_val TEMP 0 pos) [0..<cnt] g1 })"
| "insn_effect OPERAND pos depth result_p temp_only_p g = None"
| "insn_effect _ pos depth result_p temp_only_p g =
     (if result_p then push_val TEMP 0 pos g else Some g)"

text \<open>
  \<^verbatim>\<open>update_stack_by_insn(code, pos, &depth)\<close>; the result carries the new depth.
  A position that holds an operand is not the position of an instruction: the
  run ends there.
\<close>

definition update_stack_by_insn :: "iseq \<Rightarrow> nat \<Rightarrow> nat \<Rightarrow> gen \<Rightarrow> (nat \<times> gen) option" where
  "update_stack_by_insn is pos depth0 g0 =
     do { f \<leftarrow> VARR_SET (pos_stack_free g0) pos (depth0 + 1);
          let g = g0\<lparr>pos_stack_free := f\<rparr>;
          insn \<leftarrow> VARR_GET (iseq_encoded is) pos;
          let stack_insn_len = insn_len insn;
          depth \<leftarrow> insn_stack_increase depth0 insn;
          let result_p = (\<not> no_result_insn insn \<and> \<not> dupn_or_expandarray insn);
          g1 \<leftarrow> (if no_result_insn insn then
                   do { _ \<leftarrow> assert (length (stack g) \<ge> depth); trunc_stack depth g }
                 else if dupn_or_expandarray insn then Some g
                 else do { _ \<leftarrow> assert (depth > 0 \<and> length (stack g) \<ge> depth - 1);
                           trunc_stack (depth - 1) g });
          t \<leftarrow> VARR_GET (use_only_temp_result_p g1) pos;
          let temp_only_p =
            (t \<or> \<not> combined_event_p (pos_event is pos) (pos_event is (pos + stack_insn_len)));
          let g2 = (if \<not> t \<and> temp_only_p
                    then g1\<lparr>use_only_temp_result_p := (use_only_temp_result_p g1)[pos := True]\<rparr>
                    else g1);
          g3 \<leftarrow> insn_effect insn pos depth result_p temp_only_p g2;
          _ \<leftarrow> assert (depth = length (stack g3));
          Some (depth, g3) }"

subsection \<open>The sweeps of \<^verbatim>\<open>find_stack_values_on_labels\<close>\<close>

text \<open>At a bound of an exception region every slot becomes a temporary.\<close>

definition temp_at_catch_bound :: "nat \<Rightarrow> gen \<Rightarrow> gen option" where
  "temp_at_catch_bound i g =
     (let slot = stack g ! i in
      if mode slot \<noteq> TEMP then
        do { m \<leftarrow> VARR_SET (use_only_temp_result_p g) (source_insn_pos slot) True;
             change_stack_slot i (slot\<lparr>mode := TEMP, u := - int i - 1\<rparr>)
               (g\<lparr>use_only_temp_result_p := m\<rparr>) }
      else Some g)"

fun ends_scan :: "insn \<Rightarrow> bool" where
  "ends_scan (BIN_jump off) = True"
| "ends_scan BIN_leave = True"
| "ends_scan _ = False"

text \<open>
  One iteration of the \<^verbatim>\<open>for (start_pos = pos; pos < size;)\<close> loop.  The flag
  of the result tells that the loop was left by a \<^verbatim>\<open>break\<close>.
\<close>

definition scan_step :: "iseq \<Rightarrow> nat \<Rightarrow> nat \<Rightarrow> nat \<Rightarrow> gen \<Rightarrow> (bool \<times> nat \<times> gen) option" where
  "scan_step is start_pos pos depth g =
     do { cb \<leftarrow> VARR_GET (catch_bound_pos_p g) pos;
          g1 \<leftarrow> (if cb then for_each temp_at_catch_bound [0..<length (stack g)] g else Some g);
          lt \<leftarrow> VARR_GET (pos_label_type g1) pos;
          (stop, g2) \<leftarrow>
            (if pos \<noteq> start_pos \<and> lt \<noteq> NO_LABEL then
               do { f \<leftarrow> VARR_GET (pos_stack_free g1) pos;
                    _ \<leftarrow> assert (depth + 1 = f);
                    start \<leftarrow> VARR_GET (label_start_stack_slot g1) pos;
                    (c, g') \<leftarrow> update_saved_stack_slots start g1;
                    if c then Some (False, g'\<lparr>stack_on_label_change_p := True\<rparr>)
                    else do { p \<leftarrow> VARR_GET (label_processed_p g') pos; Some (p, g') } }
             else Some (False, g1));
          if stop then Some (True, depth, g2)
          else do { insn \<leftarrow> VARR_GET (iseq_encoded is) pos;
                    (depth1, g3) \<leftarrow> update_stack_by_insn is pos depth g2;
                    Some (ends_scan insn, depth1, g3) } }"

function scan :: "iseq \<Rightarrow> nat \<Rightarrow> nat \<Rightarrow> nat \<Rightarrow> gen \<Rightarrow> (nat \<times> gen) option" where
  "scan is start_pos pos depth g =
     (if pos < iseq_size is then
        (case scan_step is start_pos pos depth g of
           None \<Rightarrow> None
         | Some (stop, depth1, g1) \<Rightarrow>
             if stop then Some (depth1, g1)
             else scan is start_pos (pos + insn_len (iseq_encoded is ! pos)) depth1 g1)
      else Some (depth, g))"
  by pat_completeness auto
termination
proof (relation "measure (\<lambda>(is, start_pos, pos, depth, g). iseq_size is - pos)")
  show "wf (measure (\<lambda>(is, start_pos, pos, depth, g). iseq_size is - pos))"
    by simp
next
  fix "is" :: iseq and start_pos pos depth :: nat and g :: gen and x2 x1 x2a x1a x2b
  assume "pos < iseq_size is"
  moreover have "0 < insn_len (iseq_encoded is ! pos)"
    by (cases "iseq_encoded is ! pos") simp_all
  ultimately show "((is, start_pos, pos + insn_len (iseq_encoded is ! pos), x1a, x2b),
                    (is, start_pos, pos, depth, g))
                   \<in> measure (\<lambda>(is, start_pos, pos, depth, g). iseq_size is - pos)"
    by simp
qed

text \<open>
  Popping the next label: \<^verbatim>\<open>pos = VARR_POP(label_pos_stack)\<close>, the depth saved
  at the label, and the stack saved at the label.
\<close>

definition next_label :: "gen \<Rightarrow> (nat \<times> nat \<times> gen) option" where
  "next_label g =
     (let pos = last (label_pos_stack g);
          g1 = g\<lparr>label_pos_stack := butlast (label_pos_stack g)\<rparr> in
      do { f \<leftarrow> VARR_GET (pos_stack_free g1) pos;
           _ \<leftarrow> assert (f > 0);
           start \<leftarrow> VARR_GET (label_start_stack_slot g1) pos;
           g2 \<leftarrow> restore_stack_slots start (f - 1) g1;
           Some (pos, f - 1, g2) })"

text \<open>
  The \<^verbatim>\<open>while (TRUE)\<close> loop of one sweep and the \<^verbatim>\<open>do ... while\<close> loop around
  it.  Both results are of type \<open>gen option option\<close>: \<open>None\<close> is a loop that
  never ends, \<open>Some None\<close> a run ended by a failed assertion or an access out of
  bounds, \<open>Some (Some g)\<close> the state when the loop is left.
\<close>

partial_function (option) label_loop :: "iseq \<Rightarrow> nat \<Rightarrow> nat \<Rightarrow> gen \<Rightarrow> gen option option" where
  "label_loop is pos depth g =
     (case scan is pos pos depth g of
        None \<Rightarrow> Some None
      | Some (depth1, g1) \<Rightarrow>
          if label_pos_stack g1 = [] then Some (Some g1)
          else (case next_label g1 of
                  None \<Rightarrow> Some None
                | Some (pos2, depth2, g2) \<Rightarrow> label_loop is pos2 depth2 g2))"

declare label_loop.simps [code]

definition sweep :: "iseq \<Rightarrow> gen \<Rightarrow> gen option option" where
  "sweep is g =
     (case label_loop is 0 0 (g\<lparr>stack_on_label_change_p := False\<rparr>) of
        None \<Rightarrow> None
      | Some None \<Rightarrow> Some None
      | Some (Some g1) \<Rightarrow>
          Some (Some (g1\<lparr>label_processed_p :=
                           replicate (iseq_size is) False
                           @ drop (iseq_size is) (label_processed_p g1)\<rparr>)))"

partial_function (option) sweeps :: "iseq \<Rightarrow> gen \<Rightarrow> gen option option" where
  "sweeps is g =
     (case sweep is g of
        None \<Rightarrow> None
      | Some None \<Rightarrow> Some None
      | Some (Some g1) \<Rightarrow> if stack_on_label_change_p g1 then sweeps is g1 else Some (Some g1))"

declare sweeps.simps [code]

text \<open>
  The arrays are static: \<^verbatim>\<open>find_stack_values_on_labels\<close> starts from the state
  \<open>g\<close> that the previous run left.  \<^verbatim>\<open>label_start_stack_slot\<close> is not truncated.
  \<open>analysis_start\<close> is the part of the function before its \<^verbatim>\<open>do ... while\<close> loop.
\<close>

definition analysis_start :: "iseq \<Rightarrow> gen \<Rightarrow> gen option" where
  "analysis_start is g =
     (let size = iseq_size is in
      do { g1 \<leftarrow> trunc_stack 0 (g\<lparr>pos_stack_free := [], label_pos_stack := [],
                                   pos_label_type := [], label_processed_p := [],
                                   use_only_temp_result_p := []\<rparr>);
           setup_labels_from_catch_table is
             (g1\<lparr>saved_stack_slots := [],
                 pos_stack_free := replicate size 0,
                 pos_label_type := replicate size NO_LABEL,
                 label_processed_p := replicate size False,
                 use_only_temp_result_p := replicate size False,
                 label_start_stack_slot := label_start_stack_slot g1 @ replicate size 0\<rparr>) })"

definition find_stack_values_on_labels :: "iseq \<Rightarrow> gen \<Rightarrow> gen option option" where
  "find_stack_values_on_labels is g =
     (case analysis_start is g of None \<Rightarrow> Some None | Some g2 \<Rightarrow> sweeps is g2)"

text \<open>
  The state in which \<^verbatim>\<open>rtl_gen\<close> calls the analyzer for the first routine:
  \<^verbatim>\<open>rtl_gen_init\<close> has created every array empty and
  \<^verbatim>\<open>initialize_loc_stack_count\<close> has run.
\<close>

definition initialize_loc_stack_count :: "iseq \<Rightarrow> gen \<Rightarrow> gen" where
  "initialize_loc_stack_count is g =
     g\<lparr>max_stack_depth := 0,
       loc_stack_count := replicate (local_table_size is + VM_ENV_DATA_SIZE) 0\<rparr>"

definition rtl_gen_init :: gen where
  "rtl_gen_init =
     \<lparr>stack = [], max_stack_depth = 0, loc_stack_count = [], label_pos_stack = [],
      pos_stack_free = [], pos_label_type = [], label_processed_p = [],
      catch_bound_pos_p = [], use_only_temp_result_p = [], label_start_stack_slot = [],
      saved_stack_slots = [], stack_on_label_change_p = False,
      iseq_rtl = [], curr_catch_rtl_pos = 0, curr_source_insn_pos = 0\<rparr>"

section \<open>The stack operations of the second pass (rtl\_gen.c)\<close>
















subsection \<open>Adjusting the stack at a label\<close>



subsection \<open>The stack manipulation cases of \<^verbatim>\<open>translate_stack_insn\<close>\<close>










section \<open>Temporaries and stack positions\<close>

text \<open>
  A slot of kind \<^verbatim>\<open>TEMP\<close> at position \<open>i\<close> of the emulated stack records the index
  \<open>- (i + 1)\<close>, and the stack is not deeper than \<^verbatim>\<open>max_stack_depth\<close>, the number of
  temporaries that \<^verbatim>\<open>rtl_gen\<close> reports as \<^verbatim>\<open>temp_vars_num\<close>.
\<close>

definition temp_ok :: "stack_slot list \<Rightarrow> bool" where
  "temp_ok xs = (\<forall>i\<in>{0..<length xs}. mode (xs ! i) = TEMP \<longrightarrow> u (xs ! i) = - int i - 1)"

definition temp_slots_ok :: "gen \<Rightarrow> bool" where
  "temp_slots_ok g = (temp_ok (stack g) \<and> length (stack g) \<le> max_stack_depth g)"

text \<open>
  \<open>returns P r\<close>: if the operation with result \<open>r\<close> returns, \<open>P\<close> holds of what it
  returns.  \<open>kept g r\<close>: if it returns, the correspondence holds in the state it
  returns and \<^verbatim>\<open>max_stack_depth\<close> has not decreased from that of \<open>g\<close>.
\<close>

definition returns :: "('a \<Rightarrow> bool) \<Rightarrow> 'a option \<Rightarrow> bool" where
  "returns P r = (case r of None \<Rightarrow> True | Some x \<Rightarrow> P x)"

definition kept :: "gen \<Rightarrow> gen option \<Rightarrow> bool" where
  "kept g r = returns (\<lambda>g'. temp_slots_ok g' \<and> max_stack_depth g \<le> max_stack_depth g') r"



section \<open>The speculated range of the fixnum instructions\<close>

text \<open>
  For fixnum operands standing for the integers \<open>a\<close> and \<open>b\<close>: the exact
  mathematical result of an arithmetic operation (quotient and remainder
  rounded towards minus infinity, as Ruby's integers have them), and the values
  for which the speculative fixnum instruction is meant to complete: the result
  of an addition, subtraction or multiplication fits a fixnum, the divisor of a
  division or modulo is not zero.
\<close>

definition exact_result :: "ruby_basic_operators \<Rightarrow> int \<Rightarrow> int \<Rightarrow> int" where
  "exact_result bop a b =
     (case bop of
        BOP_PLUS \<Rightarrow> a + b | BOP_MINUS \<Rightarrow> a - b | BOP_MULT \<Rightarrow> a * b
      | BOP_DIV \<Rightarrow> a div b | _ \<Rightarrow> a mod b)"

definition speculated_range :: "ruby_basic_operators \<Rightarrow> int \<Rightarrow> int \<Rightarrow> bool" where
  "speculated_range bop a b =
     (case bop of
        BOP_PLUS \<Rightarrow> RB_FIXABLE (a + b) | BOP_MINUS \<Rightarrow> RB_FIXABLE (a - b)
      | BOP_MULT \<Rightarrow> RB_FIXABLE (a * b) | _ \<Rightarrow> b \<noteq> 0)"

text \<open>
  Modelled from the spec: \<^verbatim>\<open>rb_fix_mul_fix\<close>, \<^verbatim>\<open>rb_fix_div_fix\<close> and
  \<^verbatim>\<open>rb_fix_mod_fix\<close> belong to the external numeric tower (internal.h, not under
  src/), whose semantics the numeric fast paths must match exactly.  This is
  what is required of them inside the speculated range: the exact result, as a
  fixnum when it fits and as an allocated integer otherwise.
\<close>

definition fix_helpers_exact :: "'w ext \<Rightarrow> ruby_basic_operators \<Rightarrow> VALUE \<Rightarrow> VALUE \<Rightarrow> bool" where
  "fix_helpers_exact ext bop x y =
     (let a = fix_int x; b = fix_int y;
          v = LONG2NUM (rb_int2big ext) (word_of_int (exact_result bop a b))
      in (bop = BOP_MULT \<and> RB_FIXABLE (a * b) \<longrightarrow> rb_fix_mul_fix ext x y = v)
         \<and> (bop = BOP_DIV \<and> b \<noteq> 0 \<longrightarrow> rb_fix_div_fix ext x y = v)
         \<and> (bop = BOP_MOD \<and> b \<noteq> 0 \<longrightarrow> rb_fix_mod_fix ext x y = v))"

section \<open>What the flonum instructions need of the external object model\<close>

text \<open>
  Modelled from the spec: \<^verbatim>\<open>DBL2NUM\<close> and \<^verbatim>\<open>RFLOAT_VALUE\<close> belong to the external
  object model (ruby.h, not under src/).  The flonum fast paths rely on two
  properties of it: a double that \<^verbatim>\<open>spec_dbl2num\<close> can encode as a flonum is
  encoded by \<^verbatim>\<open>DBL2NUM\<close> in the same way; and the comparison of two flonums on
  their bits (the two zero encodings taken as equal) is the comparison of the
  doubles they stand for.
\<close>

definition flonum_encoding_agrees :: "fp \<Rightarrow> double \<Rightarrow> bool" where
  "flonum_encoding_agrees fp d = (spec_dbl2num d \<noteq> Qundef \<longrightarrow> DBL2NUM fp d = spec_dbl2num d)"

definition flonum_cmp_agrees :: "fp \<Rightarrow> ruby_basic_operators \<Rightarrow> VALUE \<Rightarrow> VALUE \<Rightarrow> bool" where
  "flonum_cmp_agrees fp bop x y =
     (float_num_cmp_of fp bop x y = dbl_cmp fp bop (RFLOAT_VALUE fp x) (RFLOAT_VALUE fp y))"

section \<open>Sample frame and collaborators\<close>

text \<open>
  A frame with three temporaries whose stack pointer is at its default
  position, every cell holding \<^verbatim>\<open>Qfalse\<close>, running in the interpreter with no
  basic operation redefined; collaborators whose call through the call-site
  cache starts a new frame (it returns \<^verbatim>\<open>Qundef\<close>) and whose integer allocator
  returns the object at address \<^verbatim>\<open>0x1000\<close>; a call site whose arguments start
  at temporary \<^verbatim>\<open>-1\<close>.
\<close>

definition frame0 :: "unit vm" where
  "frame0 = \<lparr>mem = (\<lambda>a. Qfalse), cfp_sp = 4, cfp_bp = 0, cfp_ep = 0,
              cfp_pc_insn = ''nop'', temp_vars_num = 3,
              ruby_vm_redefined_flag = (\<lambda>bop. {}),
              mjit_bop_redefined_p = False, mjit_ep_neq_bp_p = False,
              in_mjit_p = False, cancel_p = False, check_ints = 0, world = ()\<rparr>"

definition ext0 :: "unit ext" where
  "ext0 = \<lparr>rb_int2big = (\<lambda>c. 0x1000),
            rb_fix_mul_fix = (\<lambda>a b. Qundef), rb_fix_div_fix = (\<lambda>a b. Qundef),
            rb_fix_mod_fix = (\<lambda>a b. Qundef),
            float_num_arith = (\<lambda>bop a b. Qundef),
            float_num_cmp = (\<lambda>bop a b. False), double_num_cmp = (\<lambda>bop a b. False),
            RBASIC_CLASS = (\<lambda>st v. 0), rb_cFloat = 0x2000, rb_cString = 0x2008,
            rb_cArray = 0x2010, rb_cHash = 0x2018,
            rb_str_plus = (\<lambda>a b. Qundef), rb_ary_plus = (\<lambda>a b. Qundef),
            rb_str_equal = (\<lambda>a b. Qfalse),
            vm_search_method = (\<lambda>cd recv st. st),
            check_cfunc_rb_obj_equal = (\<lambda>cd st. False),
            cc_call = (\<lambda>cd recv st. (Qundef, st)),
            mjit_vm_exec = (\<lambda>st. (Qnil, st)),
            mjit_change_iseq = (\<lambda>st. st),
            RARRAY_LEN = (\<lambda>st v. 0), RARRAY_CONST_PTR = (\<lambda>st v. 0)\<rparr>"

definition cd0 :: call_data where
  "cd0 = \<lparr>call_start = - 1, call_site = 0\<rparr>"





text \<open>
  A stand-in floating-point unit whose flonum encoder is \<^verbatim>\<open>spec_dbl2num\<close> itself,
  and collaborators whose fixnum multiplication helper returns the product as a
  fixnum and whose float fast paths are those of the source over that unit; a
  frame holding the fixnums 3 and 4 in cells 1 and 2, and a frame holding two
  flonums there.
\<close>

definition fp0 :: fp where
  "fp0 = \<lparr>dbl_arith = (\<lambda>bop a b. a), dbl_cmp = (\<lambda>bop a b. a < b),
           RFLOAT_VALUE = (\<lambda>v. v), DBL2NUM = spec_dbl2num\<rparr>"

definition ext_num :: "unit ext" where
  "ext_num = ext0\<lparr>rb_fix_mul_fix := (\<lambda>x y. LONG2FIX (FIX2LONG x * FIX2LONG y)),
                   float_num_arith := float_num_arith_of fp0,
                   float_num_cmp := float_num_cmp_of fp0\<rparr>"

definition fix_frame :: "unit vm" where
  "fix_frame = store (store frame0 1 7) 2 9"

definition flo_frame :: "unit vm" where
  "flo_frame = store (store frame0 1 2) 2 6"


subsection \<open>Routines for the analyzer\<close>

text \<open>
  A routine with a join at position 7, entered by the \<^verbatim>\<open>jump\<close> at 3 with the
  value pushed at 1 and by fall-through with the value pushed at 5.  Position 5
  is the continuation label of the catch table entry and no branch leads to it.
  \<open>join_fixed\<close> is the state when the analyzer returns.
\<close>

definition join_iseq :: iseq where
  "join_iseq =
     \<lparr>iseq_encoded =
        [BIN_nop, BIN_putobject 5, OPERAND, BIN_jump 2, OPERAND,
         BIN_putobject 7, OPERAND, BIN_pop, BIN_putnil, BIN_leave],
      iseq_size = 10, local_table_size = 0,
      catch_table = Some [\<lparr>ct_type = CATCH_TYPE_ENSURE, ct_start = 0, ct_end = 1,
                            ct_cont = 5, ct_sp = 0\<rparr>],
      event_line = (\<lambda>pos. None)\<rparr>"

definition join_fixed :: gen where
  "join_fixed =
     \<lparr>stack = [\<lparr>mode = TEMP, source_insn_pos = 9, u = - 1\<rparr>],
      max_stack_depth = 1, loc_stack_count = [0, 0, 0],
      label_pos_stack = [],
      pos_stack_free = [1, 1, 0, 2, 0, 1, 0, 2, 1, 2],
      pos_label_type = [0, 0, 0, 0, 0, 1, 0, 2, 0, 0],
      label_processed_p = replicate 10 False,
      catch_bound_pos_p = [True, True] @ replicate 8 False,
      use_only_temp_result_p = [False, True] @ replicate 8 False,
      label_start_stack_slot = replicate 10 0,
      saved_stack_slots = [\<lparr>mode = TEMP, source_insn_pos = 1, u = - 1\<rparr>],
      stack_on_label_change_p = False,
      iseq_rtl = [], curr_catch_rtl_pos = 0, curr_source_insn_pos = 0\<rparr>"

text \<open>
  A routine with two joins: position 17, entered by the \<^verbatim>\<open>jump\<close> at 12 and by
  the \<^verbatim>\<open>jump\<close> at 15, each with \<^verbatim>\<open>nil\<close> on the stack, and position 18, entered
  by the \<^verbatim>\<open>branchunless\<close> at 3 with the value pushed at 0 and by fall-through from
  17.  Position 11 is the continuation label of the catch table entry and no
  branch leads to it.  \<open>loop_start\<close> is the state before the first sweep,
  \<open>loop_state\<close> the state after the second one, and the state after the first
  one differs from it in one mark.
\<close>

definition loop_iseq :: iseq where
  "loop_iseq =
     \<lparr>iseq_encoded =
        [BIN_putobject 1, OPERAND, BIN_putnil, BIN_branchunless 13, OPERAND, BIN_pop,
         BIN_putnil, BIN_branchunless 5, OPERAND, BIN_putnil, BIN_leave,
         BIN_putnil, BIN_jump 3, OPERAND,
         BIN_putnil, BIN_jump 0, OPERAND,
         BIN_nop, BIN_pop, BIN_putnil, BIN_leave],
      iseq_size = 21, local_table_size = 0,
      catch_table = Some [\<lparr>ct_type = CATCH_TYPE_ENSURE, ct_start = 9, ct_end = 10,
                            ct_cont = 11, ct_sp = 0\<rparr>],
      event_line = (\<lambda>pos. None)\<rparr>"

definition loop_start :: gen where
  "loop_start =
     \<lparr>stack = [], max_stack_depth = 0, loc_stack_count = [0, 0, 0],
      label_pos_stack = [11],
      pos_stack_free = (replicate 21 0)[11 := 1],
      pos_label_type = (replicate 21 NO_LABEL)[11 := CONT_LABEL],
      label_processed_p = (replicate 21 False)[11 := True],
      catch_bound_pos_p = (replicate 21 False)[9 := True, 10 := True],
      use_only_temp_result_p = replicate 21 False,
      label_start_stack_slot = replicate 21 0,
      saved_stack_slots = [],
      stack_on_label_change_p = True,
      iseq_rtl = [], curr_catch_rtl_pos = 0, curr_source_insn_pos = 0\<rparr>"

definition loop_state :: gen where
  "loop_state =
     \<lparr>stack = [\<lparr>mode = TEMP, source_insn_pos = 20, u = - 1\<rparr>],
      max_stack_depth = 2, loc_stack_count = [0, 0, 0],
      label_pos_stack = [],
      pos_stack_free = [1, 0, 2, 3, 0, 2, 1, 2, 0, 1, 2, 1, 2, 0, 1, 2, 0, 2, 2, 1, 2],
      pos_label_type = [0, 0, 0, 0, 0, 0, 0, 0, 0, 0, 0, 1, 0, 0, 2, 0, 0, 2, 2, 0, 0],
      label_processed_p = replicate 21 False,
      catch_bound_pos_p = (replicate 21 False)[9 := True, 10 := True],
      use_only_temp_result_p = (replicate 21 False)[0 := True, 9 := True, 11 := True],
      label_start_stack_slot = (replicate 21 0)[14 := 1, 17 := 1],
      saved_stack_slots =
        [\<lparr>mode = TEMP, source_insn_pos = 0, u = - 1\<rparr>,
         \<lparr>mode = VAL, source_insn_pos = 11, u = 8\<rparr>],
      stack_on_label_change_p = True,
      iseq_rtl = [], curr_catch_rtl_pos = 0, curr_source_insn_pos = 0\<rparr>"

definition loop_state1 :: gen where
  "loop_state1 =
     loop_state\<lparr>use_only_temp_result_p := (replicate 21 False)[0 := True, 9 := True]\<rparr>"

text \<open>
  The same join with both edges in ordinary code: label 9 is entered by the
  \<^verbatim>\<open>jump\<close> at 5 with the value pushed at 3 and by fall-through with the value
  pushed at 7, which the \<^verbatim>\<open>branchunless\<close> at 1 leads to; no catch table.
  \<open>plain_join_fixed\<close> is the state when the analyzer returns.
\<close>

definition plain_join_iseq :: iseq where
  "plain_join_iseq =
     \<lparr>iseq_encoded =
        [BIN_putnil, BIN_branchunless 4, OPERAND, BIN_putobject 5, OPERAND,
         BIN_jump 2, OPERAND, BIN_putobject 7, OPERAND, BIN_pop, BIN_putnil, BIN_leave],
      iseq_size = 12, local_table_size = 0,
      catch_table = None,
      event_line = (\<lambda>pos. None)\<rparr>"

definition plain_join_fixed :: gen where
  "plain_join_fixed =
     \<lparr>stack = [\<lparr>mode = TEMP, source_insn_pos = 11, u = - 1\<rparr>],
      max_stack_depth = 1, loc_stack_count = [0, 0, 0],
      label_pos_stack = [],
      pos_stack_free = [1, 2, 0, 1, 0, 2, 0, 1, 0, 2, 1, 2],
      pos_label_type = [0, 0, 0, 0, 0, 0, 0, 2, 0, 2, 0, 0],
      label_processed_p = replicate 12 False,
      catch_bound_pos_p = replicate 12 False,
      use_only_temp_result_p = (replicate 12 False)[3 := True, 7 := True],
      label_start_stack_slot = replicate 12 0,
      saved_stack_slots = [\<lparr>mode = TEMP, source_insn_pos = 3, u = - 1\<rparr>],
      stack_on_label_change_p = False,
      iseq_rtl = [], curr_catch_rtl_pos = 0, curr_source_insn_pos = 0\<rparr>"
section \<open>Fixnum arithmetic: exactness of the fast paths\<close>

lemma msb_bit: "(x AND msb \<noteq> 0) = bit (x::VALUE) 63"
  unfolding msb_def by (simp add: bit_iff_and_push_bit_not_eq_0)

lemma bit63_sint: "bit (x::VALUE) 63 = (sint x < 0)"
  using bit_last_iff [of x] by simp

lemma ovf_test:
  "((NOT (x XOR y) AND (x XOR v)) AND msb \<noteq> 0) =
     ((sint (x::VALUE) < 0 \<longleftrightarrow> sint (y::VALUE) < 0) \<and> (sint x < 0 \<longleftrightarrow> \<not> sint (v::VALUE) < 0))"
proof -
  have "((NOT (x XOR y) AND (x XOR v)) AND msb \<noteq> 0) =
        ((bit x 63 \<longleftrightarrow> bit y 63) \<and> (bit x 63 \<longleftrightarrow> \<not> bit v 63))"
    unfolding msb_bit by (auto simp add: bit_and_iff bit_not_iff bit_xor_iff)
  then show ?thesis unfolding bit63_sint .
qed

lemma fixnum_odd: "FIXNUM_P v = odd v"
  by (simp add: FIXNUM_P_def and_one_eq mod_2_eq_odd)

lemma odd_sint: "odd (sint (v::VALUE)) = odd v"
  by (simp add: bit_0 [symmetric] bit_sint_iff)

lemma fix_int_div: "fix_int v = sint v div 2"
  by (simp add: fix_int_def FIX2LONG_def sint_signed_drop_bit_eq drop_bit_eq_div)

lemma sint_fixnum: "FIXNUM_P v \<Longrightarrow> sint v = 2 * fix_int v + 1"
  unfolding fix_int_div fixnum_odd odd_sint [symmetric] by presburger

lemma sint_bounds: "- (2 ^ 63) \<le> sint (v::VALUE) \<and> sint v < 2 ^ 63"
  using sint_ge [of v] sint_lt [of v] by simp

lemma fix_int_range: "- (2 ^ 62) \<le> fix_int v \<and> fix_int v < 2 ^ 62"
  using sint_bounds [of v] unfolding fix_int_div by simp arith

lemma LONG2FIX_alt: "LONG2FIX w = 2 * w + 1"
  by (simp add: LONG2FIX_def or_one_eq push_bit_eq_mult)

lemma fixnum_decomp: "FIXNUM_P v \<Longrightarrow> v = 2 * FIX2LONG v + 1"
proof -
  assume a: "FIXNUM_P v"
  have "v = word_of_int (sint v)" by simp
  also have "\<dots> = word_of_int (2 * fix_int v + 1)" using sint_fixnum [OF a] by simp
  also have "\<dots> = 2 * FIX2LONG v + 1" by (simp add: fix_int_def)
  finally show ?thesis .
qed

lemma plus_raw: "FIXNUM_P x \<Longrightarrow> FIXNUM_P y \<Longrightarrow> x - 1 + y = LONG2FIX (FIX2LONG x + FIX2LONG y)"
proof -
  assume a: "FIXNUM_P x" and b: "FIXNUM_P y"
  have "x - 1 + y = (2 * FIX2LONG x + 1) - 1 + (2 * FIX2LONG y + 1)"
    using fixnum_decomp [OF a] fixnum_decomp [OF b] by simp
  also have "\<dots> = 2 * (FIX2LONG x + FIX2LONG y) + 1" by (simp add: algebra_simps)
  finally show ?thesis unfolding LONG2FIX_alt .
qed

lemma sint_FIX_sum: "sint (FIX2LONG x + FIX2LONG y) = fix_int x + fix_int y"
  using fix_int_range [of x] fix_int_range [of y]
  by (simp add: sint_word_ariths fix_int_def [symmetric] signed_take_bit_int_eq_self)

lemma sint_FIX_diff: "sint (FIX2LONG x - FIX2LONG y) = fix_int x - fix_int y"
  using fix_int_range [of x] fix_int_range [of y]
  by (simp add: sint_word_ariths fix_int_def [symmetric] signed_take_bit_int_eq_self)


lemma mod_wrap_hi: "m \<le> k \<Longrightarrow> k < 2 * m \<Longrightarrow> (k::int) mod m = k - m"
proof -
  assume "m \<le> k" "k < 2 * m"
  then have "(k - m) mod m = k - m" by (intro mod_pos_pos_trivial) auto
  then show ?thesis by simp
qed

lemma mod_wrap_lo: "- m \<le> k \<Longrightarrow> k < 0 \<Longrightarrow> (k::int) mod m = k + m"
proof -
  assume "- m \<le> k" "k < 0"
  then have "(k + m) mod m = k + m" by (intro mod_pos_pos_trivial) auto
  then show ?thesis by simp
qed

lemma sint_LONG2FIX:
  "sint (LONG2FIX w) = (2 * sint w + 1 + 2 ^ 63) mod 2 ^ 64 - 2 ^ 63"
proof -
  have "LONG2FIX w = word_of_int (2 * sint w + 1)" by (simp add: LONG2FIX_alt)
  then have "sint (LONG2FIX w) = sint (word_of_int (2 * sint w + 1) :: 64 word)" by (simp only:)
  also have "\<dots> = (2 * sint w + 1 + 2 ^ 63) mod 2 ^ 64 - 2 ^ 63"
    by (simp only: int_word_sint) simp
  finally show ?thesis .
qed

lemma sint_wrap:
  fixes c :: int
  assumes "- (2 ^ 63) \<le> c" "c < 2 ^ 63"
  shows "(2 * c + 1 + 2 ^ 63) mod 2 ^ 64 - 2 ^ 63 =
         (if c < - (2 ^ 62) then 2 * c + 1 + 2 ^ 64 else if c < 2 ^ 62 then 2 * c + 1 else 2 * c + 1 - 2 ^ 64)"
proof -
  let ?k = "2 * c + 1 + 2 ^ 63" and ?m = "(2::int) ^ 64"
  consider "c < - (2 ^ 62)" | "- (2 ^ 62) \<le> c" "c < 2 ^ 62" | "2 ^ 62 \<le> c" by linarith
  then show ?thesis
  proof cases
    case 1
    then have "?k mod ?m = ?k + ?m" using assms by (intro mod_wrap_lo) auto
    with 1 show ?thesis by simp
  next
    case 2
    then have "?k mod ?m = ?k" by (intro mod_pos_pos_trivial) auto
    with 2 show ?thesis by simp
  next
    case 3
    then have "?k mod ?m = ?k - ?m" using assms by (intro mod_wrap_hi) auto
    with 3 show ?thesis by simp
  qed
qed

lemma neg_odd: "(2 * (a::int) + 1 < 0) = (a < 0)"
  by presburger

lemma fixable_iff:
  assumes a: "FIXNUM_P x" and b: "FIXNUM_P y"
  shows "((NOT (x XOR y) AND (x XOR (x - 1 + y))) AND msb \<noteq> 0) = (\<not> RB_FIXABLE (fix_int x + fix_int y))"
proof -
  let ?c = "fix_int x + fix_int y"
  have r: "- (2 ^ 63) \<le> ?c" "?c < 2 ^ 63"
    using fix_int_range [of x] fix_int_range [of y] by auto
  have v: "sint (x - 1 + y) = (2 * ?c + 1 + 2 ^ 63) mod 2 ^ 64 - 2 ^ 63"
    unfolding plus_raw [OF a b] sint_LONG2FIX sint_FIX_sum ..
  show ?thesis
    unfolding ovf_test v sint_wrap [OF r] sint_fixnum [OF a] sint_fixnum [OF b] RB_FIXABLE_def FIXNUM_MAX_def FIXNUM_MIN_def neg_odd
    using fix_int_range [of x] fix_int_range [of y]
    by auto
qed

lemma bit_msb: "bit msb n = (n = 63)"
  unfolding msb_def bit_push_bit_iff bit_1_iff possible_bit_word by auto

lemma bit_half_fix:
  "n < 64 \<Longrightarrow> bit (drop_bit 1 (push_bit 1 (w::VALUE) OR 1)) n = (n < 63 \<and> bit w n)"
  unfolding bit_drop_bit_eq bit_or_iff bit_push_bit_iff bit_1_iff possible_bit_word by auto

lemma big_branch:
  assumes a: "FIXNUM_P x" and b: "FIXNUM_P y"
    and ov: "\<not> RB_FIXABLE (fix_int x + fix_int y)"
  shows "drop_bit 1 (x - 1 + y) OR (x AND msb) = FIX2LONG x + FIX2LONG y"
proof (rule bit_word_eqI)
  fix n assume n: "n < LENGTH(64)"
  let ?w = "FIX2LONG x + FIX2LONG y"
  have sw: "sint ?w = fix_int x + fix_int y" by (rule sint_FIX_sum)
  have sx: "sint x = 2 * fix_int x + 1" by (rule sint_fixnum [OF a])
  have top: "bit ?w 63 = bit x 63"
    unfolding bit63_sint sw sx neg_odd
    using ov fix_int_range [of x] fix_int_range [of y]
    by (auto simp: RB_FIXABLE_def FIXNUM_MAX_def FIXNUM_MIN_def)
  have v: "x - 1 + y = push_bit 1 ?w OR 1" unfolding plus_raw [OF a b] LONG2FIX_def ..
  have m: "bit (x AND msb) n = (n = 63 \<and> bit x 63)"
    by (auto simp add: bit_and_iff bit_msb)
  have d: "bit (drop_bit 1 (push_bit 1 ?w OR 1)) n = (n < 63 \<and> bit ?w n)"
    using n by (intro bit_half_fix) simp
  show "bit (drop_bit 1 (x - 1 + y) OR (x AND msb)) n = bit ?w n"
    unfolding v bit_or_iff m d using n top by (cases "n = 63") auto
qed


lemma fix_int_LONG2FIX:
  assumes "RB_FIXABLE (sint w)"
  shows "FIXNUM_P (LONG2FIX w) \<and> fix_int (LONG2FIX w) = sint w"
proof -
  have r: "- (2 ^ 62) \<le> sint w" "sint w < 2 ^ 62"
    using assms by (auto simp: RB_FIXABLE_def FIXNUM_MAX_def FIXNUM_MIN_def)
  then have r': "- (2 ^ 63) \<le> sint w" "sint w < 2 ^ 63" by auto
  have "sint (LONG2FIX w) = 2 * sint w + 1"
    unfolding sint_LONG2FIX sint_wrap [OF r'] using r by auto
  then have "fix_int (LONG2FIX w) = sint w" unfolding fix_int_div by simp
  moreover have "FIXNUM_P (LONG2FIX w)" unfolding fixnum_odd LONG2FIX_alt by simp
  ultimately show ?thesis by simp
qed

lemma fix_num_plus_LONG2NUM:
  assumes a: "FIXNUM_P op1" and b: "FIXNUM_P op2"
  shows "fix_num_plus big op1 op2 = LONG2NUM big (FIX2LONG op1 + FIX2LONG op2)"
  unfolding fix_num_plus_def LONG2NUM_def Let_def fixable_iff [OF a b] sint_FIX_sum
  using big_branch [OF a b] plus_raw [OF a b] by simp

lemma spec_fix_num_plus_eq:
  assumes a: "FIXNUM_P op1" and b: "FIXNUM_P op2"
  shows "spec_fix_num_plus op1 op2 =
           (if RB_FIXABLE (fix_int op1 + fix_int op2) then LONG2FIX (FIX2LONG op1 + FIX2LONG op2) else Qundef)"
  unfolding spec_fix_num_plus_def Let_def fixable_iff [OF a b]
  using plus_raw [OF a b] by simp

lemma FIX2LONG_fix_int: "FIX2LONG v = word_of_int (fix_int v)"
  by (simp add: fix_int_def)

text \<open>
  C5.  For fixnum operands the generic fast paths of addition and subtraction
  return the exact mathematical result: as a fixnum when it fits, and otherwise
  the allocator \<^verbatim>\<open>rb_int2big\<close> applied to a C long that holds the exact sum or
  difference (no wrap-around, no truncation).
\<close>

theorem fix_num_plus_minus_exact:
  assumes "FIXNUM_P op1" and "FIXNUM_P op2"
  shows "(let s = fix_int op1 + fix_int op2; c = FIX2LONG op1 + FIX2LONG op2;
              r = fix_num_plus big op1 op2
          in sint c = s \<and>
             (RB_FIXABLE s \<longrightarrow> FIXNUM_P r \<and> fix_int r = s) \<and>
             (\<not> RB_FIXABLE s \<longrightarrow> r = big c)) \<and>
         (let d = fix_int op1 - fix_int op2; c = FIX2LONG op1 - FIX2LONG op2;
              r = fix_num_minus big op1 op2
          in sint c = d \<and>
             (RB_FIXABLE d \<longrightarrow> FIXNUM_P r \<and> fix_int r = d) \<and>
             (\<not> RB_FIXABLE d \<longrightarrow> r = big c))"
proof -
  let ?c = "FIX2LONG op1 + FIX2LONG op2" and ?e = "FIX2LONG op1 - FIX2LONG op2"
  have p: "fix_num_plus big op1 op2 = LONG2NUM big ?c"
    by (rule fix_num_plus_LONG2NUM [OF assms])
  have m: "fix_num_minus big op1 op2 = LONG2NUM big ?e"
    by (simp add: fix_num_minus_def)
  show ?thesis
    unfolding Let_def p m LONG2NUM_def
    using fix_int_LONG2FIX [of ?c] fix_int_LONG2FIX [of ?e]
    by (simp add: sint_FIX_sum sint_FIX_diff)
qed

theorem fix_num_plus_minus_exact_witness:
  "FIXNUM_P 7 \<and> FIXNUM_P 9 \<and> fix_int 7 = 3 \<and> fix_int 9 = 4 \<and>
   fix_int (fix_num_plus (\<lambda>c. 0) 7 9) = 7 \<and> fix_int (fix_num_minus (\<lambda>c. 0) 7 9) = - 1 \<and>
   FIXNUM_P 0x7FFFFFFFFFFFFFFF \<and> fix_int 0x7FFFFFFFFFFFFFFF = 2 ^ 62 - 1 \<and>
   fix_num_plus (\<lambda>c. c) 0x7FFFFFFFFFFFFFFF 3 = 0x4000000000000000"
proof -
  have f: "FIXNUM_P 7" "FIXNUM_P 9" "FIXNUM_P 0x7FFFFFFFFFFFFFFF" "FIXNUM_P 3"
    by (simp_all add: FIXNUM_P_def)
  have i: "fix_int 7 = 3" "fix_int 9 = 4" "fix_int 0x7FFFFFFFFFFFFFFF = 2 ^ 62 - 1" "fix_int 3 = 1"
    by (simp_all add: fix_int_div)
  have l: "FIX2LONG 0x7FFFFFFFFFFFFFFF + FIX2LONG 3 = 0x4000000000000000"
    unfolding FIX2LONG_fix_int i by simp
  show ?thesis
    using fix_num_plus_minus_exact [OF f(1) f(2), of "\<lambda>c. 0"]
      fix_num_plus_minus_exact [OF f(3) f(4), of "\<lambda>c. c"] f i l
    by (simp add: Let_def RB_FIXABLE_def FIXNUM_MAX_def FIXNUM_MIN_def)
qed

section \<open>The executor: fallbacks, speculation and the stack pointer\<close>

lemma fixnum_odd': "FIXNUM_P v = odd v"
  by (simp add: FIXNUM_P_def and_one_eq mod_2_eq_odd)

lemma fixnum_2: "FIXNUM_2_P a b = (FIXNUM_P a \<and> FIXNUM_P b)"
proof -
  have "FIXNUM_2_P a b = odd (a AND b)"
    unfolding FIXNUM_2_P_def by (simp add: and_one_eq mod_2_eq_odd)
  then show ?thesis by (simp add: fixnum_odd' even_and_iff)
qed

lemma fixnum_not_flonum: "FIXNUM_P v \<Longrightarrow> \<not> FLONUM_P v"
proof
  assume f: "FIXNUM_P v" and "FLONUM_P v"
  then have "even (v AND 3) = even (2::VALUE)" by (simp add: FLONUM_P_def)
  with f show False by (simp add: even_and_iff fixnum_odd')
qed

lemma fixnum_not_flonum2: "FIXNUM_P a \<Longrightarrow> \<not> FLONUM_2_P a b"
proof
  assume f: "FIXNUM_P a" and "FLONUM_2_P a b"
  then have "even (((a XOR 2) OR (b XOR 2)) AND 3) = even (0::VALUE)" by (simp add: FLONUM_2_P_def)
  with f show False by (simp add: even_and_iff even_or_iff even_xor_iff fixnum_odd')
qed

lemma fixnum_special: "FIXNUM_P v \<Longrightarrow> SPECIAL_CONST_P v"
proof -
  assume f: "FIXNUM_P v"
  have "v AND 7 \<noteq> 0"
  proof
    assume "v AND 7 = 0"
    then have "even (v AND 7) = even (0::VALUE)" by simp
    with f show False by (simp add: even_and_iff fixnum_odd')
  qed
  then show ?thesis by (simp add: SPECIAL_CONST_P_def IMMEDIATE_P_def)
qed

lemma do_arithm_div_zero:
  assumes f1: "FIXNUM_P (mem cfp op1)" and f2: "FIXNUM_P op2" and z: "FIX2LONG op2 = 0"
    and b: "bop = BOP_DIV \<or> bop = BOP_MOD" and nf: "\<not> op2_flonum_p"
  shows "do_arithm ext cd res op1 op2 bop (fix_num_arith ext bop) fl db
                   op2_fixnum_p op2_flonum_p change_p fix_insn_id flo_insn_id cfp =
           (let (val, c1) = op2_call ext cd op1 op2 cfp in op_val_call_end ext res val c1)"
proof -
  have u: "fix_num_arith ext bop (mem cfp op1) op2 = Qundef"
    using b z by (auto simp: fix_num_arith_def fix_num_div_def fix_num_mod_def)
  show ?thesis
    using u b nf f1 f2 fixnum_not_flonum [OF f1] fixnum_not_flonum2 [OF f1, of op2] fixnum_special [OF f1]
    by (auto simp: do_arithm_def Let_def fixnum_2)
qed

text \<open>
  C4.  When both operands are fixnums and the second is zero, the generic fast
  paths of division and modulo return \<^verbatim>\<open>Qundef\<close>, and every generic division
  and modulo instruction (changing or not, second operand in a register or an
  immediate fixnum) does exactly what the full dispatch path does:
  \<^verbatim>\<open>op2_call\<close> followed by \<^verbatim>\<open>op_val_call_end\<close>.  It stores no result of its own
  and does not rewrite the opcode.
\<close>

theorem div_mod_by_zero_falls_back:
  assumes "FIXNUM_P (mem cfp op1)" and "FIXNUM_P z" and "FIX2LONG z = 0"
    and "bop = BOP_DIV \<or> bop = BOP_MOD"
  shows "fix_num_div (rb_fix_div_fix ext) (mem cfp op1) z = Qundef \<and>
         fix_num_mod (rb_fix_mod_fix ext) (mem cfp op1) z = Qundef \<and>
         (mem cfp op2 = z \<longrightarrow>
            arithm_call ext bop cd res op1 op2 cfp =
              (let (val, c1) = op2_call ext cd op1 z cfp in op_val_call_end ext res val c1) \<and>
            uarithm_call ext bop cd res op1 op2 cfp =
              (let (val, c1) = op2_call ext cd op1 z cfp in op_val_call_end ext res val c1)) \<and>
         arithm_fix_call ext bop cd res op1 z cfp =
           (let (val, c1) = op2_call ext cd op1 z cfp in op_val_call_end ext res val c1) \<and>
         uarithm_fix_call ext bop cd res op1 z cfp =
           (let (val, c1) = op2_call ext cd op1 z cfp in op_val_call_end ext res val c1)"
  using assms(3)
    do_arithm_div_zero [OF assms(1) assms(2) assms(3) assms(4), of False]
  by (simp add: fix_num_div_def fix_num_mod_def arithm_call_def uarithm_call_def
        arithm_fix_call_def uarithm_fix_call_def arithm_op_def arithm_imm_op_def)

theorem div_mod_by_zero_falls_back_witness:
  "FIXNUM_P (mem (store frame0 1 7) 1) \<and> FIXNUM_P 1 \<and> FIX2LONG 1 = 0 \<and>
   fix_num_div (rb_fix_div_fix ext0) 7 1 = Qundef \<and>
   divi_f ext0 cd0 0 1 1 (store frame0 1 7) =
     (let (val, c1) = op2_call ext0 cd0 1 1 (store frame0 1 7) in op_val_call_end ext0 0 val c1) \<and>
   divi_f ext0 cd0 0 1 1 (store frame0 1 7) =
     (1, (store (store (store frame0 1 7) 1 7) 2 1)\<lparr>cfp_sp := 3\<rparr>)"
proof -
  have f: "FIXNUM_P (mem (store frame0 1 7) 1)" "FIXNUM_P 1"
    by (simp_all add: FIXNUM_P_def store_def)
  have z: "FIX2LONG 1 = 0"
    unfolding FIX2LONG_def by (rule bit_word_eqI) (simp add: bit_signed_drop_bit_iff bit_1_iff)
  have m: "mem (store frame0 1 7) 1 = 7" by (simp add: store_def)
  have s: "op2_call ext0 cd0 1 1 (store frame0 1 7) =
             (Qundef, (store (store (store frame0 1 7) 1 7) 2 1)\<lparr>cfp_sp := 3\<rparr>)"
    by (simp add: op2_call_def call_simple_method_def call_method_def ext0_def cd0_def
          get_temp_addr_def RTL_GET_BP_def store_def frame0_def Let_def)
  show ?thesis
    using div_mod_by_zero_falls_back [OF f z, of BOP_DIV ext0 2 cd0 0] f z m
    by (simp add: divi_f_def s op_val_call_end_def)
qed

text \<open>
  C7 as stated fails: a branch that is not taken checks nothing.  In
  \<^term>\<open>frame0\<close> cell 0 holds \<^verbatim>\<open>Qfalse\<close>, so \<^verbatim>\<open>bt\<close> and \<^verbatim>\<open>bnil\<close> are not taken and
  the interrupt check count stays 0.
\<close>

theorem branch_not_taken_no_check:
  "bt_f 0 frame0 = (False, frame0) \<and> bnil_f 0 frame0 = (False, frame0) \<and>
   check_ints (snd (bt_f 0 frame0)) = check_ints frame0"
  by (simp add: bt_f_def bnil_f_def frame0_def RTEST_def NIL_P_def Qfalse_def Qnil_def)

text \<open>
  C7, amended.  A conditional branch \<^verbatim>\<open>bt\<close>, \<^verbatim>\<open>bf\<close>, \<^verbatim>\<open>bnil\<close> checks for pending
  interrupts exactly once when the branch is taken, and leaves the state
  untouched when it is not taken.
\<close>

theorem branch_checks_ints_iff_taken:
  "bt_f op cfp = (RTEST (mem cfp op), if RTEST (mem cfp op) then RUBY_VM_CHECK_INTS cfp else cfp) \<and>
   bf_f op cfp = (\<not> RTEST (mem cfp op), if \<not> RTEST (mem cfp op) then RUBY_VM_CHECK_INTS cfp else cfp) \<and>
   bnil_f op cfp = (NIL_P (mem cfp op), if NIL_P (mem cfp op) then RUBY_VM_CHECK_INTS cfp else cfp) \<and>
   check_ints (RUBY_VM_CHECK_INTS cfp) = Suc (check_ints cfp)"
  by (simp add: bt_f_def bf_f_def bnil_f_def RUBY_VM_CHECK_INTS_def)

theorem branch_checks_ints_iff_taken_witness:
  "bf_f 0 frame0 = (True, RUBY_VM_CHECK_INTS frame0) \<and>
   check_ints (snd (bf_f 0 frame0)) = 1 \<and> check_ints (snd (bt_f 0 frame0)) = 0"
  using branch_checks_ints_iff_taken [of 0 frame0]
  by (simp add: frame0_def RTEST_def Qfalse_def RUBY_VM_CHECK_INTS_def)

subsection \<open>The stack pointer around external code\<close>





















section \<open>The fast paths on fixnums and flonums\<close>

lemma LONG2FIX_ne_Qundef: "LONG2FIX c \<noteq> Qundef"
proof
  assume "LONG2FIX c = Qundef"
  then have "odd (LONG2FIX c) = odd (0x34::VALUE)" by (simp add: Qundef_def)
  then show False by (simp add: LONG2FIX_alt)
qed

lemma bool_val_ne_Qundef: "bool_val c \<noteq> Qundef"
  by (simp add: bool_val_def Qtrue_def Qfalse_def Qundef_def)

text \<open>The C long that holds the exact sum or difference of two fixnums.\<close>

lemma spec_arith_eq:
  assumes a: "FIXNUM_P x" and b: "FIXNUM_P y" and o: "bop = BOP_PLUS \<or> bop = BOP_MINUS"
  shows "spec_fix_num_arith ext bop x y =
           (let c = (if bop = BOP_PLUS then FIX2LONG x + FIX2LONG y else FIX2LONG x - FIX2LONG y)
            in if RB_FIXABLE (sint c) then LONG2FIX c else Qundef)"
  using o spec_fix_num_plus_eq [OF a b]
  by (auto simp: spec_fix_num_arith_def spec_fix_num_minus_def sint_FIX_sum Let_def)

lemma gen_arith_eq:
  assumes a: "FIXNUM_P x" and b: "FIXNUM_P y" and o: "bop = BOP_PLUS \<or> bop = BOP_MINUS"
  shows "fix_num_arith ext bop x y =
           (let c = (if bop = BOP_PLUS then FIX2LONG x + FIX2LONG y else FIX2LONG x - FIX2LONG y)
            in if RB_FIXABLE (sint c) then LONG2FIX c else rb_int2big ext c)"
  using o fix_num_plus_LONG2NUM [OF a b, of "rb_int2big ext"]
  by (auto simp: fix_num_arith_def fix_num_minus_def LONG2NUM_def Let_def)

lemma do_spec_fix_arithm_fixnums:
  assumes a: "FIXNUM_P (mem cfp op1)" and b: "FIXNUM_P op2"
    and u: "BASIC_OP_UNREDEFINED_P cfp bop INTEGER_REDEFINED_OP_FLAG"
    and o: "bop = BOP_PLUS \<or> bop = BOP_MINUS"
  shows "do_spec_fix_arithm res op1 op2 bop (spec_fix_num_arith ext bop) op2_fixnum_p uinsn cfp =
           (let c = (if bop = BOP_PLUS then FIX2LONG (mem cfp op1) + FIX2LONG op2
                     else FIX2LONG (mem cfp op1) - FIX2LONG op2)
            in if RB_FIXABLE (sint c) then (False, None, store cfp res (LONG2FIX c))
               else (True, Some uinsn, cfp))"
  using a b u spec_arith_eq [OF a b o, of ext]
  by (simp add: do_spec_fix_arithm_def Let_def fixnum_2 LONG2FIX_ne_Qundef)

lemma do_arithm_fixnums:
  assumes a: "FIXNUM_P (mem cfp op1)" and b: "FIXNUM_P op2"
    and u: "BASIC_OP_UNREDEFINED_P cfp bop INTEGER_REDEFINED_OP_FLAG"
    and o: "bop = BOP_PLUS \<or> bop = BOP_MINUS"
  shows "do_arithm ext cd res op1 op2 bop (fix_num_arith ext bop) fl db
                   op2_fixnum_p False change_p fix_insn_id flo_insn_id cfp =
           (let c = (if bop = BOP_PLUS then FIX2LONG (mem cfp op1) + FIX2LONG op2
                     else FIX2LONG (mem cfp op1) - FIX2LONG op2);
                val = (if RB_FIXABLE (sint c) then LONG2FIX c else rb_int2big ext c);
                cfp1 = store cfp res val
            in (0, if change_p then vm_change_insn cfp1 fix_insn_id else cfp1))"
  using a b u o gen_arith_eq [OF a b o, of ext]
  by (auto simp add: do_arithm_def Let_def fixnum_2)

lemma do_spec_fix_cmp_fixnums:
  assumes a: "FIXNUM_P (mem cfp op1)" and b: "FIXNUM_P op2"
    and u: "BASIC_OP_UNREDEFINED_P cfp bop INTEGER_REDEFINED_OP_FLAG"
  shows "do_spec_fix_cmp res op1 op2 bop cmp op2_fixnum_p uinsn cfp =
           (False, None, store cfp res (bool_val (cmp (mem cfp op1) op2)))"
  unfolding do_spec_fix_cmp_def common_spec_fix_cmp_def
  using a b u by (simp add: Let_def fixnum_2 bool_val_ne_Qundef)

lemma do_cmp_fixnums:
  assumes a: "FIXNUM_P (mem cfp op1)" and b: "FIXNUM_P op2"
    and u: "BASIC_OP_UNREDEFINED_P cfp bop INTEGER_REDEFINED_OP_FLAG"
  shows "do_cmp ext cd res op1 op2 bop cmp fl db op2_fixnum_p False change_p fix_insn_id flo_insn_id cfp =
           op_val_call_end ext res (bool_val (cmp (mem cfp op1) op2))
             (if change_p then vm_change_insn cfp fix_insn_id else cfp)"
  unfolding do_cmp_def common_cmp_def
  using a b u by (simp add: Let_def fixnum_2)

subsection \<open>C division and the exact quotient\<close>

lemma floor_of_trunc:
  fixes k l :: int
  assumes "l \<noteq> 0"
  shows "(let d = k sdiv l; m = k smod l
          in if (if l > 0 then m < 0 else m > 0) then d - 1 else d) = k div l
       \<and> (let m = k smod l
          in if (if l > 0 then m < 0 else m > 0) then m + l else m) = k mod l"
proof -
  consider (pp) "0 \<le> k" "0 < l" | (np) "k < 0" "0 < l" | (pn) "0 \<le> k" "l < 0" | (nn) "k < 0" "l < 0"
    using assms by linarith
  then show ?thesis
  proof cases
    case pp
    have "\<not> k mod l < 0" using pp by (simp add: not_less)
    with pp show ?thesis
      by (auto simp add: signed_divide_int_def signed_modulo_int_def sgn_if Let_def)
  next
    case np
    define a where "a = - k"
    have a: "0 < a" "k = - a" using np by (simp_all add: a_def)
    have m: "0 \<le> a mod l" "a mod l < l" using np by simp_all
    show ?thesis
      using np a m
      by (auto simp add: signed_divide_int_def signed_modulo_int_def sgn_if Let_def
          zdiv_zminus1_eq_if zmod_zminus1_eq_if)
  next
    case pn
    define b where "b = - l"
    have b: "0 < b" "l = - b" using pn by (simp_all add: b_def)
    have m: "0 \<le> k mod b" "k mod b < b" using b by simp_all
    show ?thesis
      using pn b m
      by (auto simp add: signed_divide_int_def signed_modulo_int_def sgn_if Let_def
          zdiv_zminus2_eq_if zmod_zminus2_eq_if)
  next
    case nn
    define a where "a = - k"
    define b where "b = - l"
    have a: "0 < a" "k = - a" using nn by (simp_all add: a_def)
    have b: "0 < b" "l = - b" using nn by (simp_all add: b_def)
    have m: "0 \<le> a mod b" "a mod b < b" using b by simp_all
    show ?thesis
      using nn a b m
      by (auto simp add: signed_divide_int_def signed_modulo_int_def sgn_if Let_def)
  qed
qed

lemma div_bound_pos:
  fixes a b m :: int
  assumes b: "0 < b" and lo: "- m \<le> a" and hi: "a < m"
  shows "- m \<le> a div b \<and> a div b < m"
proof (cases "0 \<le> a")
  case True
  have "a div b \<le> a div 1" using True b by (intro zdiv_mono2) auto
  moreover have "0 \<le> a div b" using True b by (simp add: pos_imp_zdiv_nonneg_iff)
  ultimately show ?thesis using lo hi True by auto
next
  case False
  then have n: "a < 0" by simp
  have "a div 1 \<le> a div b" using n b by (intro zdiv_mono2_neg) auto
  moreover have "a div b < 0" using n b by (rule div_neg_pos_less0)
  ultimately show ?thesis using lo hi n by auto
qed

lemma div_bound:
  fixes a b m :: int
  assumes "b \<noteq> 0" "- m \<le> a" "a < m" "\<not> (a = - m \<and> b = - 1)"
  shows "- m \<le> a div b \<and> a div b < m"
proof (cases "0 < b")
  case True
  then show ?thesis using div_bound_pos assms by blast
next
  case False
  with assms have b: "0 < - b" by simp
  show ?thesis
  proof (cases "a = - m")
    case False
    with assms have "- m \<le> - a" "- a < m" by auto
    from div_bound_pos [OF b this] show ?thesis by simp
  next
    case True
    with assms b have b2: "2 \<le> - b" and m: "0 < m" by auto
    have "m div (- b) \<le> m div 2" using m b2 by (intro zdiv_mono2) auto
    moreover have "0 \<le> m div (- b)" using m b by (simp add: pos_imp_zdiv_nonneg_iff)
    moreover have "m div 2 < m" using m by simp
    ultimately have "- m \<le> (- a) div (- b) \<and> (- a) div (- b) < m" using True m by simp
    then show ?thesis by simp
  qed
qed

lemma mod_bound:
  fixes a b m :: int
  assumes "b \<noteq> 0" "- m \<le> b" "b < m"
  shows "- m \<le> a mod b \<and> a mod b < m"
proof (cases "0 < b")
  case True
  then have "0 \<le> a mod b" "a mod b < b" by simp_all
  with assms True show ?thesis by auto
next
  case False
  with assms have "b < 0" by simp
  then have "a mod b \<le> 0" "b < a mod b" by simp_all
  with assms show ?thesis by auto
qed

subsection \<open>The speculative and generic fixnum functions\<close>

lemma sint_word_of_int_long:
  "- (2 ^ 63) \<le> c \<Longrightarrow> c < 2 ^ 63 \<Longrightarrow> sint (word_of_int c :: 64 word) = c"
  by (simp add: sint_sbintrunc' signed_take_bit_int_eq_self)

lemma LONG2NUM_fixable:
  assumes "RB_FIXABLE c"
  shows "LONG2NUM big (word_of_int c) = LONG2FIX (word_of_int c)"
proof -
  from assms have "- (2 ^ 63) \<le> c" "c < 2 ^ 63"
    by (auto simp: RB_FIXABLE_def FIXNUM_MAX_def FIXNUM_MIN_def)
  then have "sint (word_of_int c :: 64 word) = c" by (rule sint_word_of_int_long)
  with assms show ?thesis by (simp add: LONG2NUM_def)
qed

lemma LONG2NUM_big:
  assumes "\<not> RB_FIXABLE c" and "- (2 ^ 63) \<le> c" and "c < 2 ^ 63"
  shows "LONG2NUM big (word_of_int c) = big (word_of_int c)"
  using assms sint_word_of_int_long [OF assms(2,3)] by (simp add: LONG2NUM_def)

lemma LONG2NUM_ne_Qundef:
  assumes "RB_FIXABLE c"
  shows "LONG2NUM big (word_of_int c) \<noteq> Qundef"
  unfolding LONG2NUM_fixable [OF assms] by (rule LONG2FIX_ne_Qundef)

lemma FIX2LONG_zero: "(FIX2LONG y = 0) = (fix_int y = 0)"
proof
  assume "FIX2LONG y = 0"
  then show "fix_int y = 0" by (simp add: fix_int_def)
next
  assume "fix_int y = 0"
  then have "sint (FIX2LONG y) = sint (0 :: 64 word)" by (simp add: fix_int_def)
  then show "FIX2LONG y = 0" by (rule signed_word_eqI)
qed

lemma fixable_long: "RB_FIXABLE c \<Longrightarrow> - (2 ^ 63) \<le> c \<and> c < 2 ^ 63"
  by (auto simp: RB_FIXABLE_def FIXNUM_MAX_def FIXNUM_MIN_def)

lemma spec_fix_num_plus_char:
  assumes "FIXNUM_P x" and "FIXNUM_P y"
  shows "spec_fix_num_plus x y =
           (if RB_FIXABLE (fix_int x + fix_int y)
            then LONG2NUM big (word_of_int (fix_int x + fix_int y)) else Qundef)"
proof -
  have "FIX2LONG x + FIX2LONG y = word_of_int (fix_int x + fix_int y)"
    by (simp add: FIX2LONG_fix_int)
  then show ?thesis
    unfolding spec_fix_num_plus_eq [OF assms]
    using LONG2NUM_fixable [of "fix_int x + fix_int y" big]
    by (simp del: of_int_add)
qed

lemma spec_fix_num_minus_char:
  "spec_fix_num_minus x y =
           (if RB_FIXABLE (fix_int x - fix_int y)
            then LONG2NUM big (word_of_int (fix_int x - fix_int y)) else Qundef)"
proof -
  have "FIX2LONG x - FIX2LONG y = word_of_int (fix_int x - fix_int y)"
    by (simp add: FIX2LONG_fix_int)
  then show ?thesis
    unfolding spec_fix_num_minus_def Let_def sint_FIX_diff
    using LONG2NUM_fixable [of "fix_int x - fix_int y" big]
    by (simp del: of_int_diff)
qed

lemma spec_fix_num_mult_char:
  "spec_fix_num_mult x y =
           (if RB_FIXABLE (fix_int x * fix_int y)
            then LONG2NUM big (word_of_int (fix_int x * fix_int y)) else Qundef)"
  unfolding spec_fix_num_mult_def Let_def fix_int_def [symmetric]
  using LONG2NUM_fixable [of "fix_int x * fix_int y" big]
  by (simp del: of_int_mult)

lemma fixable_div:
  assumes "fix_int y \<noteq> 0" and "\<not> (fix_int x = FIXNUM_MIN \<and> fix_int y = - 1)"
  shows "RB_FIXABLE (fix_int x div fix_int y)"
  using div_bound [of "fix_int y" "2 ^ 62" "fix_int x"] fix_int_range [of x] assms
  by (simp add: RB_FIXABLE_def FIXNUM_MAX_def FIXNUM_MIN_def)

lemma fixable_mod:
  assumes "fix_int y \<noteq> 0"
  shows "RB_FIXABLE (fix_int x mod fix_int y)"
  using mod_bound [of "fix_int y" "2 ^ 62" "fix_int x"] fix_int_range [of y] assms
  by (simp add: RB_FIXABLE_def FIXNUM_MAX_def FIXNUM_MIN_def)

lemma spec_fix_num_div_char:
  "spec_fix_num_div big x y =
           (if fix_int y \<noteq> 0
            then LONG2NUM big (word_of_int (fix_int x div fix_int y)) else Qundef)"
proof (cases "fix_int y = 0")
  case True
  then show ?thesis by (simp add: spec_fix_num_div_def fix_int_def)
next
  case nz: False
  show ?thesis
  proof (cases "fix_int x = FIXNUM_MIN \<and> fix_int y = - 1")
    case True
    then have "fix_int x div fix_int y = - FIXNUM_MIN" by simp
    with True nz show ?thesis
      by (simp add: spec_fix_num_div_def fix_int_def [symmetric] del: of_int_minus)
  next
    case False
    from floor_of_trunc [OF nz, of "fix_int x"]
    have d: "(let d = fix_int x sdiv fix_int y; m = fix_int x smod fix_int y
          in if (if fix_int y > 0 then m < 0 else m > 0) then d - 1 else d)
          = fix_int x div fix_int y" by simp
    from False have nf: "(fix_int x = FIXNUM_MIN \<and> fix_int y = - 1) = False" by simp
    have "spec_fix_num_div big x y = LONG2FIX (word_of_int (fix_int x div fix_int y))"
      using nz d
      by (simp add: spec_fix_num_div_def fix_int_def [symmetric] Let_def nf)
    with nz LONG2NUM_fixable [OF fixable_div [OF nz False], of big] show ?thesis by simp
  qed
qed

lemma spec_fix_num_mod_char:
  "spec_fix_num_mod x y =
           (if fix_int y \<noteq> 0
            then LONG2NUM big (word_of_int (fix_int x mod fix_int y)) else Qundef)"
proof (cases "fix_int y = 0")
  case True
  then show ?thesis by (simp add: spec_fix_num_mod_def fix_int_def)
next
  case nz: False
  show ?thesis
  proof (cases "fix_int x = FIXNUM_MIN \<and> fix_int y = - 1")
    case True
    then have "fix_int x mod fix_int y = 0" by simp
    with True nz show ?thesis
      by (simp add: spec_fix_num_mod_def fix_int_def [symmetric] LONG2NUM_def
            RB_FIXABLE_def FIXNUM_MAX_def FIXNUM_MIN_def)
  next
    case False
    from floor_of_trunc [OF nz, of "fix_int x"]
    have d: "(let m = fix_int x smod fix_int y
          in if (if fix_int y > 0 then m < 0 else m > 0) then m + fix_int y else m)
          = fix_int x mod fix_int y" by simp
    from False have nf: "(fix_int x = FIXNUM_MIN \<and> fix_int y = - 1) = False" by simp
    have "spec_fix_num_mod x y = LONG2FIX (word_of_int (fix_int x mod fix_int y))"
      using nz d
      by (simp add: spec_fix_num_mod_def fix_int_def [symmetric] Let_def nf)
    with nz LONG2NUM_fixable [OF fixable_mod [OF nz], of big] show ?thesis by simp
  qed
qed

lemma spec_fix_num_arith_char:
  assumes "FIXNUM_P x" and "FIXNUM_P y"
    and "bop \<in> {BOP_PLUS, BOP_MINUS, BOP_MULT, BOP_DIV, BOP_MOD}"
  shows "spec_fix_num_arith ext bop x y =
           (if speculated_range bop (fix_int x) (fix_int y)
            then LONG2NUM (rb_int2big ext) (word_of_int (exact_result bop (fix_int x) (fix_int y)))
            else Qundef)"
  using assms(3) spec_fix_num_plus_char [OF assms(1,2), of "rb_int2big ext"]
    spec_fix_num_minus_char [of x y "rb_int2big ext"]
    spec_fix_num_mult_char [of x y "rb_int2big ext"]
    spec_fix_num_div_char [of "rb_int2big ext" x y]
    spec_fix_num_mod_char [of x y "rb_int2big ext"]
  by (auto simp: spec_fix_num_arith_def speculated_range_def exact_result_def)

lemma exact_value_ne_Qundef:
  assumes b: "bop \<in> {BOP_PLUS, BOP_MINUS, BOP_MULT, BOP_DIV, BOP_MOD}"
    and r: "speculated_range bop (fix_int x) (fix_int y)"
    and big: "rb_int2big ext (word_of_int (- FIXNUM_MIN)) \<noteq> Qundef"
  shows "LONG2NUM (rb_int2big ext) (word_of_int (exact_result bop (fix_int x) (fix_int y)))
           \<noteq> Qundef"
proof (cases "bop = BOP_DIV \<and> fix_int x = FIXNUM_MIN \<and> fix_int y = - 1")
  case True
  then have e: "exact_result bop (fix_int x) (fix_int y) = - FIXNUM_MIN"
    by (simp add: exact_result_def)
  have "LONG2NUM (rb_int2big ext) (word_of_int (- FIXNUM_MIN))
          = rb_int2big ext (word_of_int (- FIXNUM_MIN))"
    by (rule LONG2NUM_big) (simp_all add: RB_FIXABLE_def FIXNUM_MAX_def FIXNUM_MIN_def)
  with big show ?thesis unfolding e by simp
next
  case False
  have "RB_FIXABLE (exact_result bop (fix_int x) (fix_int y))"
    using b r False fixable_div [of y x] fixable_mod [of y x]
    by (auto simp: exact_result_def speculated_range_def)
  then show ?thesis by (rule LONG2NUM_ne_Qundef)
qed

lemma fix_num_arith_in_range:
  assumes f1: "FIXNUM_P x" and f2: "FIXNUM_P y"
    and b: "bop \<in> {BOP_PLUS, BOP_MINUS, BOP_MULT, BOP_DIV, BOP_MOD}"
    and h: "fix_helpers_exact ext bop x y"
    and r: "speculated_range bop (fix_int x) (fix_int y)"
  shows "fix_num_arith ext bop x y
           = LONG2NUM (rb_int2big ext) (word_of_int (exact_result bop (fix_int x) (fix_int y)))"
proof -
  have p: "fix_num_plus (rb_int2big ext) x y
             = LONG2NUM (rb_int2big ext) (word_of_int (fix_int x + fix_int y))"
    unfolding fix_num_plus_LONG2NUM [OF f1 f2] by (simp add: FIX2LONG_fix_int)
  have m: "fix_num_minus (rb_int2big ext) x y
             = LONG2NUM (rb_int2big ext) (word_of_int (fix_int x - fix_int y))"
    by (simp add: fix_num_minus_def FIX2LONG_fix_int)
  show ?thesis
    using b h r p m
    by (auto simp: fix_num_arith_def fix_helpers_exact_def exact_result_def speculated_range_def
          fix_num_mult_def fix_num_div_def fix_num_mod_def FIX2LONG_zero Let_def
          simp del: of_int_add of_int_diff of_int_mult)
qed

lemma fix_num_arith_out_of_range:
  assumes f1: "FIXNUM_P x" and f2: "FIXNUM_P y"
    and b: "bop \<in> {BOP_PLUS, BOP_MINUS, BOP_MULT, BOP_DIV, BOP_MOD}"
    and r: "\<not> speculated_range bop (fix_int x) (fix_int y)"
  shows "fix_num_arith ext bop x y
           = (if bop = BOP_DIV \<or> bop = BOP_MOD then Qundef
              else if bop = BOP_MULT then rb_fix_mul_fix ext x y
              else rb_int2big ext (word_of_int (exact_result bop (fix_int x) (fix_int y))))"
proof -
  have rg: "- (2 ^ 63) \<le> fix_int x + fix_int y" "fix_int x + fix_int y < 2 ^ 63"
    "- (2 ^ 63) \<le> fix_int x - fix_int y" "fix_int x - fix_int y < 2 ^ 63"
    using fix_int_range [of x] fix_int_range [of y] by auto
  have p: "\<not> RB_FIXABLE (fix_int x + fix_int y) \<Longrightarrow> fix_num_plus (rb_int2big ext) x y
             = rb_int2big ext (word_of_int (fix_int x + fix_int y))"
    unfolding fix_num_plus_LONG2NUM [OF f1 f2] FIX2LONG_fix_int of_int_add [symmetric]
    using LONG2NUM_big [OF _ rg(1,2), of "rb_int2big ext"] by (simp del: of_int_add)
  have m: "\<not> RB_FIXABLE (fix_int x - fix_int y) \<Longrightarrow> fix_num_minus (rb_int2big ext) x y
             = rb_int2big ext (word_of_int (fix_int x - fix_int y))"
    unfolding fix_num_minus_def Let_def FIX2LONG_fix_int of_int_diff [symmetric]
    using LONG2NUM_big [OF _ rg(3,4), of "rb_int2big ext"] by (simp del: of_int_diff)
  show ?thesis
    using b r p m
    by (auto simp: fix_num_arith_def exact_result_def speculated_range_def
          fix_num_mult_def fix_num_div_def fix_num_mod_def FIX2LONG_zero
          simp del: of_int_add of_int_diff of_int_mult)
qed

subsection \<open>Flonum tags\<close>

lemma flonum_2: "FLONUM_2_P a b = (FLONUM_P a \<and> FLONUM_P b)"
proof -
  have x: "(v XOR 2) AND 3 = 0 \<longleftrightarrow> v AND 3 = 2" for v :: VALUE
  proof -
    have "(v XOR 2) AND 3 = (v AND 3) XOR 2"
      by (simp add: bit.conj_xor_distrib2)
    moreover have "w XOR 2 = 0 \<longleftrightarrow> w = 2" for w :: VALUE
    proof
      assume a: "w XOR 2 = 0"
      have "2 = w XOR (w XOR 2)" by (simp only: bit.xor_left_self)
      also have "\<dots> = w" unfolding a by simp
      finally show "w = 2" by simp
    next
      assume "w = 2"
      then show "w XOR 2 = 0" by simp
    qed
    ultimately show ?thesis by simp
  qed
  have "((a XOR 2) OR (b XOR 2)) AND 3 = ((a XOR 2) AND 3) OR ((b XOR 2) AND 3)"
    by (simp add: bit.conj_disj_distrib2)
  then show ?thesis
    unfolding FLONUM_2_P_def FLONUM_P_def by (simp add: or_eq_0_iff x)
qed

lemma flonum_not_fixnum: "FLONUM_P v \<Longrightarrow> \<not> FIXNUM_P v"
  using fixnum_not_flonum by blast

subsection \<open>The instruction functions on fixnums and on flonums\<close>

lemma spec_fix_arithm_char:
  assumes b: "bop \<in> {BOP_PLUS, BOP_MINUS, BOP_MULT, BOP_DIV, BOP_MOD}"
    and big: "rb_int2big ext (word_of_int (- FIXNUM_MIN)) \<noteq> Qundef"
    and imm: "p \<longrightarrow> FIXNUM_P y"
  shows "do_spec_fix_arithm res op1 y bop (spec_fix_num_arith ext bop) p uinsn cfp =
           (if (\<not> mjit_bop_redefined_p cfp
                \<or> BASIC_OP_UNREDEFINED_P cfp bop INTEGER_REDEFINED_OP_FLAG)
               \<and> FIXNUM_P (mem cfp op1) \<and> FIXNUM_P y
               \<and> speculated_range bop (fix_int (mem cfp op1)) (fix_int y)
            then (False, None, store cfp res
                    (LONG2NUM (rb_int2big ext)
                       (word_of_int (exact_result bop (fix_int (mem cfp op1)) (fix_int y)))))
            else (True, Some uinsn, cfp))"
proof (cases "FIXNUM_P (mem cfp op1) \<and> FIXNUM_P y")
  case True
  then have f: "FIXNUM_P (mem cfp op1)" "FIXNUM_P y" by simp_all
  show ?thesis
    using f exact_value_ne_Qundef [OF b _ big, of "mem cfp op1" y]
    unfolding do_spec_fix_arithm_def Let_def spec_fix_num_arith_char [OF f b] fixnum_2
    by simp
next
  case False
  with imm show ?thesis
    unfolding do_spec_fix_arithm_def Let_def fixnum_2 by auto
qed

lemma do_arithm_fix_in_range:
  assumes f1: "FIXNUM_P (mem cfp op1)" and f2: "FIXNUM_P y"
    and u: "BASIC_OP_UNREDEFINED_P cfp bop INTEGER_REDEFINED_OP_FLAG"
    and b: "bop \<in> {BOP_PLUS, BOP_MINUS, BOP_MULT, BOP_DIV, BOP_MOD}"
    and big: "rb_int2big ext (word_of_int (- FIXNUM_MIN)) \<noteq> Qundef"
    and h: "fix_helpers_exact ext bop (mem cfp op1) y"
    and r: "speculated_range bop (fix_int (mem cfp op1)) (fix_int y)"
  shows "do_arithm ext cd res op1 y bop (fix_num_arith ext bop) fl db p False ch i1 i2 cfp =
           (0, let c1 = store cfp res
                    (LONG2NUM (rb_int2big ext)
                       (word_of_int (exact_result bop (fix_int (mem cfp op1)) (fix_int y))))
               in if ch then vm_change_insn c1 i1 else c1)"
  using f1 f2 u exact_value_ne_Qundef [OF b r big]
  unfolding do_arithm_def Let_def fix_num_arith_in_range [OF f1 f2 b h r] fixnum_2
  by simp

lemma do_arithm_fix_out_of_range:
  assumes f1: "FIXNUM_P (mem cfp op1)" and f2: "FIXNUM_P y"
    and u: "BASIC_OP_UNREDEFINED_P cfp bop INTEGER_REDEFINED_OP_FLAG"
    and b: "bop \<in> {BOP_PLUS, BOP_MINUS, BOP_MULT, BOP_DIV, BOP_MOD}"
    and r: "\<not> speculated_range bop (fix_int (mem cfp op1)) (fix_int y)"
  shows "do_arithm ext cd res op1 y bop (fix_num_arith ext bop) fl db p False ch i1 i2 cfp =
           (if bop = BOP_DIV \<or> bop = BOP_MOD
            then (let (val, c1) = op2_call ext cd op1 y cfp in op_val_call_end ext res val c1)
            else (0, let c1 = store cfp res
                         (if bop = BOP_MULT then rb_fix_mul_fix ext (mem cfp op1) y
                          else rb_int2big ext
                                 (word_of_int
                                    (exact_result bop (fix_int (mem cfp op1)) (fix_int y))))
                     in if ch then vm_change_insn c1 i1 else c1))"
  using f1 f2 u
  unfolding do_arithm_def Let_def fix_num_arith_out_of_range [OF f1 f2 b r] fixnum_2
  by simp

lemma spec_fix_cmp_char:
  assumes imm: "p \<longrightarrow> FIXNUM_P y"
  shows "do_spec_fix_cmp res op1 y bop cmp p uinsn cfp =
           (if (\<not> mjit_bop_redefined_p cfp
                \<or> BASIC_OP_UNREDEFINED_P cfp bop INTEGER_REDEFINED_OP_FLAG)
               \<and> FIXNUM_P (mem cfp op1) \<and> FIXNUM_P y
            then (False, None, store cfp res (bool_val (cmp (mem cfp op1) y)))
            else (True, Some uinsn, cfp))"
  using imm
  unfolding do_spec_fix_cmp_def common_spec_fix_cmp_def Let_def fixnum_2
  by (auto simp: bool_val_ne_Qundef)

lemma spec_flo_arithm_char:
  assumes k1: "d1 = None \<or> d1 = Some (RFLOAT_VALUE fp (mem cfp op1))"
    and k2: "d2 = None \<or> d2 = Some (RFLOAT_VALUE fp y)"
  shows "do_spec_flo_arithm fp res op1 y bop (spec_flo_num_arith fp bop) q uinsn rd_p d1 d2 cfp =
           (if (\<not> mjit_bop_redefined_p cfp
                \<or> BASIC_OP_UNREDEFINED_P cfp bop FLOAT_REDEFINED_OP_FLAG)
               \<and> ((q \<and> (d1 \<noteq> None \<or> FLONUM_P (mem cfp op1)))
                   \<or> (\<not> q \<and> ((d1 \<noteq> None \<and> d2 \<noteq> None)
                               \<or> (FLONUM_P (mem cfp op1) \<and> FLONUM_P y))))
            then (let d = dbl_arith fp bop (RFLOAT_VALUE fp (mem cfp op1)) (RFLOAT_VALUE fp y);
                      rd = (if rd_p then Some d else None)
                  in if spec_dbl2num d \<noteq> Qundef
                     then (False, None, rd, store cfp res (spec_dbl2num d))
                     else (True, Some uinsn, rd, cfp))
            else (True, Some uinsn, None, cfp))"
  using k1 k2
  unfolding do_spec_flo_arithm_def spec_flo_num_arith_def Let_def flonum_2
  by auto

lemma do_arithm_flonums:
  assumes t1: "FLONUM_P (mem cfp op1)" and t2: "FLONUM_P y"
    and u: "BASIC_OP_UNREDEFINED_P cfp bop FLOAT_REDEFINED_OP_FLAG"
  shows "do_arithm ext cd res op1 y bop fx fl db False q ch i1 i2 cfp =
           (0, let c1 = store cfp res (fl (mem cfp op1) y)
               in if ch then vm_change_insn c1 i2 else c1)"
  using t1 t2 u flonum_not_fixnum [OF t1]
  unfolding do_arithm_def Let_def fixnum_2 flonum_2
  by simp

lemma spec_flo_cmp_char:
  assumes k1: "d1 = None \<or> d1 = Some (RFLOAT_VALUE fp (mem cfp op1))"
    and k2: "d2 = None \<or> d2 = Some (RFLOAT_VALUE fp y)"
  shows "do_spec_flo_cmp fp res op1 y bop cmp q uinsn d1 d2 cfp =
           (if (\<not> mjit_bop_redefined_p cfp
                \<or> BASIC_OP_UNREDEFINED_P cfp bop FLOAT_REDEFINED_OP_FLAG)
               \<and> ((q \<and> (d1 \<noteq> None \<or> FLONUM_P (mem cfp op1)))
                   \<or> (\<not> q \<and> ((d1 \<noteq> None \<and> d2 \<noteq> None)
                               \<or> (FLONUM_P (mem cfp op1) \<and> FLONUM_P y))))
            then (False, None, store cfp res
                    (bool_val (cmp (RFLOAT_VALUE fp (mem cfp op1)) (RFLOAT_VALUE fp y))))
            else (True, Some uinsn, cfp))"
  using k1 k2
  unfolding do_spec_flo_cmp_def common_spec_flo_cmp_def Let_def flonum_2
  by (auto simp: bool_val_ne_Qundef)

lemma do_cmp_flonums:
  assumes t1: "FLONUM_P (mem cfp op1)" and t2: "FLONUM_P y"
    and u: "BASIC_OP_UNREDEFINED_P cfp bop FLOAT_REDEFINED_OP_FLAG"
  shows "do_cmp ext cd res op1 y bop fx fl db False q ch i1 i2 cfp =
           op_val_call_end ext res (bool_val (fl (mem cfp op1) y))
             (if ch then vm_change_insn cfp i2 else cfp)"
  using t1 t2 u flonum_not_fixnum [OF t1]
  unfolding do_cmp_def common_cmp_def Let_def fixnum_2 flonum_2
  by simp

lemma op_val_call_end_value:
  "v \<noteq> Qundef \<Longrightarrow> \<not> (in_mjit_p cfp \<and> cancel_p cfp) \<Longrightarrow>
   op_val_call_end ext res v cfp = (0, store cfp res v)"
  by (auto simp: op_val_call_end_def store_def Let_def)



section \<open>A speculation that fails\<close>




section \<open>Speculative and generic forms\<close>

text \<open>
  C1 as stated fails.  The operands are the fixnums \<open>2^62 - 1\<close> and \<open>1\<close> and
  addition is not redefined, so the precondition the claim names holds; the
  sum does not fit a fixnum.  The speculative \<^verbatim>\<open>iplus\<close> produces no result: it
  writes nothing and asks for \<^verbatim>\<open>uplus\<close>.  The generic \<^verbatim>\<open>uplus\<close> stores the
  promoted integer and returns 0.
\<close>

theorem iplus_overflow_differs_from_uplus:
  "FIXNUM_P 0x7FFFFFFFFFFFFFFF \<and> FIXNUM_P 3 \<and>
   BASIC_OP_UNREDEFINED_P (store (store frame0 1 0x7FFFFFFFFFFFFFFF) 2 3) BOP_PLUS INTEGER_REDEFINED_OP_FLAG \<and>
   iplus_f ext0 0 1 2 (store (store frame0 1 0x7FFFFFFFFFFFFFFF) 2 3) =
     (True, Some ''uplus'', store (store frame0 1 0x7FFFFFFFFFFFFFFF) 2 3) \<and>
   uplus_f ext0 cd0 0 1 2 (store (store frame0 1 0x7FFFFFFFFFFFFFFF) 2 3) =
     (0, store (store (store frame0 1 0x7FFFFFFFFFFFFFFF) 2 3) 0 0x1000)"
proof -
  let ?s = "store (store frame0 1 0x7FFFFFFFFFFFFFFF) 2 3"
  have m: "mem ?s 1 = 0x7FFFFFFFFFFFFFFF" "mem ?s 2 = 3" by (simp_all add: store_def)
  have f: "FIXNUM_P 0x7FFFFFFFFFFFFFFF" "FIXNUM_P 3" by (simp_all add: FIXNUM_P_def)
  have u: "BASIC_OP_UNREDEFINED_P ?s BOP_PLUS INTEGER_REDEFINED_OP_FLAG"
    by (simp add: BASIC_OP_UNREDEFINED_P_def store_def frame0_def)
  have i: "fix_int 0x7FFFFFFFFFFFFFFF = 2 ^ 62 - 1" "fix_int 3 = 1"
    by (simp_all add: fix_int_div)
  have nf: "\<not> RB_FIXABLE (sint (FIX2LONG 0x7FFFFFFFFFFFFFFF + FIX2LONG 3))"
    unfolding sint_FIX_sum i by (simp add: RB_FIXABLE_def FIXNUM_MAX_def FIXNUM_MIN_def)
  have f1: "FIXNUM_P (mem ?s 1)" using m f by simp
  have s: "iplus_f ext0 0 1 2 ?s = (True, Some ''uplus'', ?s)"
    unfolding iplus_f_def spec_fix_arithm_call_def spec_fix_arithm_op_def m
    using do_spec_fix_arithm_fixnums [OF f1 f(2) u, where ext = ext0 and res = 0
        and ?op2_fixnum_p = False and uinsn = "''uplus''"] nf
    by (simp add: m suff_def)
  have g: "uplus_f ext0 cd0 0 1 2 ?s = (0, store ?s 0 0x1000)"
    unfolding uplus_f_def uarithm_call_def arithm_op_def m
    using do_arithm_fixnums [OF f1 f(2) u, where ext = ext0 and cd = cd0 and res = 0
        and ?op2_fixnum_p = False and change_p = False and fix_insn_id = "[]" and flo_insn_id = "[]"] nf
    by (simp add: m ext0_def)
  show ?thesis using f u s g by simp
qed

text \<open>
  C1, amended.  Take an arithmetic or comparison opcode that has a speculative
  form, operands that satisfy the tag precondition of that form (two fixnums,
  or two flonums) and a basic operation that is not redefined; the second
  operand is in a register or is an immediate.

  \<^item> Arithmetic, values inside the speculated range (the exact sum, difference
    or product fits a fixnum; the divisor is not zero; \<^verbatim>\<open>spec_dbl2num\<close> can encode
    the floating-point result as a flonum): the speculative instruction
    completes, and it, the non-changing generic instruction and the changing
    generic instruction store the same value in the result location and change
    nothing else, except that the changing generic instruction also rewrites
    the opcode to the speculative one.
  \<^item> Arithmetic, values outside that range: the speculative instruction leaves
    the state as it was and asks for the non-changing generic opcode, and the
    results differ: the generic instruction stores the promoted integer (sum,
    difference, product), takes the full dispatch path (division and modulo by
    zero), or stores what \<^verbatim>\<open>DBL2NUM\<close> returns.
  \<^item> Comparison: the speculative instruction always completes and stores the
    value that the generic instructions pass to \<^verbatim>\<open>op_val_call_end\<close>; outside JIT
    code with a cancellation pending the non-changing generic instruction ends
    in the same state.

  The external helpers are taken to be exact on fixnums (\<open>fix_helpers_exact\<close>),
  the allocator not to return \<^verbatim>\<open>Qundef\<close>, the float fast paths of the
  collaborators to be those of the source, and the flonum encodings to agree
  (\<open>flonum_encoding_agrees\<close>, \<open>flonum_cmp_agrees\<close>).
\<close>

theorem spec_generic_equivalence:
  assumes "bop \<in> {BOP_PLUS, BOP_MINUS, BOP_MULT, BOP_DIV, BOP_MOD}"
    and "cop \<in> {BOP_EQ, BOP_NEQ, BOP_LT, BOP_LE, BOP_GT, BOP_GE}"
  shows
   "(FIXNUM_P (mem cfp op1) \<and> FIXNUM_P (mem cfp op2)
     \<and> BASIC_OP_UNREDEFINED_P cfp bop INTEGER_REDEFINED_OP_FLAG
     \<and> fix_helpers_exact ext bop (mem cfp op1) (mem cfp op2)
     \<and> rb_int2big ext (word_of_int (- FIXNUM_MIN)) \<noteq> Qundef \<longrightarrow>
     (let a = fix_int (mem cfp op1); b = fix_int (mem cfp op2);
          v = LONG2NUM (rb_int2big ext) (word_of_int (exact_result bop a b))
      in if speculated_range bop a b
         then spec_fix_arithm_call ext bop res op1 op2 cfp = (False, None, store cfp res v)
              \<and> uarithm_call ext bop cd res op1 op2 cfp = (0, store cfp res v)
              \<and> arithm_call ext bop cd res op1 op2 cfp
                  = (0, vm_change_insn (store cfp res v) (''i'' @ suff bop))
         else spec_fix_arithm_call ext bop res op1 op2 cfp = (True, Some (''u'' @ suff bop), cfp)
              \<and> uarithm_call ext bop cd res op1 op2 cfp
                  = (if bop = BOP_DIV \<or> bop = BOP_MOD
                     then (let (val, c1) = op2_call ext cd op1 (mem cfp op2) cfp
                           in op_val_call_end ext res val c1)
                     else (0, store cfp res
                             (if bop = BOP_MULT
                              then rb_fix_mul_fix ext (mem cfp op1) (mem cfp op2)
                              else rb_int2big ext (word_of_int (exact_result bop a b)))))))
    \<and> (FIXNUM_P (mem cfp op1) \<and> FIXNUM_P imm
     \<and> BASIC_OP_UNREDEFINED_P cfp bop INTEGER_REDEFINED_OP_FLAG
     \<and> fix_helpers_exact ext bop (mem cfp op1) imm
     \<and> rb_int2big ext (word_of_int (- FIXNUM_MIN)) \<noteq> Qundef \<longrightarrow>
     (let a = fix_int (mem cfp op1); b = fix_int imm;
          v = LONG2NUM (rb_int2big ext) (word_of_int (exact_result bop a b))
      in if speculated_range bop a b
         then spec_fix_arithm_imm_call ext bop res op1 imm cfp = (False, None, store cfp res v)
              \<and> uarithm_fix_call ext bop cd res op1 imm cfp = (0, store cfp res v)
              \<and> arithm_fix_call ext bop cd res op1 imm cfp
                  = (0, vm_change_insn (store cfp res v) (''i'' @ suff bop @ ''i''))
         else spec_fix_arithm_imm_call ext bop res op1 imm cfp
                = (True, Some (''u'' @ suff bop @ ''i''), cfp)
              \<and> uarithm_fix_call ext bop cd res op1 imm cfp
                  = (if bop = BOP_DIV \<or> bop = BOP_MOD
                     then (let (val, c1) = op2_call ext cd op1 imm cfp
                           in op_val_call_end ext res val c1)
                     else (0, store cfp res
                             (if bop = BOP_MULT then rb_fix_mul_fix ext (mem cfp op1) imm
                              else rb_int2big ext (word_of_int (exact_result bop a b)))))))
    \<and> (FIXNUM_P (mem cfp op1) \<and> FIXNUM_P (mem cfp op2)
     \<and> BASIC_OP_UNREDEFINED_P cfp cop INTEGER_REDEFINED_OP_FLAG \<longrightarrow>
     (let v = bool_val (fix_num_cmp_of cop (mem cfp op1) (mem cfp op2))
      in spec_fix_cmp_call cop res op1 op2 cfp = (False, None, store cfp res v)
         \<and> ucmp_call ext cop cd res op1 op2 cfp = op_val_call_end ext res v cfp
         \<and> cmp_call ext cop cd res op1 op2 cfp
             = op_val_call_end ext res v (vm_change_insn cfp (''i'' @ suff cop))
         \<and> (\<not> (in_mjit_p cfp \<and> cancel_p cfp)
              \<longrightarrow> ucmp_call ext cop cd res op1 op2 cfp = (0, store cfp res v))))
    \<and> (FIXNUM_P (mem cfp op1) \<and> FIXNUM_P imm
     \<and> BASIC_OP_UNREDEFINED_P cfp cop INTEGER_REDEFINED_OP_FLAG \<longrightarrow>
     (let v = bool_val (fix_num_cmp_of cop (mem cfp op1) imm)
      in spec_fix_cmp_imm_call cop res op1 imm cfp = (False, None, store cfp res v)
         \<and> ucmp_fix_call ext cop cd res op1 imm cfp = op_val_call_end ext res v cfp
         \<and> cmp_fix_call ext cop cd res op1 imm cfp
             = op_val_call_end ext res v (vm_change_insn cfp (''i'' @ suff cop @ ''i''))
         \<and> (\<not> (in_mjit_p cfp \<and> cancel_p cfp)
              \<longrightarrow> ucmp_fix_call ext cop cd res op1 imm cfp = (0, store cfp res v))))
    \<and> (FLONUM_P (mem cfp op1) \<and> FLONUM_P (mem cfp op2)
     \<and> BASIC_OP_UNREDEFINED_P cfp bop FLOAT_REDEFINED_OP_FLAG
     \<and> float_num_arith ext bop = float_num_arith_of fp bop
     \<and> flonum_encoding_agrees fp
          (dbl_arith fp bop (RFLOAT_VALUE fp (mem cfp op1)) (RFLOAT_VALUE fp (mem cfp op2)))
     \<and> (d1 = None \<or> d1 = Some (RFLOAT_VALUE fp (mem cfp op1)))
     \<and> (d2 = None \<or> d2 = Some (RFLOAT_VALUE fp (mem cfp op2))) \<longrightarrow>
     (let d = dbl_arith fp bop (RFLOAT_VALUE fp (mem cfp op1)) (RFLOAT_VALUE fp (mem cfp op2));
          rd = (if rd_p then Some d else None);
          v = spec_dbl2num d
      in if v \<noteq> Qundef
         then spec_flo_arithm_call fp bop res op1 op2 rd_p d1 d2 cfp
                = (False, None, rd, store cfp res v)
              \<and> uarithm_call ext bop cd res op1 op2 cfp = (0, store cfp res v)
              \<and> arithm_call ext bop cd res op1 op2 cfp
                  = (0, vm_change_insn (store cfp res v) (''f'' @ suff bop))
         else spec_flo_arithm_call fp bop res op1 op2 rd_p d1 d2 cfp
                = (True, Some (''u'' @ suff bop), rd, cfp)
              \<and> uarithm_call ext bop cd res op1 op2 cfp
                  = (0, store cfp res (DBL2NUM fp d))))
    \<and> (FLONUM_P (mem cfp op1) \<and> FLONUM_P imm
     \<and> BASIC_OP_UNREDEFINED_P cfp bop FLOAT_REDEFINED_OP_FLAG
     \<and> float_num_arith ext bop = float_num_arith_of fp bop
     \<and> flonum_encoding_agrees fp
          (dbl_arith fp bop (RFLOAT_VALUE fp (mem cfp op1)) (RFLOAT_VALUE fp imm))
     \<and> (d1 = None \<or> d1 = Some (RFLOAT_VALUE fp (mem cfp op1))) \<longrightarrow>
     (let d = dbl_arith fp bop (RFLOAT_VALUE fp (mem cfp op1)) (RFLOAT_VALUE fp imm);
          rd = (if rd_p then Some d else None);
          v = spec_dbl2num d
      in if v \<noteq> Qundef
         then spec_flo_arithm_imm_call fp bop res op1 imm rd_p d1 cfp
                = (False, None, rd, store cfp res v)
              \<and> uarithm_flo_call ext bop cd res op1 imm cfp = (0, store cfp res v)
              \<and> arithm_flo_call ext bop cd res op1 imm cfp
                  = (0, vm_change_insn (store cfp res v) (''f'' @ suff bop @ ''f''))
         else spec_flo_arithm_imm_call fp bop res op1 imm rd_p d1 cfp
                = (True, Some (''u'' @ suff bop @ ''f''), rd, cfp)
              \<and> uarithm_flo_call ext bop cd res op1 imm cfp
                  = (0, store cfp res (DBL2NUM fp d))))
    \<and> (FLONUM_P (mem cfp op1) \<and> FLONUM_P (mem cfp op2)
     \<and> BASIC_OP_UNREDEFINED_P cfp cop FLOAT_REDEFINED_OP_FLAG
     \<and> float_num_cmp ext cop = float_num_cmp_of fp cop
     \<and> flonum_cmp_agrees fp cop (mem cfp op1) (mem cfp op2)
     \<and> (d1 = None \<or> d1 = Some (RFLOAT_VALUE fp (mem cfp op1)))
     \<and> (d2 = None \<or> d2 = Some (RFLOAT_VALUE fp (mem cfp op2))) \<longrightarrow>
     (let v = bool_val (dbl_cmp fp cop (RFLOAT_VALUE fp (mem cfp op1))
                                        (RFLOAT_VALUE fp (mem cfp op2)))
      in spec_flo_cmp_call fp cop res op1 op2 d1 d2 cfp = (False, None, store cfp res v)
         \<and> ucmp_call ext cop cd res op1 op2 cfp = op_val_call_end ext res v cfp
         \<and> cmp_call ext cop cd res op1 op2 cfp
             = op_val_call_end ext res v (vm_change_insn cfp (''f'' @ suff cop))
         \<and> (\<not> (in_mjit_p cfp \<and> cancel_p cfp)
              \<longrightarrow> ucmp_call ext cop cd res op1 op2 cfp = (0, store cfp res v))))
    \<and> (FLONUM_P (mem cfp op1) \<and> FLONUM_P imm
     \<and> BASIC_OP_UNREDEFINED_P cfp cop FLOAT_REDEFINED_OP_FLAG
     \<and> float_num_cmp ext cop = float_num_cmp_of fp cop
     \<and> flonum_cmp_agrees fp cop (mem cfp op1) imm
     \<and> (d1 = None \<or> d1 = Some (RFLOAT_VALUE fp (mem cfp op1))) \<longrightarrow>
     (let v = bool_val (dbl_cmp fp cop (RFLOAT_VALUE fp (mem cfp op1)) (RFLOAT_VALUE fp imm))
      in spec_flo_cmp_imm_call fp cop res op1 imm d1 cfp = (False, None, store cfp res v)
         \<and> ucmp_flo_call ext cop cd res op1 imm cfp = op_val_call_end ext res v cfp
         \<and> cmp_flo_call ext cop cd res op1 imm cfp
             = op_val_call_end ext res v (vm_change_insn cfp (''f'' @ suff cop @ ''f''))
         \<and> (\<not> (in_mjit_p cfp \<and> cancel_p cfp)
              \<longrightarrow> ucmp_flo_call ext cop cd res op1 imm cfp = (0, store cfp res v))))"
proof -
  note b = assms(1)
  have fix_arith: "FIXNUM_P (mem cfp op1) \<and> FIXNUM_P y
     \<and> BASIC_OP_UNREDEFINED_P cfp bop INTEGER_REDEFINED_OP_FLAG
     \<and> fix_helpers_exact ext bop (mem cfp op1) y
     \<and> rb_int2big ext (word_of_int (- FIXNUM_MIN)) \<noteq> Qundef \<longrightarrow>
     (let a = fix_int (mem cfp op1); b = fix_int y;
          v = LONG2NUM (rb_int2big ext) (word_of_int (exact_result bop a b))
      in if speculated_range bop a b
         then do_spec_fix_arithm res op1 y bop (spec_fix_num_arith ext bop) p uinsn cfp
                = (False, None, store cfp res v)
              \<and> do_arithm ext cd res op1 y bop (fix_num_arith ext bop) fl db p False False
                   [] [] cfp = (0, store cfp res v)
              \<and> do_arithm ext cd res op1 y bop (fix_num_arith ext bop) fl db p False True
                   i1 i2 cfp = (0, vm_change_insn (store cfp res v) i1)
         else do_spec_fix_arithm res op1 y bop (spec_fix_num_arith ext bop) p uinsn cfp
                = (True, Some uinsn, cfp)
              \<and> do_arithm ext cd res op1 y bop (fix_num_arith ext bop) fl db p False False
                   [] [] cfp
                  = (if bop = BOP_DIV \<or> bop = BOP_MOD
                     then (let (val, c1) = op2_call ext cd op1 y cfp
                           in op_val_call_end ext res val c1)
                     else (0, store cfp res
                             (if bop = BOP_MULT then rb_fix_mul_fix ext (mem cfp op1) y
                              else rb_int2big ext (word_of_int (exact_result bop a b))))))"
    for y p uinsn fl db i1 i2
  proof (intro impI, elim conjE)
    assume f1: "FIXNUM_P (mem cfp op1)" and f2: "FIXNUM_P y"
      and u: "BASIC_OP_UNREDEFINED_P cfp bop INTEGER_REDEFINED_OP_FLAG"
      and h: "fix_helpers_exact ext bop (mem cfp op1) y"
      and big: "rb_int2big ext (word_of_int (- FIXNUM_MIN)) \<noteq> Qundef"
    from f2 have imm: "p \<longrightarrow> FIXNUM_P y" by simp
    show "let a = fix_int (mem cfp op1); b = fix_int y;
          v = LONG2NUM (rb_int2big ext) (word_of_int (exact_result bop a b))
      in if speculated_range bop a b
         then do_spec_fix_arithm res op1 y bop (spec_fix_num_arith ext bop) p uinsn cfp
                = (False, None, store cfp res v)
              \<and> do_arithm ext cd res op1 y bop (fix_num_arith ext bop) fl db p False False
                   [] [] cfp = (0, store cfp res v)
              \<and> do_arithm ext cd res op1 y bop (fix_num_arith ext bop) fl db p False True
                   i1 i2 cfp = (0, vm_change_insn (store cfp res v) i1)
         else do_spec_fix_arithm res op1 y bop (spec_fix_num_arith ext bop) p uinsn cfp
                = (True, Some uinsn, cfp)
              \<and> do_arithm ext cd res op1 y bop (fix_num_arith ext bop) fl db p False False
                   [] [] cfp
                  = (if bop = BOP_DIV \<or> bop = BOP_MOD
                     then (let (val, c1) = op2_call ext cd op1 y cfp
                           in op_val_call_end ext res val c1)
                     else (0, store cfp res
                             (if bop = BOP_MULT then rb_fix_mul_fix ext (mem cfp op1) y
                              else rb_int2big ext (word_of_int (exact_result bop a b)))))"
    proof (cases "speculated_range bop (fix_int (mem cfp op1)) (fix_int y)")
      case True
      show ?thesis
        unfolding Let_def spec_fix_arithm_char [OF b big imm]
          do_arithm_fix_in_range [OF f1 f2 u b big h True]
        using True f1 f2 u by (simp add: Let_def)
    next
      case False
      show ?thesis
        unfolding Let_def spec_fix_arithm_char [OF b big imm]
          do_arithm_fix_out_of_range [OF f1 f2 u b False]
        using False by (simp add: Let_def)
    qed
  qed
  have fix_cmp: "FIXNUM_P (mem cfp op1) \<and> FIXNUM_P y
     \<and> BASIC_OP_UNREDEFINED_P cfp cop INTEGER_REDEFINED_OP_FLAG \<longrightarrow>
     (let v = bool_val (fix_num_cmp_of cop (mem cfp op1) y)
      in do_spec_fix_cmp res op1 y cop (fix_num_cmp_of cop) p uinsn cfp
           = (False, None, store cfp res v)
         \<and> do_cmp ext cd res op1 y cop (fix_num_cmp_of cop) fl db p False False [] [] cfp
             = op_val_call_end ext res v cfp
         \<and> do_cmp ext cd res op1 y cop (fix_num_cmp_of cop) fl db p False True i1 i2 cfp
             = op_val_call_end ext res v (vm_change_insn cfp i1)
         \<and> (\<not> (in_mjit_p cfp \<and> cancel_p cfp)
              \<longrightarrow> do_cmp ext cd res op1 y cop (fix_num_cmp_of cop) fl db p False False [] []
                    cfp = (0, store cfp res v)))"
    for y p uinsn fl db i1 i2
  proof (intro impI, elim conjE)
    assume f1: "FIXNUM_P (mem cfp op1)" and f2: "FIXNUM_P y"
      and u: "BASIC_OP_UNREDEFINED_P cfp cop INTEGER_REDEFINED_OP_FLAG"
    from f2 have imm: "p \<longrightarrow> FIXNUM_P y" by simp
    show "let v = bool_val (fix_num_cmp_of cop (mem cfp op1) y)
      in do_spec_fix_cmp res op1 y cop (fix_num_cmp_of cop) p uinsn cfp
           = (False, None, store cfp res v)
         \<and> do_cmp ext cd res op1 y cop (fix_num_cmp_of cop) fl db p False False [] [] cfp
             = op_val_call_end ext res v cfp
         \<and> do_cmp ext cd res op1 y cop (fix_num_cmp_of cop) fl db p False True i1 i2 cfp
             = op_val_call_end ext res v (vm_change_insn cfp i1)
         \<and> (\<not> (in_mjit_p cfp \<and> cancel_p cfp)
              \<longrightarrow> do_cmp ext cd res op1 y cop (fix_num_cmp_of cop) fl db p False False [] []
                    cfp = (0, store cfp res v))"
      unfolding Let_def spec_fix_cmp_char [OF imm] do_cmp_fixnums [OF f1 f2 u]
      using f1 f2 u by (simp add: op_val_call_end_value bool_val_ne_Qundef)
  qed
  have flo_arith: "FLONUM_P (mem cfp op1) \<and> FLONUM_P y
     \<and> BASIC_OP_UNREDEFINED_P cfp bop FLOAT_REDEFINED_OP_FLAG
     \<and> float_num_arith ext bop = float_num_arith_of fp bop
     \<and> flonum_encoding_agrees fp
          (dbl_arith fp bop (RFLOAT_VALUE fp (mem cfp op1)) (RFLOAT_VALUE fp y))
     \<and> (d1 = None \<or> d1 = Some (RFLOAT_VALUE fp (mem cfp op1)))
     \<and> (e2 = None \<or> e2 = Some (RFLOAT_VALUE fp y)) \<longrightarrow>
     (let d = dbl_arith fp bop (RFLOAT_VALUE fp (mem cfp op1)) (RFLOAT_VALUE fp y);
          rd = (if rd_p then Some d else None);
          v = spec_dbl2num d
      in if v \<noteq> Qundef
         then do_spec_flo_arithm fp res op1 y bop (spec_flo_num_arith fp bop) q uinsn rd_p d1 e2
                cfp = (False, None, rd, store cfp res v)
              \<and> do_arithm ext cd res op1 y bop fx (float_num_arith ext bop) db False q False
                   [] [] cfp = (0, store cfp res v)
              \<and> do_arithm ext cd res op1 y bop fx (float_num_arith ext bop) db False q True
                   i1 i2 cfp = (0, vm_change_insn (store cfp res v) i2)
         else do_spec_flo_arithm fp res op1 y bop (spec_flo_num_arith fp bop) q uinsn rd_p d1 e2
                cfp = (True, Some uinsn, rd, cfp)
              \<and> do_arithm ext cd res op1 y bop fx (float_num_arith ext bop) db False q False
                   [] [] cfp = (0, store cfp res (DBL2NUM fp d)))"
    for y q uinsn fx db i1 i2 e2
  proof (intro impI, elim conjE)
    assume t1: "FLONUM_P (mem cfp op1)" and t2: "FLONUM_P y"
      and u: "BASIC_OP_UNREDEFINED_P cfp bop FLOAT_REDEFINED_OP_FLAG"
      and fa: "float_num_arith ext bop = float_num_arith_of fp bop"
      and enc: "flonum_encoding_agrees fp
          (dbl_arith fp bop (RFLOAT_VALUE fp (mem cfp op1)) (RFLOAT_VALUE fp y))"
      and k1: "d1 = None \<or> d1 = Some (RFLOAT_VALUE fp (mem cfp op1))"
      and k2: "e2 = None \<or> e2 = Some (RFLOAT_VALUE fp y)"
    show "let d = dbl_arith fp bop (RFLOAT_VALUE fp (mem cfp op1)) (RFLOAT_VALUE fp y);
          rd = (if rd_p then Some d else None);
          v = spec_dbl2num d
      in if v \<noteq> Qundef
         then do_spec_flo_arithm fp res op1 y bop (spec_flo_num_arith fp bop) q uinsn rd_p d1 e2
                cfp = (False, None, rd, store cfp res v)
              \<and> do_arithm ext cd res op1 y bop fx (float_num_arith ext bop) db False q False
                   [] [] cfp = (0, store cfp res v)
              \<and> do_arithm ext cd res op1 y bop fx (float_num_arith ext bop) db False q True
                   i1 i2 cfp = (0, vm_change_insn (store cfp res v) i2)
         else do_spec_flo_arithm fp res op1 y bop (spec_flo_num_arith fp bop) q uinsn rd_p d1 e2
                cfp = (True, Some uinsn, rd, cfp)
              \<and> do_arithm ext cd res op1 y bop fx (float_num_arith ext bop) db False q False
                   [] [] cfp = (0, store cfp res (DBL2NUM fp d))"
      unfolding Let_def spec_flo_arithm_char [OF k1 k2] do_arithm_flonums [OF t1 t2 u] fa
      using t1 t2 u enc
      by (simp add: Let_def float_num_arith_of_def flonum_encoding_agrees_def)
  qed
  have flo_cmp: "FLONUM_P (mem cfp op1) \<and> FLONUM_P y
     \<and> BASIC_OP_UNREDEFINED_P cfp cop FLOAT_REDEFINED_OP_FLAG
     \<and> float_num_cmp ext cop = float_num_cmp_of fp cop
     \<and> flonum_cmp_agrees fp cop (mem cfp op1) y
     \<and> (d1 = None \<or> d1 = Some (RFLOAT_VALUE fp (mem cfp op1)))
     \<and> (e2 = None \<or> e2 = Some (RFLOAT_VALUE fp y)) \<longrightarrow>
     (let v = bool_val (dbl_cmp fp cop (RFLOAT_VALUE fp (mem cfp op1)) (RFLOAT_VALUE fp y))
      in do_spec_flo_cmp fp res op1 y cop (dbl_cmp fp cop) q uinsn d1 e2 cfp
           = (False, None, store cfp res v)
         \<and> do_cmp ext cd res op1 y cop fx (float_num_cmp ext cop) db False q False [] [] cfp
             = op_val_call_end ext res v cfp
         \<and> do_cmp ext cd res op1 y cop fx (float_num_cmp ext cop) db False q True i1 i2 cfp
             = op_val_call_end ext res v (vm_change_insn cfp i2)
         \<and> (\<not> (in_mjit_p cfp \<and> cancel_p cfp)
              \<longrightarrow> do_cmp ext cd res op1 y cop fx (float_num_cmp ext cop) db False q False [] []
                    cfp = (0, store cfp res v)))"
    for y q uinsn fx db i1 i2 e2
  proof (intro impI, elim conjE)
    assume t1: "FLONUM_P (mem cfp op1)" and t2: "FLONUM_P y"
      and u: "BASIC_OP_UNREDEFINED_P cfp cop FLOAT_REDEFINED_OP_FLAG"
      and fa: "float_num_cmp ext cop = float_num_cmp_of fp cop"
      and ag: "flonum_cmp_agrees fp cop (mem cfp op1) y"
      and k1: "d1 = None \<or> d1 = Some (RFLOAT_VALUE fp (mem cfp op1))"
      and k2: "e2 = None \<or> e2 = Some (RFLOAT_VALUE fp y)"
    show "let v = bool_val (dbl_cmp fp cop (RFLOAT_VALUE fp (mem cfp op1)) (RFLOAT_VALUE fp y))
      in do_spec_flo_cmp fp res op1 y cop (dbl_cmp fp cop) q uinsn d1 e2 cfp
           = (False, None, store cfp res v)
         \<and> do_cmp ext cd res op1 y cop fx (float_num_cmp ext cop) db False q False [] [] cfp
             = op_val_call_end ext res v cfp
         \<and> do_cmp ext cd res op1 y cop fx (float_num_cmp ext cop) db False q True i1 i2 cfp
             = op_val_call_end ext res v (vm_change_insn cfp i2)
         \<and> (\<not> (in_mjit_p cfp \<and> cancel_p cfp)
              \<longrightarrow> do_cmp ext cd res op1 y cop fx (float_num_cmp ext cop) db False q False [] []
                    cfp = (0, store cfp res v))"
      unfolding Let_def spec_flo_cmp_char [OF k1 k2] do_cmp_flonums [OF t1 t2 u] fa
      using t1 t2 u ag
      by (simp add: flonum_cmp_agrees_def op_val_call_end_value bool_val_ne_Qundef)
  qed
  have none: "((None :: double option) = None \<or> P) = True" "(Q \<and> True) = Q" for P Q
    by simp_all
  show ?thesis
    unfolding spec_fix_arithm_call_def spec_fix_arithm_imm_call_def spec_fix_arithm_op_def
      spec_fix_arithm_imm_op_def uarithm_call_def arithm_call_def uarithm_fix_call_def
      arithm_fix_call_def arithm_op_def arithm_imm_op_def spec_fix_cmp_call_def
      spec_fix_cmp_imm_call_def ucmp_call_def ucmp_fix_call_def cmp_call_def cmp_fix_call_def
      spec_flo_arithm_call_def spec_flo_arithm_imm_call_def spec_flo_arithm_op_def
      spec_flo_arithm_imm_op_def uarithm_flo_call_def arithm_flo_call_def
      spec_flo_cmp_call_def spec_flo_cmp_imm_call_def ucmp_flo_call_def cmp_flo_call_def
    apply (intro conjI)
           apply (rule fix_arith)
          apply (rule fix_arith)
         apply (rule fix_cmp)
        apply (rule fix_cmp)
       apply (rule flo_arith)
      apply (rule flo_arith [where ?e2.0 = None, unfolded none])
     apply (rule flo_cmp)
    apply (rule flo_cmp [where ?e2.0 = None, unfolded none])
    done
qed

theorem spec_generic_equivalence_witness:
  "FIXNUM_P (mem fix_frame 1) \<and> FIXNUM_P (mem fix_frame 2)
   \<and> BASIC_OP_UNREDEFINED_P fix_frame BOP_MULT INTEGER_REDEFINED_OP_FLAG
   \<and> fix_helpers_exact ext_num BOP_MULT (mem fix_frame 1) (mem fix_frame 2)
   \<and> rb_int2big ext_num (word_of_int (- FIXNUM_MIN)) \<noteq> Qundef
   \<and> speculated_range BOP_MULT (fix_int (mem fix_frame 1)) (fix_int (mem fix_frame 2))
   \<and> spec_fix_arithm_call ext_num BOP_MULT 0 1 2 fix_frame = (False, None, store fix_frame 0 25)
   \<and> uarithm_call ext_num BOP_MULT cd0 0 1 2 fix_frame = (0, store fix_frame 0 25)
   \<and> FLONUM_P (mem flo_frame 1) \<and> FLONUM_P (mem flo_frame 2)
   \<and> BASIC_OP_UNREDEFINED_P flo_frame BOP_PLUS FLOAT_REDEFINED_OP_FLAG
   \<and> float_num_arith ext_num BOP_PLUS = float_num_arith_of fp0 BOP_PLUS
   \<and> flonum_encoding_agrees fp0
        (dbl_arith fp0 BOP_PLUS (RFLOAT_VALUE fp0 (mem flo_frame 1))
           (RFLOAT_VALUE fp0 (mem flo_frame 2)))
   \<and> spec_flo_arithm_call fp0 BOP_PLUS 0 1 2 False None None flo_frame
       = (False, None, None, store flo_frame 0 66)
   \<and> uarithm_call ext_num BOP_PLUS cd0 0 1 2 flo_frame = (0, store flo_frame 0 66)"
proof -
  have m: "mem fix_frame 1 = 7" "mem fix_frame 2 = 9" "mem flo_frame 1 = 2" "mem flo_frame 2 = 6"
    by (simp_all add: fix_frame_def flo_frame_def store_def)
  have i: "fix_int 7 = 3" "fix_int 9 = 4" by (simp_all add: fix_int_div)
  have v: "LONG2NUM alloc 12 = 25" for alloc
    by (simp add: LONG2NUM_def LONG2FIX_alt RB_FIXABLE_def FIXNUM_MAX_def FIXNUM_MIN_def)
  have f: "FIXNUM_P (mem fix_frame 1)" "FIXNUM_P (mem fix_frame 2)"
    "FLONUM_P (mem flo_frame 1)" "FLONUM_P (mem flo_frame 2)"
    unfolding m by (simp_all add: FIXNUM_P_def FLONUM_P_def)
  have u: "BASIC_OP_UNREDEFINED_P fix_frame BOP_MULT INTEGER_REDEFINED_OP_FLAG"
    "BASIC_OP_UNREDEFINED_P flo_frame BOP_PLUS FLOAT_REDEFINED_OP_FLAG"
    by (simp_all add: BASIC_OP_UNREDEFINED_P_def fix_frame_def flo_frame_def store_def frame0_def)
  have r: "speculated_range BOP_MULT (fix_int (mem fix_frame 1)) (fix_int (mem fix_frame 2))"
    unfolding m i by (simp add: speculated_range_def RB_FIXABLE_def FIXNUM_MAX_def FIXNUM_MIN_def)
  have e: "exact_result BOP_MULT 3 4 = 12" by (simp add: exact_result_def)
  have h: "fix_helpers_exact ext_num BOP_MULT (mem fix_frame 1) (mem fix_frame 2)"
    unfolding m fix_helpers_exact_def Let_def i e
    by (simp add: v ext_num_def FIX2LONG_fix_int i LONG2FIX_alt)
  have big: "rb_int2big ext_num (word_of_int (- FIXNUM_MIN)) \<noteq> Qundef"
    by (simp add: ext_num_def ext0_def Qundef_def)
  have fa: "float_num_arith ext_num BOP_PLUS = float_num_arith_of fp0 BOP_PLUS"
    by (simp add: ext_num_def)
  have d: "dbl_arith fp0 BOP_PLUS (RFLOAT_VALUE fp0 (mem flo_frame 1))
             (RFLOAT_VALUE fp0 (mem flo_frame 2)) = 2"
    unfolding m by (simp add: fp0_def)
  have s: "spec_dbl2num 2 = 66" by code_simp
  have enc: "flonum_encoding_agrees fp0
        (dbl_arith fp0 BOP_PLUS (RFLOAT_VALUE fp0 (mem flo_frame 1))
           (RFLOAT_VALUE fp0 (mem flo_frame 2)))"
    by (simp add: flonum_encoding_agrees_def fp0_def)
  have q: "(66 :: VALUE) \<noteq> Qundef" by (simp add: Qundef_def)
  have fixp: "spec_fix_arithm_call ext_num BOP_MULT 0 1 2 fix_frame
                = (False, None, store fix_frame 0 25)
              \<and> uarithm_call ext_num BOP_MULT cd0 0 1 2 fix_frame = (0, store fix_frame 0 25)"
    using spec_generic_equivalence [where bop = BOP_MULT and cop = BOP_LT and cfp = fix_frame
        and ?op1.0 = 1 and ?op2.0 = 2 and ext = ext_num and res = 0 and cd = cd0,
        THEN conjunct1] f(1,2) u(1) h big r
    by (simp add: Let_def m i e v)
  have flop: "spec_flo_arithm_call fp0 BOP_PLUS 0 1 2 False None None flo_frame
                = (False, None, None, store flo_frame 0 66)
              \<and> uarithm_call ext_num BOP_PLUS cd0 0 1 2 flo_frame = (0, store flo_frame 0 66)"
    using spec_generic_equivalence [where bop = BOP_PLUS and cop = BOP_LT and cfp = flo_frame
        and ?op1.0 = 1 and ?op2.0 = 2 and ext = ext_num and fp = fp0 and res = 0 and cd = cd0
        and rd_p = False and ?d1.0 = None and ?d2.0 = None,
        THEN conjunct2, THEN conjunct2, THEN conjunct2, THEN conjunct2, THEN conjunct1]
      f(3,4) u(2) fa enc
    by (simp add: Let_def d s q)
  show ?thesis using f u h big r fa enc fixp flop by simp
qed

section \<open>The fixed-point iteration of the analyzer\<close>

lemma analysis_start_loop_iseq:
  "analysis_start loop_iseq (initialize_loc_stack_count loop_iseq rtl_gen_init)
   = Some loop_start"
  by code_simp

lemma sweep_loop_start: "sweep loop_iseq loop_start = Some (Some loop_state1)"
  by code_simp

lemma sweep_loop_state1: "sweep loop_iseq loop_state1 = Some (Some loop_state)"
  by code_simp

lemma sweep_loop_state: "sweep loop_iseq loop_state = Some (Some loop_state)"
  by code_simp

lemma change_loop_state: "stack_on_label_change_p loop_state"
  by (simp add: loop_state_def)

lemma change_loop_state1: "stack_on_label_change_p loop_state1"
  by (simp add: loop_state1_def loop_state_def)

text \<open>
  A sweep that starts in \<open>loop_state\<close> ends in \<open>loop_state\<close> with the change
  flag set, so the \<^verbatim>\<open>do ... while\<close> loop is never left from there.
\<close>

lemma sweeps_loop_state: "sweeps loop_iseq loop_state = None"
proof (cases "sweeps loop_iseq loop_state")
  case None
  then show ?thesis .
next
  case (Some y)
  have "\<not> (loop_iseq = loop_iseq \<and> loop_state = loop_state)"
  proof (rule sweeps.raw_induct
      [where P = "\<lambda>is g y. \<not> (is = loop_iseq \<and> g = loop_state)", OF _ Some])
    fix sweeps' is' g' y'
    assume ih: "\<And>g b y. sweeps' g b = Some y \<Longrightarrow> \<not> (g = loop_iseq \<and> b = loop_state)"
      and st: "(case sweep is' g' of None \<Rightarrow> None | Some None \<Rightarrow> Some None
               | Some (Some g1) \<Rightarrow>
                   if stack_on_label_change_p g1 then sweeps' is' g1 else Some (Some g1))
              = Some y'"
    show "\<not> (is' = loop_iseq \<and> g' = loop_state)"
    proof
      assume "is' = loop_iseq \<and> g' = loop_state"
      with st have "sweeps' loop_iseq loop_state = Some y'"
        by (simp add: sweep_loop_state change_loop_state)
      with ih show False by blast
    qed
  qed
  then show ?thesis by simp
qed

text \<open>
  C8 (the fixed-point iteration of \<^verbatim>\<open>find_stack_values_on_labels\<close> terminates for
  every input): on \<open>loop_iseq\<close> the iteration does not terminate.  The first
  sweep saves at label 17 the slot \<^verbatim>\<open>nil\<close> produced at 11, in code that only the
  continuation label 11 reaches; that label is put on the label stack once,
  before the first sweep.  Every later sweep restores the slot saved at 17,
  merges it at 18 into a slot that is a temporary already, sets the mark of
  position 11 again and reports a change, with no state left to change.
\<close>

theorem find_stack_values_on_labels_diverges:
  "find_stack_values_on_labels loop_iseq (initialize_loc_stack_count loop_iseq rtl_gen_init)
   = None"
proof -
  have "sweeps loop_iseq loop_state1 = None"
    by (subst sweeps.simps) (simp add: sweep_loop_state1 change_loop_state sweeps_loop_state)
  then have "sweeps loop_iseq loop_start = None"
    by (subst sweeps.simps) (simp add: sweep_loop_start change_loop_state1)
  then show ?thesis
    by (simp add: find_stack_values_on_labels_def analysis_start_loop_iseq)
qed

section \<open>Joins in the analyzer\<close>





text \<open>
  An ordinary join: on \<open>plain_join_iseq\<close> label 9 is entered by the \<^verbatim>\<open>jump\<close> at 5
  with the value pushed at 3 and by fall-through with the value pushed at 7, and
  both edges lie in code that every sweep visits.  The merge marks one producer
  per sweep (the producer of the saved slot first, the producer of the incoming
  slot once the saved slot is a temporary), and when the analyzer returns both
  are marked.
\<close>

lemma plain_join_marks_both_producers:
  "find_stack_values_on_labels plain_join_iseq
     (initialize_loc_stack_count plain_join_iseq rtl_gen_init) = Some (Some plain_join_fixed)
   \<and> pos_label_type plain_join_fixed ! 9 = BRANCH_LABEL
   \<and> mode (saved_stack_slots plain_join_fixed ! (label_start_stack_slot plain_join_fixed ! 9))
       = TEMP
   \<and> use_only_temp_result_p plain_join_fixed ! 3
   \<and> use_only_temp_result_p plain_join_fixed ! 7"
  by code_simp

text \<open>
  C3: when the analyzer returns, both producers of a join slot whose descriptor
  differs between two incoming states are marked and the slot saved at the join
  is a temporary.  The code does not achieve this on \<open>join_iseq\<close>.  Label 7 is
  entered with the value pushed at 1 and with the value pushed at 5, neither a
  temporary; the analyzer returns with the slot saved at the label a temporary
  and position 1 marked, and position 5 not marked: replayed in the final
  state, the instruction at 5 still pushes the unmaterialized value 7 onto the
  edge into the join.  Position 5 is reached only from the continuation label
  of the catch table, which is put on the label stack once, before the first
  sweep; the second mark would need a second visit.
\<close>

theorem join_producer_left_unmarked:
  "find_stack_values_on_labels join_iseq (initialize_loc_stack_count join_iseq rtl_gen_init)
     = Some (Some join_fixed)
   \<and> pos_label_type join_fixed ! 7 = BRANCH_LABEL
   \<and> mode (saved_stack_slots join_fixed ! (label_start_stack_slot join_fixed ! 7)) = TEMP
   \<and> use_only_temp_result_p join_fixed ! 1
   \<and> \<not> use_only_temp_result_p join_fixed ! 5
   \<and> map_option (\<lambda>r. stack (snd r))
        (update_stack_by_insn join_iseq 1 0
           (join_fixed\<lparr>stack := [], use_only_temp_result_p := replicate 10 False\<rparr>))
       = Some [\<lparr>mode = VAL, source_insn_pos = 1, u = 5\<rparr>]
   \<and> map_option (\<lambda>r. stack (snd r))
        (update_stack_by_insn join_iseq 5 0 (join_fixed\<lparr>stack := []\<rparr>))
       = Some [\<lparr>mode = VAL, source_insn_pos = 5, u = 7\<rparr>]"
  by code_simp

section \<open>Temporaries denote stack positions\<close>

















subsection \<open>Rules for results\<close>

lemma returns_Some [simp]: "returns P (Some x) \<longleftrightarrow> P x"
  by (simp add: returns_def)

lemma returns_None [simp]: "returns P None"
  by (simp add: returns_def)


lemma returnsD: "returns P r \<Longrightarrow> r = Some x \<Longrightarrow> P x"
  by simp










subsection \<open>The correspondence under the primitives\<close>

lemma kept_Some:
  "kept g0 (Some g) \<longleftrightarrow> temp_slots_ok g \<and> max_stack_depth g0 \<le> max_stack_depth g"
  by (simp add: kept_def)


lemma kept_updates [simp]:
  "kept g0 (Some (g\<lparr>loc_stack_count := a1\<rparr>)) = kept g0 (Some g)"
  "kept g0 (Some (g\<lparr>label_pos_stack := a2\<rparr>)) = kept g0 (Some g)"
  "kept g0 (Some (g\<lparr>pos_stack_free := a3\<rparr>)) = kept g0 (Some g)"
  "kept g0 (Some (g\<lparr>pos_label_type := a4\<rparr>)) = kept g0 (Some g)"
  "kept g0 (Some (g\<lparr>label_processed_p := a5\<rparr>)) = kept g0 (Some g)"
  "kept g0 (Some (g\<lparr>catch_bound_pos_p := a6\<rparr>)) = kept g0 (Some g)"
  "kept g0 (Some (g\<lparr>use_only_temp_result_p := a7\<rparr>)) = kept g0 (Some g)"
  "kept g0 (Some (g\<lparr>label_start_stack_slot := a8\<rparr>)) = kept g0 (Some g)"
  "kept g0 (Some (g\<lparr>saved_stack_slots := a9\<rparr>)) = kept g0 (Some g)"
  "kept g0 (Some (g\<lparr>stack_on_label_change_p := b1\<rparr>)) = kept g0 (Some g)"
  "kept g0 (Some (g\<lparr>iseq_rtl := b2\<rparr>)) = kept g0 (Some g)"
  "kept g0 (Some (g\<lparr>curr_catch_rtl_pos := b3\<rparr>)) = kept g0 (Some g)"
  "kept g0 (Some (g\<lparr>curr_source_insn_pos := b4\<rparr>)) = kept g0 (Some g)"
  by (simp_all add: kept_Some temp_slots_ok_def)




































subsection \<open>The first pass\<close>

















subsection \<open>The second pass\<close>
































subsection \<open>The correspondence\<close>




end
